theory Spec2Isabelle
  imports Complex_Main "HOL-Library.Word"
begin

section \<open>The MDL molfile parser of MolFileParser.cpp\<close>

text \<open>
  A shallow embedding of \<^verbatim>\<open>Code/GraphMol/FileParsers/MolFileParser.cpp\<close>.
  Every C++ exception is a value of \<open>error\<close>; a function that can throw returns
  \<open>error + 'a\<close>.  Functions that read the stream, bump the line counter or write to
  the warning log run in the monad \<open>'a M\<close> over \<open>pstate\<close>; the state survives an
  exception, as the stream position and the caller's line counter do.
\<close>

subsection \<open>Exceptions\<close>

datatype error =
    FileParseException string
  | bad_lexical_cast
  | out_of_range
  | Invariant string
  | MolSanitizeException string
  | Undefined string

text \<open>
  \<open>Invariant\<close> is what the macros \<^verbatim>\<open>PRECONDITION\<close>, \<^verbatim>\<open>POSTCONDITION\<close>,
  \<^verbatim>\<open>ASSERT_INVARIANT\<close> and \<^verbatim>\<open>RANGE_CHECK\<close> of RDGeneral/Invariant.h throw;
  \<open>out_of_range\<close> is thrown by \<^verbatim>\<open>std::string::substr\<close> and \<^verbatim>\<open>erase\<close>;
  \<open>Undefined\<close> marks the places where the C++ has no defined behaviour (a null
  pointer dereference, a read past the end of a string).
\<close>

definition bindE :: "error + 'a \<Rightarrow> ('a \<Rightarrow> error + 'b) \<Rightarrow> error + 'b" where
  "bindE m f = (case m of Inl e \<Rightarrow> Inl e | Inr v \<Rightarrow> f v)"

definition PRECONDITION :: "bool \<Rightarrow> string \<Rightarrow> error + unit" where
  "PRECONDITION c msg = (if c then Inr () else Inl (Invariant msg))"

definition RANGE_CHECK :: "int \<Rightarrow> int \<Rightarrow> int \<Rightarrow> error + unit" where
  "RANGE_CHECK lo x hi =
     (if lo > hi \<or> x < lo \<or> x > hi then Inl (Invariant ''Range Error'') else Inr ())"

text \<open>
  \<^verbatim>\<open>catch (boost::bad_lexical_cast &) { throw FileParseException(msg); }\<close>:
  only that exception is converted, every other one passes through.
\<close>

definition catch_lexical_cast :: "error + 'a \<Rightarrow> string \<Rightarrow> error + 'a" where
  "catch_lexical_cast m msg =
     (case m of Inl bad_lexical_cast \<Rightarrow> Inl (FileParseException msg) | r \<Rightarrow> r)"

subsection \<open>Strings and numbers of the C and C++ libraries\<close>

definition substr :: "string \<Rightarrow> nat \<Rightarrow> nat \<Rightarrow> error + string" where
  "substr s pos n = (if pos > length s then Inl out_of_range else Inr (take n (drop pos s)))"

text \<open>
  \<open>substr0\<close> is \<^verbatim>\<open>s.substr(0,n)\<close>, which cannot throw; \<open>substr_msg\<close> is the
  \<^verbatim>\<open>substr\<close> executed inside a catch handler to build the message, whose own
  exception replaces the one being handled.
\<close>

definition substr0 :: "string \<Rightarrow> nat \<Rightarrow> string" where
  "substr0 s n = take n s"

text \<open>\<^verbatim>\<open>s[i]\<close> for \<open>i \<le> size\<close>: the terminating NUL at \<open>i = size\<close>.\<close>

definition char_at :: "string \<Rightarrow> nat \<Rightarrow> char" where
  "char_at s i = (if i < length s then s ! i else CHR 0x00)"

definition isspace :: "char \<Rightarrow> bool" where
  "isspace c = (c = CHR '' '' \<or> c = CHR 0x09 \<or> c = CHR 0x0A \<or> c = CHR 0x0B
                \<or> c = CHR 0x0C \<or> c = CHR 0x0D)"

definition isdigit :: "char \<Rightarrow> bool" where
  "isdigit c = (48 \<le> (of_char c :: nat) \<and> (of_char c :: nat) \<le> 57)"

definition digit_val :: "char \<Rightarrow> int" where
  "digit_val c = (of_char c :: int) - 48"

definition trim_copy :: "string \<Rightarrow> string" where
  "trim_copy s = rev (dropWhile isspace (rev (dropWhile isspace s)))"

definition toupper :: "char \<Rightarrow> char" where
  "toupper c = (if 97 \<le> (of_char c :: nat) \<and> (of_char c :: nat) \<le> 122
                then char_of ((of_char c :: nat) - 32) else c)"

definition to_upper :: "string \<Rightarrow> string" where
  "to_upper s = map toupper s"

text \<open>The value of the longest prefix of decimal digits, most significant first.\<close>

fun digits_value :: "int \<Rightarrow> string \<Rightarrow> int" where
  "digits_value acc [] = acc"
| "digits_value acc (c # cs) =
     (if isdigit c then digits_value (10 * acc + digit_val c) cs else acc)"

text \<open>
  The number \<^verbatim>\<open>strtol\<close> reads in base 10, before any range is applied: leading
  white space is skipped, one sign is accepted, the digits that follow are read and the
  rest is ignored; without digits the result is 0.
\<close>

definition decimal_value :: "string \<Rightarrow> int" where
  "decimal_value s =
     (case dropWhile isspace s of
        [] \<Rightarrow> 0
      | c # cs \<Rightarrow>
          if c = CHR ''-'' then - digits_value 0 cs
          else if c = CHR ''+'' then digits_value 0 cs
          else digits_value 0 (c # cs))"

text \<open>The conversion of a wider integer to a 32-bit \<^verbatim>\<open>int\<close>: the low 32 bits, signed.\<close>

definition int32_of :: "int \<Rightarrow> int" where
  "int32_of v = (v + 2 ^ 31) mod 2 ^ 32 - 2 ^ 31"

text \<open>
  \<^verbatim>\<open>atoi\<close>.  C leaves the result undefined when the number does not fit an
  \<^verbatim>\<open>int\<close>; the C library the parser is built with returns
  \<^verbatim>\<open>(int) strtol(s, NULL, 10)\<close>: \<^verbatim>\<open>strtol\<close> answers the nearest 64-bit
  \<^verbatim>\<open>long\<close> and the conversion keeps its low 32 bits.
\<close>

definition atoi :: "string \<Rightarrow> int" where
  "atoi s = int32_of (max (- (2 ^ 63)) (min (2 ^ 63 - 1) (decimal_value s)))"

text \<open>
  \<^verbatim>\<open>boost::lexical_cast<unsigned int>\<close>: the whole string must be a decimal number,
  with an optional sign; a minus sign negates in unsigned arithmetic, a value that does
  not fit 32 bits is refused.
\<close>

definition lexical_cast_uint :: "string \<Rightarrow> error + 32 word" where
  "lexical_cast_uint s =
     (let neg = (s \<noteq> [] \<and> hd s = CHR ''-'');
          ds = (if s \<noteq> [] \<and> (hd s = CHR ''-'' \<or> hd s = CHR ''+'') then tl s else s)
      in if ds = [] \<or> \<not> list_all isdigit ds \<or> digits_value 0 ds \<ge> 2 ^ 32
         then Inl bad_lexical_cast
         else Inr (if neg then - word_of_int (digits_value 0 ds)
                   else word_of_int (digits_value 0 ds)))"

fun show_nat :: "nat \<Rightarrow> string" where
  "show_nat n = (if n < 10 then [char_of (48 + n)]
                 else show_nat (n div 10) @ [char_of (48 + n mod 10)])"

declare show_nat.simps [simp del]

definition show_int :: "int \<Rightarrow> string" where
  "show_int i = (if i < 0 then CHR ''-'' # show_nat (nat (- i)) else show_nat (nat i))"

subsection \<open>The conversion helpers of the parser\<close>

text \<open>\<^verbatim>\<open>stripSpacesAndCast<unsigned int>\<close>, the only instance the file uses.\<close>

definition stripSpacesAndCast :: "string \<Rightarrow> bool \<Rightarrow> error + 32 word" where
  "stripSpacesAndCast input acceptSpaces =
     (let trimmed = trim_copy input
      in if acceptSpaces \<and> trimmed = [] then Inr 0 else lexical_cast_uint trimmed)"

definition toInt :: "string \<Rightarrow> bool \<Rightarrow> error + int" where
  "toInt input acceptSpaces =
     (let res = atoi input
      in if res = 0 \<and> \<not> acceptSpaces \<and> char_at input 0 = CHR '' '' \<and> length (trim_copy input) = 0
         then Inl bad_lexical_cast
         else Inr res)"

text \<open>
  A \<^verbatim>\<open>double\<close> is the rational number it holds; there is no infinity and no NaN
  here.  \<open>binary64\<close> is the rounding every operation on doubles ends with: to the
  nearest number with a 53-bit significand (to the nearest multiple of \<open>2 ^ -1074\<close> for
  the subnormal numbers), ties to the even significand.  A number beyond the largest
  double, which C rounds to infinity, is rounded in the same way and stays finite.
\<close>

type_synonym double = rat

fun bit_length :: "nat \<Rightarrow> nat" where
  "bit_length n = (if n = 0 then 0 else Suc (bit_length (n div 2)))"

declare bit_length.simps [simp del]

definition scale2 :: "int \<Rightarrow> rat \<Rightarrow> rat" where
  "scale2 e r = (if e \<ge> 0 then r * 2 ^ nat e else r / 2 ^ nat (- e))"

text \<open>The exponent of the largest power of two that is at most \<open>r\<close>, for positive \<open>r\<close>.\<close>

definition floor_log2 :: "rat \<Rightarrow> int" where
  "floor_log2 r =
     (if 1 \<le> r then int (bit_length (nat \<lfloor>r\<rfloor>)) - 1
      else (let k = - int (bit_length (nat \<lfloor>1 / r\<rfloor>))
            in if scale2 (k + 1) 1 \<le> r then k + 1 else k))"

definition round_half_even :: "rat \<Rightarrow> int" where
  "round_half_even r =
     (let f = \<lfloor>r\<rfloor>; d = r - of_int f
      in if d < 1 / 2 then f else if 1 / 2 < d then f + 1 else if even f then f else f + 1)"

definition binary64 :: "rat \<Rightarrow> double" where
  "binary64 r =
     (if r = 0 then 0
      else
        let a = \<bar>r\<bar>;
            e = max (- 1074) (floor_log2 a - 52);
            v = scale2 e (of_int (round_half_even (scale2 (- e) a)))
        in if r < 0 then - v else v)"

text \<open>
  toDouble: \<^verbatim>\<open>atof\<close> is a parameter of the model (see \<open>ext\<close>) and returns the double
  the C library returns.
\<close>

definition toDouble :: "(string \<Rightarrow> double) \<Rightarrow> string \<Rightarrow> bool \<Rightarrow> error + double" where
  "toDouble atof_fn input acceptSpaces =
     (let res = atof_fn input
      in if res = 0 \<and> \<not> acceptSpaces \<and> char_at input 0 = CHR '' '' \<and> length (trim_copy input) = 0
         then Inl bad_lexical_cast
         else Inr res)"

text \<open>
  \<^verbatim>\<open>static_cast<int>(d)\<close> truncates the double towards zero; C leaves the result
  undefined when it does not fit an \<^verbatim>\<open>int\<close>.
\<close>

definition double_to_int :: "double \<Rightarrow> int" where
  "double_to_int d = (if d \<ge> 0 then \<lfloor>d\<rfloor> else \<lceil>d\<rceil>)"

subsection \<open>The molecule under construction\<close>

text \<open>
  The graph classes (Atom, QueryAtom, Bond, QueryBond, Conformer, RWMol, the Query
  templates and the query factories of QueryOps.h) are collaborators of the parser and
  are not part of the file.  They are modelled by the data the parser stores in them
  and by the checks their methods make (\<^verbatim>\<open>RANGE_CHECK\<close> in \<^verbatim>\<open>getAtomWithIdx\<close>,
  \<^verbatim>\<open>replaceAtom\<close> and \<^verbatim>\<open>addBond\<close>).
\<close>

datatype propval = PInt int | PUInt "32 word" | PBool bool | PString string

type_synonym props = "(string \<times> propval) list"

definition setProp :: "string \<Rightarrow> propval \<Rightarrow> props \<Rightarrow> props" where
  "setProp k v ps = (k, v) # filter (\<lambda>p. fst p \<noteq> k) ps"

definition hasProp :: "string \<Rightarrow> props \<Rightarrow> bool" where
  "hasProp k ps = (k \<in> set (map fst ps))"

definition clearProp :: "string \<Rightarrow> props \<Rightarrow> props" where
  "clearProp k ps = filter (\<lambda>p. fst p \<noteq> k) ps"

datatype qclass = EqualityQuery | LessEqualQuery | AndQuery | OrQuery | BaseQuery

datatype datafunc =
    queryAtomNum | queryAtomFormalCharge | queryAtomMass | queryAtomExplicitDegree
  | queryAtomRingBondCount | queryAtomUnsaturated | queryAtomHCount | nullDataFun
  | queryBondOrder | queryIsBondInRing | noDataFunc

text \<open>
  A node of a query tree: its class, description, negation flag, the value compared
  against (only the comparison classes have one), its data function and its children.
\<close>

datatype query =
  Query (qclass: qclass) (description: string) (negation: bool) (qval: "int option")
        (dataFunc: datafunc) (children: "query list")

definition setNegation :: "bool \<Rightarrow> query \<Rightarrow> query" where
  "setNegation b q = Query (qclass q) (description q) b (qval q) (dataFunc q) (children q)"

definition setVal :: "int \<Rightarrow> query \<Rightarrow> query" where
  "setVal v q = Query (qclass q) (description q) (negation q) (Some v) (dataFunc q) (children q)"

definition addChild :: "query \<Rightarrow> query \<Rightarrow> query" where
  "addChild c q =
     Query (qclass q) (description q) (negation q) (qval q) (dataFunc q) (children q @ [c])"

definition makeAtomNumEqualsQuery :: "int \<Rightarrow> query" where
  "makeAtomNumEqualsQuery v = Query EqualityQuery ''AtomAtomicNum'' False (Some v) queryAtomNum []"

definition makeAtomFormalChargeQuery :: "int \<Rightarrow> query" where
  "makeAtomFormalChargeQuery v =
     Query EqualityQuery ''AtomFormalCharge'' False (Some v) queryAtomFormalCharge []"

definition makeAtomMassQuery :: "int \<Rightarrow> query" where
  "makeAtomMassQuery v = Query EqualityQuery ''AtomMass'' False (Some v) queryAtomMass []"

definition makeAtomExplicitDegreeQuery :: "int \<Rightarrow> query" where
  "makeAtomExplicitDegreeQuery v =
     Query EqualityQuery ''AtomExplicitDegree'' False (Some v) queryAtomExplicitDegree []"

definition makeAtomRingBondCountQuery :: "int \<Rightarrow> query" where
  "makeAtomRingBondCountQuery v =
     Query EqualityQuery ''AtomRingBondCount'' False (Some v) queryAtomRingBondCount []"

definition makeAtomHCountQuery :: "int \<Rightarrow> query" where
  "makeAtomHCountQuery v = Query EqualityQuery ''AtomHCount'' False (Some v) queryAtomHCount []"

definition makeAtomUnsaturatedQuery :: query where
  "makeAtomUnsaturatedQuery =
     Query EqualityQuery ''AtomUnsaturated'' False (Some 1) queryAtomUnsaturated []"

definition makeAtomNullQuery :: query where
  "makeAtomNullQuery = Query BaseQuery ''AtomNull'' False None nullDataFun []"

definition new_ATOM_OR_QUERY :: query where
  "new_ATOM_OR_QUERY = Query OrQuery [] False None noDataFunc []"

definition setDescription :: "string \<Rightarrow> query \<Rightarrow> query" where
  "setDescription d q = Query (qclass q) d (negation q) (qval q) (dataFunc q) (children q)"

datatype CompositeQueryType = COMPOSITE_AND | COMPOSITE_OR

text \<open>
  \<^verbatim>\<open>expandQuery(what, how, maintainOrder = true)\<close> of a query atom or bond: the old
  query and \<open>what\<close> become the two children of a new combinator.
\<close>

definition expandQuery_on :: "string \<Rightarrow> query \<Rightarrow> query \<Rightarrow> CompositeQueryType \<Rightarrow> query" where
  "expandQuery_on pre orig what how =
     (case how of
        COMPOSITE_AND \<Rightarrow> Query AndQuery (pre @ ''And'') False None noDataFunc [orig, what]
      | COMPOSITE_OR \<Rightarrow> Query OrQuery (pre @ ''Or'') False None noDataFunc [orig, what])"

record Atom =
  atomicNum :: int
  formalCharge :: int
  mass :: double
  numRadicalElectrons :: nat
  noImplicit :: bool
  isAromatic :: bool
  explicitValence :: "int option"
  atomProps :: props
  atomQuery :: "query option"

definition new_Atom :: "int \<Rightarrow> Atom" where
  "new_Atom num = \<lparr> atomicNum = num, formalCharge = 0, mass = 0, numRadicalElectrons = 0,
      noImplicit = False, isAromatic = False, explicitValence = None, atomProps = [],
      atomQuery = None \<rparr>"

text \<open>
  \<^verbatim>\<open>QueryAtom(const Atom &other)\<close> copies the atom and starts from the query
  "atomic number equals that of \<open>other\<close>", whatever query \<open>other\<close> carried.
\<close>

definition QueryAtom_of :: "Atom \<Rightarrow> Atom" where
  "QueryAtom_of a = a \<lparr> atomQuery := Some (makeAtomNumEqualsQuery (atomicNum a)) \<rparr>"

definition new_QueryAtom :: "int \<Rightarrow> Atom" where
  "new_QueryAtom num = QueryAtom_of (new_Atom num)"

definition hasQuery :: "Atom \<Rightarrow> bool" where
  "hasQuery a = (atomQuery a \<noteq> None)"

text \<open>\<^verbatim>\<open>Atom::expandQuery\<close> and \<^verbatim>\<open>Atom::getQuery\<close> on a plain atom violate a precondition.\<close>

definition expandQuery :: "query \<Rightarrow> CompositeQueryType \<Rightarrow> Atom \<Rightarrow> error + Atom" where
  "expandQuery what how a =
     (case atomQuery a of
        None \<Rightarrow> Inl (Invariant ''plain atoms have no Query'')
      | Some orig \<Rightarrow> Inr (a \<lparr> atomQuery := Some (expandQuery_on ''Atom'' orig what how) \<rparr>))"

datatype BondType = UNSPECIFIED | SINGLE | DOUBLE | TRIPLE | AROMATIC

datatype BondDir = NONE | BEGINWEDGE | BEGINDASH | EITHERDOUBLE | UNKNOWN

datatype BondStereo = STEREONONE | STEREOANY

record Bond =
  beginAtomIdx :: "32 word"
  endAtomIdx :: "32 word"
  bondType :: BondType
  bondDir :: BondDir
  stereo :: BondStereo
  bondIsAromatic :: bool
  bondProps :: props
  bondQuery :: "query option"

definition new_Bond :: "BondType \<Rightarrow> Bond" where
  "new_Bond t = \<lparr> beginAtomIdx = 0, endAtomIdx = 0, bondType = t, bondDir = NONE,
      stereo = STEREONONE, bondIsAromatic = False, bondProps = [], bondQuery = None \<rparr>"

text \<open>The numeric values of the enumeration \<^verbatim>\<open>Bond::BondType\<close>.\<close>

definition BondType_code :: "BondType \<Rightarrow> int" where
  "BondType_code t = (case t of UNSPECIFIED \<Rightarrow> 0 | SINGLE \<Rightarrow> 1 | DOUBLE \<Rightarrow> 2 | TRIPLE \<Rightarrow> 3
                      | AROMATIC \<Rightarrow> 12)"

definition makeBondOrderEqualsQuery :: "BondType \<Rightarrow> query" where
  "makeBondOrderEqualsQuery t =
     Query EqualityQuery ''BondOrder'' False (Some (BondType_code t)) queryBondOrder []"

definition makeBondIsInRingQuery :: query where
  "makeBondIsInRingQuery = Query EqualityQuery ''BondInRing'' False (Some 1) queryIsBondInRing []"

definition makeBondNullQuery :: query where
  "makeBondNullQuery = Query BaseQuery ''BondNull'' False None nullDataFun []"

definition new_BOND_OR_QUERY :: query where
  "new_BOND_OR_QUERY = Query OrQuery [] False None noDataFunc []"

text \<open>\<^verbatim>\<open>new QueryBond\<close> has no query yet; \<^verbatim>\<open>QueryBond(const Bond &)\<close> starts from
  "bond order equals that of the bond".\<close>

definition QueryBond_of :: "Bond \<Rightarrow> Bond" where
  "QueryBond_of b = b \<lparr> bondQuery := Some (makeBondOrderEqualsQuery (bondType b)) \<rparr>"

definition bond_expandQuery :: "query \<Rightarrow> Bond \<Rightarrow> error + Bond" where
  "bond_expandQuery what b =
     (case bondQuery b of
        None \<Rightarrow> Inl (Invariant ''plain bonds have no Query'')
      | Some orig \<Rightarrow> Inr (b \<lparr> bondQuery := Some (expandQuery_on ''Bond'' orig what COMPOSITE_AND) \<rparr>))"

type_synonym Point3D = "double \<times> double \<times> double"

record Conformer =
  positions :: "Point3D list"
  is3D :: bool

definition new_Conformer :: "nat \<Rightarrow> Conformer" where
  "new_Conformer n = \<lparr> positions = replicate n (0, 0, 0), is3D = True \<rparr>"

text \<open>\<^verbatim>\<open>Conformer::setAtomPos\<close> grows the vector when the index is past its end.\<close>

definition setAtomPos :: "nat \<Rightarrow> Point3D \<Rightarrow> Conformer \<Rightarrow> Conformer" where
  "setAtomPos aid pos c =
     c \<lparr> positions :=
           (positions c @ replicate (Suc aid - length (positions c)) (0, 0, 0)) [aid := pos] \<rparr>"

record RWMol =
  atoms :: "Atom list"
  bonds :: "Bond list"
  molProps :: props
  conformers :: "Conformer list"
  atomBookmarks :: "(32 word \<times> nat list) list"
  bondBookmarks :: "(32 word \<times> nat list) list"

definition new_RWMol :: RWMol where
  "new_RWMol = \<lparr> atoms = [], bonds = [], molProps = [], conformers = [],
      atomBookmarks = [], bondBookmarks = [] \<rparr>"

definition getNumAtoms :: "RWMol \<Rightarrow> 32 word" where
  "getNumAtoms m = word_of_nat (length (atoms m))"

definition getAtomWithIdx :: "RWMol \<Rightarrow> 32 word \<Rightarrow> error + Atom" where
  "getAtomWithIdx m idx =
     (if unat idx < length (atoms m) then Inr (atoms m ! unat idx)
      else Inl (Invariant ''Range Error''))"

text \<open>\<^verbatim>\<open>mol->getAtomWithIdx(idx)->setX(v)\<close>: an update of the atom in place.\<close>

definition updateAtom :: "RWMol \<Rightarrow> 32 word \<Rightarrow> (Atom \<Rightarrow> Atom) \<Rightarrow> error + RWMol" where
  "updateAtom m idx f =
     bindE (getAtomWithIdx m idx) (\<lambda>a. Inr (m \<lparr> atoms := (atoms m) [unat idx := f a] \<rparr>))"

definition replaceAtom :: "RWMol \<Rightarrow> 32 word \<Rightarrow> Atom \<Rightarrow> error + RWMol" where
  "replaceAtom m idx a =
     (if unat idx < length (atoms m) then Inr (m \<lparr> atoms := (atoms m) [unat idx := a] \<rparr>)
      else Inl (Invariant ''Range Error''))"

definition addAtom :: "RWMol \<Rightarrow> Atom \<Rightarrow> RWMol \<times> nat" where
  "addAtom m a =
     (m \<lparr> atoms := atoms m @ [a],
          conformers := map (setAtomPos (length (atoms m)) (0, 0, 0)) (conformers m) \<rparr>,
      length (atoms m))"

definition getDegree :: "RWMol \<Rightarrow> nat \<Rightarrow> int" where
  "getDegree m i =
     int (length (filter (\<lambda>b. unat (beginAtomIdx b) = i \<or> unat (endAtomIdx b) = i) (bonds m)))"

definition bondBetween :: "RWMol \<Rightarrow> 32 word \<Rightarrow> 32 word \<Rightarrow> bool" where
  "bondBetween m i j =
     list_ex (\<lambda>b. (beginAtomIdx b = i \<and> endAtomIdx b = j) \<or> (beginAtomIdx b = j \<and> endAtomIdx b = i))
       (bonds m)"

text \<open>
  Modelled from the spec: every bond of the molecule under construction has its begin
  and end indices in range and distinct (sections 3 and 8).  \<^verbatim>\<open>addBond\<close> of the
  graph class, whose code is outside the file, refuses a bond that would break this, and
  a second bond between the same two atoms.
\<close>

definition addBond :: "RWMol \<Rightarrow> Bond \<Rightarrow> error + RWMol" where
  "addBond m b =
     (if \<not> unat (beginAtomIdx b) < length (atoms m) then Inl (Invariant ''Range Error'')
      else if \<not> unat (endAtomIdx b) < length (atoms m) then Inl (Invariant ''Range Error'')
      else if beginAtomIdx b = endAtomIdx b then Inl (Invariant ''attempt to add self-bond'')
      else if bondBetween m (beginAtomIdx b) (endAtomIdx b) then Inl (Invariant ''bond already exists'')
      else Inr (m \<lparr> bonds := bonds m @ [b] \<rparr>))"

definition addConformer :: "RWMol \<Rightarrow> Conformer \<Rightarrow> error + RWMol" where
  "addConformer m c =
     (if length (positions c) \<noteq> length (atoms m) then Inl (Invariant ''Number of atom mismatch'')
      else Inr (m \<lparr> conformers := conformers m @ [c] \<rparr>))"

definition setAtomBookmark :: "RWMol \<Rightarrow> nat \<Rightarrow> 32 word \<Rightarrow> RWMol" where
  "setAtomBookmark m a mark =
     m \<lparr> atomBookmarks :=
           (case map_of (atomBookmarks m) mark of
              None \<Rightarrow> atomBookmarks m @ [(mark, [a])]
            | Some l \<Rightarrow> map (\<lambda>p. if fst p = mark then (mark, l @ [a]) else p) (atomBookmarks m)) \<rparr>"

definition setBondBookmark :: "RWMol \<Rightarrow> nat \<Rightarrow> 32 word \<Rightarrow> RWMol" where
  "setBondBookmark m b mark =
     m \<lparr> bondBookmarks :=
           (case map_of (bondBookmarks m) mark of
              None \<Rightarrow> bondBookmarks m @ [(mark, [b])]
            | Some l \<Rightarrow> map (\<lambda>p. if fst p = mark then (mark, l @ [b]) else p) (bondBookmarks m)) \<rparr>"

definition getAtomWithBookmark :: "RWMol \<Rightarrow> 32 word \<Rightarrow> error + nat" where
  "getAtomWithBookmark m mark =
     (case map_of (atomBookmarks m) mark of
        Some (a # _) \<Rightarrow> Inr a
      | _ \<Rightarrow> Inl (Invariant ''atom bookmark not found''))"

subsection \<open>The collaborators the parser calls\<close>

text \<open>
  The C library's \<^verbatim>\<open>atof\<close>, the periodic table, the data functions of the query
  leaves, the valence calculation and the sanitization and stereochemistry passes are
  outside the file.  They are parameters of the model: every theorem below holds for
  whatever they compute, unless it states an assumption about them.
\<close>

record ext =
  atof :: "string \<Rightarrow> double"
  getAtomicNumber :: "string \<Rightarrow> error + int"
  getAtomicWeight :: "int \<Rightarrow> error + double"
  queryDataFunc :: "datafunc \<Rightarrow> RWMol \<Rightarrow> nat \<Rightarrow> int"
  calcExplicitValence :: "RWMol \<Rightarrow> nat \<Rightarrow> int"
  cleanUp :: "RWMol \<Rightarrow> error + RWMol"
  DetectAtomStereoChemistry :: "RWMol \<Rightarrow> error + RWMol"
  removeHs :: "RWMol \<Rightarrow> error + RWMol"
  sanitizeMol :: "RWMol \<Rightarrow> error + RWMol"
  ClearSingleBondDirFlags :: "RWMol \<Rightarrow> error + RWMol"
  DetectBondStereoChemistry :: "RWMol \<Rightarrow> error + RWMol"
  assignStereochemistry :: "RWMol \<Rightarrow> error + RWMol"

subsection \<open>Promotion of an atom to a query atom\<close>

definition replaceAtomWithQueryAtom :: "RWMol \<Rightarrow> 32 word \<Rightarrow> error + RWMol" where
  "replaceAtomWithQueryAtom m idx =
     bindE (getAtomWithIdx m idx) (\<lambda>atom.
       if hasQuery atom then Inr m
       else
         bindE (if formalCharge atom \<noteq> 0
                then expandQuery (makeAtomFormalChargeQuery (formalCharge atom)) COMPOSITE_AND
                       (QueryAtom_of atom)
                else Inr (QueryAtom_of atom)) (\<lambda>qa.
         bindE (if hasProp ''_hasMassQuery'' (atomProps atom)
                then expandQuery (makeAtomMassQuery (double_to_int (mass atom))) COMPOSITE_AND qa
                else Inr qa) (\<lambda>qa'.
         replaceAtom m idx qa')))"

text \<open>
  \<^verbatim>\<open>if(!atom->hasQuery()) atom=replaceAtomWithQueryAtom(mol,atom);
  atom->expandQuery(q,how);\<close> as the property records do it.
\<close>

definition promote_and_expand :: "RWMol \<Rightarrow> 32 word \<Rightarrow> query \<Rightarrow> error + RWMol" where
  "promote_and_expand m idx q =
     bindE (getAtomWithIdx m idx) (\<lambda>atom.
     bindE (if \<not> hasQuery atom then replaceAtomWithQueryAtom m idx else Inr m) (\<lambda>m'.
     bindE (getAtomWithIdx m' idx) (\<lambda>atom'.
     bindE (expandQuery q COMPOSITE_AND atom') (\<lambda>atom''.
     replaceAtom m' idx atom''))))"

subsection \<open>The V2000 property records\<close>

definition cannot_convert :: "string \<Rightarrow> string" where
  "cannot_convert f = ''Cannot convert '' @ f @ '' to int''"

text \<open>A field read with \<open>toInt\<close> inside a try block whose handler reports that field.\<close>

definition int_field :: "string \<Rightarrow> nat \<Rightarrow> nat \<Rightarrow> error + int" where
  "int_field text pos n =
     bindE (substr text pos n) (\<lambda>f. catch_lexical_cast (toInt f False) (cannot_convert f))"

definition uint_field :: "string \<Rightarrow> nat \<Rightarrow> nat \<Rightarrow> error + 32 word" where
  "uint_field text pos n =
     bindE (substr text pos n) (\<lambda>f. catch_lexical_cast (stripSpacesAndCast f False) (cannot_convert f))"

definition setFormalCharge :: "int \<Rightarrow> Atom \<Rightarrow> Atom" where
  "setFormalCharge c a = a \<lparr> formalCharge := c \<rparr>"

definition resetFormalCharges :: "RWMol \<Rightarrow> RWMol" where
  "resetFormalCharges m = m \<lparr> atoms := map (setFormalCharge 0) (atoms m) \<rparr>"

fun ParseChargeLine_entries :: "nat \<Rightarrow> string \<Rightarrow> nat \<Rightarrow> RWMol \<Rightarrow> error + RWMol" where
  "ParseChargeLine_entries 0 text spos m = Inr m"
| "ParseChargeLine_entries (Suc n) text spos m =
     bindE (int_field text spos 4) (\<lambda>aid.
     bindE (int_field text (spos + 4) 4) (\<lambda>chg.
     bindE (updateAtom m (word_of_int (aid - 1)) (setFormalCharge chg)) (\<lambda>m'.
     ParseChargeLine_entries n text (spos + 8) m')))"

definition ParseChargeLine :: "RWMol \<Rightarrow> string \<Rightarrow> bool \<Rightarrow> error + RWMol" where
  "ParseChargeLine mol text firstCall =
     bindE (PRECONDITION (substr0 text 6 = ''M  CHG'') ''bad charge line'') (\<lambda>_.
     bindE (int_field text 6 3) (\<lambda>nent.
     ParseChargeLine_entries (nat nent) text 9
       (if firstCall then resetFormalCharges mol else mol)))"

definition setNumRadicalElectrons :: "nat \<Rightarrow> Atom \<Rightarrow> Atom" where
  "setNumRadicalElectrons n a = a \<lparr> numRadicalElectrons := n \<rparr>"

fun ParseRadicalLine_entries :: "nat \<Rightarrow> string \<Rightarrow> nat \<Rightarrow> RWMol \<Rightarrow> error + RWMol" where
  "ParseRadicalLine_entries 0 text spos m = Inr m"
| "ParseRadicalLine_entries (Suc n) text spos m =
     bindE (int_field text spos 4) (\<lambda>aid.
     bindE (int_field text (spos + 4) 4) (\<lambda>rad.
     bindE (if rad = 1 then updateAtom m (word_of_int (aid - 1)) (setNumRadicalElectrons 2)
            else if rad = 2 then updateAtom m (word_of_int (aid - 1)) (setNumRadicalElectrons 1)
            else if rad = 3 then updateAtom m (word_of_int (aid - 1)) (setNumRadicalElectrons 2)
            else Inl (FileParseException (''Unrecognized radical value '' @ show_int rad
                        @ '' for atom '' @ show_int (aid - 1) @ [CHR 0x0A]))) (\<lambda>m'.
     ParseRadicalLine_entries n text (spos + 8) m')))"

definition ParseRadicalLine :: "RWMol \<Rightarrow> string \<Rightarrow> bool \<Rightarrow> error + RWMol" where
  "ParseRadicalLine mol text firstCall =
     bindE (PRECONDITION (substr0 text 6 = ''M  RAD'') ''bad charge line'') (\<lambda>_.
     bindE (int_field text 6 3) (\<lambda>nent.
     ParseRadicalLine_entries (nat nent) text 9
       (if firstCall then resetFormalCharges mol else mol)))"

text \<open>
  The next four records share the shape of their entry loop: the atom index is read
  and the atom fetched; the value is looked at only when four more characters are
  there and are not blank.
\<close>

definition has_value_field :: "string \<Rightarrow> nat \<Rightarrow> bool" where
  "has_value_field text spos = (length text \<ge> spos + 4 \<and> take 4 (drop spos text) \<noteq> ''    '')"

definition setMass :: "double \<Rightarrow> Atom \<Rightarrow> Atom" where
  "setMass v a = a \<lparr> mass := v \<rparr>"

fun ParseIsotopeLine_entries :: "ext \<Rightarrow> nat \<Rightarrow> string \<Rightarrow> nat \<Rightarrow> RWMol \<Rightarrow> error + RWMol" where
  "ParseIsotopeLine_entries X 0 text spos m = Inr m"
| "ParseIsotopeLine_entries X (Suc n) text spos m =
     bindE (uint_field text spos 4) (\<lambda>aid.
     bindE (getAtomWithIdx m (aid - 1)) (\<lambda>atom.
       if has_value_field text (spos + 4) then
         bindE (int_field text (spos + 4) 4) (\<lambda>mass_v.
         bindE (updateAtom m (aid - 1) (setMass (of_int mass_v))) (\<lambda>m'.
         ParseIsotopeLine_entries X n text (spos + 8) m'))
       else
         bindE (getAtomicWeight X (atomicNum atom)) (\<lambda>w.
         bindE (updateAtom m (aid - 1) (setMass w)) (\<lambda>m'.
         ParseIsotopeLine_entries X n text (spos + 4) m'))))"

definition ParseIsotopeLine :: "ext \<Rightarrow> RWMol \<Rightarrow> string \<Rightarrow> error + RWMol" where
  "ParseIsotopeLine X mol text =
     bindE (PRECONDITION (substr0 text 6 = ''M  ISO'') ''bad isotope line'') (\<lambda>_.
     bindE (uint_field text 6 3) (\<lambda>nent.
     ParseIsotopeLine_entries X (unat nent) text 9 mol))"

text \<open>
  A function that writes to the warning log returns its result together with the
  messages it logged; they are logged also when it throws afterwards.
\<close>

type_synonym 'a W = "(error + 'a) \<times> string list"

definition bindW :: "'a W \<Rightarrow> ('a \<Rightarrow> 'b W) \<Rightarrow> 'b W" where
  "bindW m f = (case fst m of Inl e \<Rightarrow> (Inl e, snd m)
                | Inr v \<Rightarrow> (fst (f v), snd m @ snd (f v)))"

definition quiet :: "error + 'a \<Rightarrow> 'a W" where
  "quiet r = (r, [])"

definition degree_6_warning :: string where
  "degree_6_warning = '' atom degree query with value 6 found. This will not match degree >6. The MDL spec says it should.''"

definition substitution_query :: "RWMol \<Rightarrow> 32 word \<Rightarrow> int \<Rightarrow> query W" where
  "substitution_query m idx count =
     (let q = makeAtomExplicitDegreeQuery 0 in
      if count = -1 then quiet (Inr (setVal 0 q))
      else if count = -2 then quiet (Inr (setVal (getDegree m (unat idx)) q))
      else if 1 \<le> count \<and> count \<le> 5 then quiet (Inr (setVal count q))
      else if count = 6 then (Inr (setVal 6 q), [degree_6_warning])
      else quiet (Inl (FileParseException
             (''Value '' @ show_int count @ '' is not supported as a degree query.''))))"

fun ParseSubstitutionCountLine_entries :: "nat \<Rightarrow> string \<Rightarrow> nat \<Rightarrow> RWMol \<Rightarrow> RWMol W" where
  "ParseSubstitutionCountLine_entries 0 text spos m = quiet (Inr m)"
| "ParseSubstitutionCountLine_entries (Suc n) text spos m =
     bindW (quiet (uint_field text spos 4)) (\<lambda>aid.
     bindW (quiet (getAtomWithIdx m (aid - 1))) (\<lambda>atom.
       if has_value_field text (spos + 4) then
         bindW (quiet (int_field text (spos + 4) 4)) (\<lambda>count.
           if count = 0 then ParseSubstitutionCountLine_entries n text (spos + 4) m
           else
             bindW (substitution_query m (aid - 1) count) (\<lambda>q.
             bindW (quiet (promote_and_expand m (aid - 1) q)) (\<lambda>m'.
             ParseSubstitutionCountLine_entries n text (spos + 8) m')))
       else ParseSubstitutionCountLine_entries n text (spos + 4) m))"

definition ParseSubstitutionCountLine :: "RWMol \<Rightarrow> string \<Rightarrow> RWMol W" where
  "ParseSubstitutionCountLine mol text =
     bindW (quiet (PRECONDITION (substr0 text 6 = ''M  SUB'') ''bad SUB line'')) (\<lambda>_.
     bindW (quiet (uint_field text 6 3)) (\<lambda>nent.
     ParseSubstitutionCountLine_entries (unat nent) text 9 mol))"

text \<open>The unsaturation record never advances past the value field.\<close>

fun ParseUnsaturationLine_entries :: "nat \<Rightarrow> string \<Rightarrow> nat \<Rightarrow> RWMol \<Rightarrow> error + RWMol" where
  "ParseUnsaturationLine_entries 0 text spos m = Inr m"
| "ParseUnsaturationLine_entries (Suc n) text spos m =
     bindE (uint_field text spos 4) (\<lambda>aid.
     bindE (getAtomWithIdx m (aid - 1)) (\<lambda>atom.
       if has_value_field text (spos + 4) then
         bindE (int_field text (spos + 4) 4) (\<lambda>count.
           if count = 0 then ParseUnsaturationLine_entries n text (spos + 4) m
           else if count = 1 then
             bindE (promote_and_expand m (aid - 1) makeAtomUnsaturatedQuery) (\<lambda>m'.
             ParseUnsaturationLine_entries n text (spos + 4) m')
           else Inl (FileParseException (''Value '' @ show_int count
                  @ '' is not supported as an unsaturation query (only 0 and 1 are allowed).'')))
       else ParseUnsaturationLine_entries n text (spos + 4) m))"

definition ParseUnsaturationLine :: "RWMol \<Rightarrow> string \<Rightarrow> error + RWMol" where
  "ParseUnsaturationLine mol text =
     bindE (PRECONDITION (substr0 text 6 = ''M  UNS'') ''bad UNS line'') (\<lambda>_.
     bindE (uint_field text 6 3) (\<lambda>nent.
     ParseUnsaturationLine_entries (unat nent) text 9 mol))"

text \<open>
  The sentinel \<^verbatim>\<open>-0xDEADBEEF\<close>: the literal is an \<^verbatim>\<open>unsigned int\<close>, negated in
  32-bit arithmetic and then read as an \<^verbatim>\<open>int\<close>.
\<close>

definition MAGIC :: int where
  "MAGIC = sint (- (0xDEADBEEF :: 32 word))"

text \<open>
  The query of a ring-bond-count entry, and whether the entry asks for the later scan
  (\<^verbatim>\<open>mol->setProp("_NeedsQueryScan",1)\<close>).
\<close>

definition ring_bond_count_query :: "int \<Rightarrow> error + (query \<times> bool)" where
  "ring_bond_count_query count =
     (let q = makeAtomRingBondCountQuery 0 in
      if count = -1 then Inr (setVal 0 q, False)
      else if count = -2 then Inr (setVal MAGIC q, True)
      else if 1 \<le> count \<and> count \<le> 3 then Inr (setVal count q, False)
      else if count = 4
        then Inr (Query LessEqualQuery ''AtomRingBondCount'' False (Some 4) queryAtomRingBondCount [],
                  False)
      else Inl (FileParseException
             (''Value '' @ show_int count @ '' is not supported as a ring-bond count query.'')))"

definition setMolProp :: "string \<Rightarrow> propval \<Rightarrow> RWMol \<Rightarrow> RWMol" where
  "setMolProp k v m = m \<lparr> molProps := setProp k v (molProps m) \<rparr>"

fun ParseRingBondCountLine_entries :: "nat \<Rightarrow> string \<Rightarrow> nat \<Rightarrow> RWMol \<Rightarrow> error + RWMol" where
  "ParseRingBondCountLine_entries 0 text spos m = Inr m"
| "ParseRingBondCountLine_entries (Suc n) text spos m =
     bindE (uint_field text spos 4) (\<lambda>aid.
     bindE (getAtomWithIdx m (aid - 1)) (\<lambda>atom.
       if has_value_field text (spos + 4) then
         bindE (int_field text (spos + 4) 4) (\<lambda>count.
           if count = 0 then ParseRingBondCountLine_entries n text (spos + 4) m
           else
             bindE (ring_bond_count_query count) (\<lambda>(q, scan).
             bindE (promote_and_expand
                      (if scan then setMolProp ''_NeedsQueryScan'' (PInt 1) m else m) (aid - 1) q)
               (\<lambda>m'.
             ParseRingBondCountLine_entries n text (spos + 8) m')))
       else ParseRingBondCountLine_entries n text (spos + 4) m))"

definition ParseRingBondCountLine :: "RWMol \<Rightarrow> string \<Rightarrow> error + RWMol" where
  "ParseRingBondCountLine mol text =
     bindE (PRECONDITION (substr0 text 6 = ''M  RBC'') ''bad RBC line'') (\<lambda>_.
     bindE (uint_field text 6 3) (\<lambda>nent.
     ParseRingBondCountLine_entries (unat nent) text 9 mol))"

text \<open>\<^verbatim>\<open>RANGE_CHECK(0,idx,mol->getNumAtoms()-1)\<close> on unsigned operands.\<close>

definition RANGE_CHECK_u :: "32 word \<Rightarrow> 32 word \<Rightarrow> error + unit" where
  "RANGE_CHECK_u x hi = (if x > hi then Inl (Invariant ''Range Error'') else Inr ())"

definition setAtomicNum :: "int \<Rightarrow> Atom \<Rightarrow> Atom" where
  "setAtomicNum n a = a \<lparr> atomicNum := n \<rparr>"

definition setQuery :: "query \<Rightarrow> Atom \<Rightarrow> Atom" where
  "setQuery q a = a \<lparr> atomQuery := Some q \<rparr>"

definition setAtomProp :: "string \<Rightarrow> propval \<Rightarrow> Atom \<Rightarrow> Atom" where
  "setAtomProp k v a = a \<lparr> atomProps := setProp k v (atomProps a) \<rparr>"

fun ParseOldAtomList_entries ::
  "nat \<Rightarrow> nat \<Rightarrow> string \<Rightarrow> query \<Rightarrow> Atom \<Rightarrow> error + (query \<times> Atom)" where
  "ParseOldAtomList_entries 0 i text q a = Inr (q, a)"
| "ParseOldAtomList_entries (Suc n) i text q a =
     bindE (int_field text (11 + i * 4) 3) (\<lambda>atNum.
     bindE (RANGE_CHECK 0 atNum 200) (\<lambda>_.
     ParseOldAtomList_entries n (Suc i) text (addChild (makeAtomNumEqualsQuery atNum) q)
       (if i = 0 then setAtomicNum atNum a else a)))"

text \<open>
  The legacy atom list.  The modifier is read at \<^verbatim>\<open>text[4]\<close>; the message of the
  default case prints \<^verbatim>\<open>text[14]\<close>.  Both reads are past the end of a short line.
\<close>

definition ParseOldAtomList :: "RWMol \<Rightarrow> string \<Rightarrow> error + RWMol" where
  "ParseOldAtomList mol text =
     bindE (catch_lexical_cast (stripSpacesAndCast (substr0 text 3) False)
              (cannot_convert (substr0 text 3))) (\<lambda>idx1.
     bindE (RANGE_CHECK_u (idx1 - 1) (getNumAtoms mol - 1)) (\<lambda>_.
     bindE (getAtomWithIdx mol (idx1 - 1)) (\<lambda>atom.
     bindE (if length text < 4 then Inl (Undefined ''text[4]'')
            else if char_at text 4 = CHR ''T'' then Inr (setNegation True (setDescription ''AtomOr'' new_ATOM_OR_QUERY))
            else if char_at text 4 = CHR ''F'' then Inr (setNegation False (setDescription ''AtomOr'' new_ATOM_OR_QUERY))
            else if length text < 14 then Inl (Undefined ''text[14]'')
            else Inl (FileParseException
                   (''Unrecognized atom-list query modifier: '' @ [char_at text 14]))) (\<lambda>q.
     bindE (int_field text 9 1) (\<lambda>nQueries.
     bindE (RANGE_CHECK 0 nQueries 5) (\<lambda>_.
     bindE (ParseOldAtomList_entries (nat nQueries) 0 text q (QueryAtom_of atom)) (\<lambda>(q', a).
     replaceAtom mol (idx1 - 1) (setQuery q' a))))))))"

text \<open>\<^verbatim>\<open>atSymb.erase(atSymb.find(" "),atSymb.size())\<close>: without a blank,
  \<^verbatim>\<open>find\<close> answers \<^verbatim>\<open>npos\<close> and \<^verbatim>\<open>erase\<close> throws.\<close>

definition erase_from_space :: "string \<Rightarrow> error + string" where
  "erase_from_space s =
     (if CHR '' '' \<in> set s then Inr (takeWhile (\<lambda>c. c \<noteq> CHR '' '') s) else Inl out_of_range)"

definition line_too_short :: "string \<Rightarrow> string \<Rightarrow> error" where
  "line_too_short what text = FileParseException (what @ '' line too short: '' @ [CHR 0x27] @ text @ [CHR 0x27])"

fun ParseNewAtomList_entries ::
  "ext \<Rightarrow> nat \<Rightarrow> nat \<Rightarrow> RWMol \<Rightarrow> 32 word \<Rightarrow> string \<Rightarrow> Atom option \<Rightarrow> error + Atom option" where
  "ParseNewAtomList_entries X 0 i mol idx text a = Inr a"
| "ParseNewAtomList_entries X (Suc n) i mol idx text a =
     (if length text < 16 + i * 4 + 4 then Inl (line_too_short ''Atom list'' text)
      else
        bindE (substr text (16 + i * 4) 4) (\<lambda>f.
        bindE (erase_from_space f) (\<lambda>atSymb.
        bindE (getAtomicNumber X atSymb) (\<lambda>atNum.
        bindE (if i = 0
               then bindE (getAtomWithIdx mol idx) (\<lambda>atom.
                      Inr (setAtomicNum atNum (QueryAtom_of atom)))
               else (case a of None \<Rightarrow> Inl (Undefined ''null atom'')
                     | Some qa \<Rightarrow> expandQuery (makeAtomNumEqualsQuery atNum) COMPOSITE_OR qa)) (\<lambda>a'.
        ParseNewAtomList_entries X n (Suc i) mol idx text (Some a'))))))"

definition ParseNewAtomList :: "ext \<Rightarrow> RWMol \<Rightarrow> string \<Rightarrow> error + RWMol" where
  "ParseNewAtomList X mol text =
     (if length text < 15 then Inl (line_too_short ''Atom list'' text)
      else
        bindE (PRECONDITION (substr0 text 6 = ''M  ALS'') ''bad atom list line'') (\<lambda>_.
        bindE (uint_field text 7 3) (\<lambda>idx1.
        bindE (RANGE_CHECK_u (idx1 - 1) (getNumAtoms mol - 1)) (\<lambda>_.
        bindE (int_field text 10 3) (\<lambda>nQueries.
        bindE (PRECONDITION (nQueries > 0) ''no queries provided'') (\<lambda>_.
        bindE (ParseNewAtomList_entries X (nat nQueries) 0 mol (idx1 - 1) text None) (\<lambda>a.
        (case a of
           None \<Rightarrow> Inl (Invariant ''no atom built'')
         | Some qa \<Rightarrow>
            (case atomQuery qa of
               None \<Rightarrow> Inl (Invariant ''plain atoms have no Query'')
             | Some q \<Rightarrow>
                 if char_at text 14 = CHR ''T'' then replaceAtom mol (idx1 - 1) (setQuery (setNegation True q) qa)
                 else if char_at text 14 = CHR ''F'' then replaceAtom mol (idx1 - 1) (setQuery (setNegation False q) qa)
                 else Inl (FileParseException
                        (''Unrecognized atom-list query modifier: '' @ [char_at text 14])))))))))))"

fun ParseRGroupLabels_entries :: "nat \<Rightarrow> nat \<Rightarrow> string \<Rightarrow> RWMol \<Rightarrow> error + RWMol" where
  "ParseRGroupLabels_entries 0 i text mol = Inr mol"
| "ParseRGroupLabels_entries (Suc n) i text mol =
     bindE (uint_field text (10 + i * 8) 3) (\<lambda>atIdx1.
     bindE (uint_field text (10 + i * 8 + 4) 3) (\<lambda>rLabel.
       if atIdx1 - 1 > getNumAtoms mol
       then Inl (FileParseException (''Attempt to set R group label on nonexistent atom ''
                   @ show_nat (unat (atIdx1 - 1))))
       else
         bindE (getAtomWithIdx mol (atIdx1 - 1)) (\<lambda>atom.
         bindE (replaceAtom mol (atIdx1 - 1)
                  (setQuery makeAtomNullQuery
                    ((if rLabel > 0 \<and> rLabel < 999 then setMass (of_nat (unat rLabel)) else id)
                      (setAtomProp ''_MolFileRLabel'' (PUInt rLabel) (QueryAtom_of atom))))) (\<lambda>mol'.
         ParseRGroupLabels_entries n (Suc i) text mol'))))"

definition ParseRGroupLabels :: "RWMol \<Rightarrow> string \<Rightarrow> error + RWMol" where
  "ParseRGroupLabels mol text =
     bindE (PRECONDITION (substr0 text 6 = ''M  RGP'') ''bad R group label line'') (\<lambda>_.
     bindE (int_field text 6 3) (\<lambda>nLabels.
     ParseRGroupLabels_entries (nat nLabels) 0 text mol))"

definition ParseAtomAlias :: "RWMol \<Rightarrow> string \<Rightarrow> string \<Rightarrow> error + RWMol" where
  "ParseAtomAlias mol text nextLine =
     bindE (PRECONDITION (substr0 text 2 = ''A '') ''bad atom alias line'') (\<lambda>_.
     bindE (uint_field text 3 3) (\<lambda>idx1.
     bindE (RANGE_CHECK_u (idx1 - 1) (getNumAtoms mol - 1)) (\<lambda>_.
     updateAtom mol (idx1 - 1) (setAtomProp ''molFileAlias'' (PString nextLine)))))"

definition ParseAtomValue :: "RWMol \<Rightarrow> string \<Rightarrow> error + RWMol" where
  "ParseAtomValue mol text =
     bindE (PRECONDITION (substr0 text 2 = ''V '') ''bad atom value line'') (\<lambda>_.
     bindE (uint_field text 3 3) (\<lambda>idx1.
     bindE (RANGE_CHECK_u (idx1 - 1) (getNumAtoms mol - 1)) (\<lambda>_.
     bindE (getAtomWithIdx mol (idx1 - 1)) (\<lambda>_.
     bindE (substr text 7 (length text - 7)) (\<lambda>v.
     updateAtom mol (idx1 - 1) (setAtomProp ''molFileValue'' (PString v)))))))"

subsection \<open>The V2000 atom line\<close>

text \<open>\<^verbatim>\<open>std::string\<close> comparison: lexicographic on the bytes.\<close>

fun string_le :: "string \<Rightarrow> string \<Rightarrow> bool" where
  "string_le [] t = True"
| "string_le (a # as) [] = False"
| "string_le (a # as) (b # bs) =
     ((of_char a :: nat) < of_char b \<or> (a = b \<and> string_le as bs))"

text \<open>
  An optional fixed-width field: read when the line reaches its end and its text is
  not the placeholder for zero.  It is converted with \<open>acceptSpaces\<close> true.
\<close>

definition optional_field :: "string \<Rightarrow> nat \<Rightarrow> nat \<Rightarrow> string \<Rightarrow> error + int option" where
  "optional_field text pos n zero =
     (if length text \<ge> pos + n \<and> take n (drop pos text) \<noteq> zero
      then bindE (catch_lexical_cast (toInt (take n (drop pos text)) True)
                    (cannot_convert (take n (drop pos text)))) (\<lambda>v. Inr (Some v))
      else Inr None)"

definition optional_prop :: "string \<Rightarrow> nat \<Rightarrow> string \<Rightarrow> Atom \<Rightarrow> error + Atom" where
  "optional_prop text pos key a =
     bindE (optional_field text pos 3 ''  0'') (\<lambda>v.
       Inr (case v of None \<Rightarrow> a | Some i \<Rightarrow> setAtomProp key (PInt i) a))"

definition setNoImplicit :: "bool \<Rightarrow> Atom \<Rightarrow> Atom" where
  "setNoImplicit b a = a \<lparr> noImplicit := b \<rparr>"

definition Q_query :: query where
  "Q_query = addChild (makeAtomNumEqualsQuery 1) (addChild (makeAtomNumEqualsQuery 6)
               (setNegation True (setDescription ''AtomOr'' new_ATOM_OR_QUERY)))"

definition R_label_mass :: "string \<Rightarrow> Atom \<Rightarrow> Atom" where
  "R_label_mass symb a =
     (if symb = ''R1'' then setMass 1 a else if symb = ''R2'' then setMass 2 a
      else if symb = ''R3'' then setMass 3 a else if symb = ''R4'' then setMass 4 a
      else if symb = ''R5'' then setMass 5 a else if symb = ''R6'' then setMass 6 a
      else if symb = ''R7'' then setMass 7 a else if symb = ''R8'' then setMass 8 a
      else if symb = ''R9'' then setMass 9 a else a)"

definition atom_of_symbol :: "ext \<Rightarrow> string \<Rightarrow> int \<Rightarrow> error + Atom" where
  "atom_of_symbol X symb massDiff =
     (if symb = ''L'' \<or> symb = ''A'' \<or> symb = ''Q'' \<or> symb = ''*'' \<or> symb = ''LP''
         \<or> symb = ''R'' \<or> symb = ''R#'' \<or> (string_le ''R0'' symb \<and> string_le symb ''R9'')
      then
        (let res =
           (if symb = ''*'' then setNoImplicit True (setQuery makeAtomNullQuery (new_QueryAtom 0))
            else if symb = ''Q'' then setNoImplicit True (setQuery Q_query (new_QueryAtom 0))
            else if symb = ''A''
              then setNoImplicit True
                     (setQuery (setNegation True (makeAtomNumEqualsQuery 1)) (new_QueryAtom 0))
            else setAtomicNum 0 (new_Atom 0))
         in Inr (if massDiff = 0 \<and> char_at symb 0 = CHR ''R'' then R_label_mass symb res else res))
      else if symb = ''D'' then Inr (setMass (binary64 2.014) (setAtomicNum 1 (new_Atom 0)))
      else if symb = ''T'' then Inr (setMass (binary64 3.016) (setAtomicNum 1 (new_Atom 0)))
      else
        bindE (getAtomicNumber X symb) (\<lambda>num.
        bindE (getAtomicWeight X num) (\<lambda>w.
        Inr (setMass w (setAtomicNum num (new_Atom 0))))))"

definition ParseMolFileAtomLine :: "ext \<Rightarrow> string \<Rightarrow> error + (Atom \<times> Point3D)" where
  "ParseMolFileAtomLine X text =
     (if length text < 34 then Inl (line_too_short ''Atom'' text)
      else
        bindE (catch_lexical_cast
                 (bindE (toDouble (atof X) (take 10 text) True) (\<lambda>x.
                  bindE (toDouble (atof X) (take 10 (drop 10 text)) True) (\<lambda>y.
                  bindE (toDouble (atof X) (take 10 (drop 20 text)) True) (\<lambda>z.
                  Inr (x, y, z)))))
                 ''Cannot process coordinates.'') (\<lambda>pos.
        let symb = takeWhile (\<lambda>c. c \<noteq> CHR '' '') (take 3 (drop 31 text)) in
        bindE (optional_field text 34 2 '' 0'') (\<lambda>massDiff_o.
        bindE (optional_field text 36 3 ''  0'') (\<lambda>chg_o.
        bindE (optional_field text 42 3 ''  0'') (\<lambda>hCount_o.
        let massDiff = (case massDiff_o of None \<Rightarrow> 0 | Some v \<Rightarrow> v);
            chg = (case chg_o of None \<Rightarrow> 0 | Some v \<Rightarrow> v);
            hCount = (case hCount_o of None \<Rightarrow> 0 | Some v \<Rightarrow> v) in
        bindE (atom_of_symbol X symb massDiff) (\<lambda>res0.
        let res1 = (if chg \<noteq> 0 then setFormalCharge (4 - chg) res0 else res0);
            res2 = (if hCount = 1 then setNoImplicit True res1 else res1);
            res3 = (if massDiff \<noteq> 0
                    then setAtomProp ''_hasMassQuery'' (PBool True)
                           (setMass (binary64 (mass res2 + of_int massDiff)) res2)
                    else res2) in
        bindE (optional_prop text 39 ''molParity'' res3) (\<lambda>res4.
        bindE (optional_prop text 45 ''molStereoCare'' res4) (\<lambda>res5.
        bindE (optional_prop text 48 ''molTotValence'' res5) (\<lambda>res6.
        bindE (optional_prop text 60 ''molAtomMapNumber'' res6) (\<lambda>res7.
        bindE (optional_prop text 63 ''molInversionFlag'' res7) (\<lambda>res8.
        bindE (optional_prop text 66 ''molExactChangeFlag'' res8) (\<lambda>res9.
        Inr (res9, pos)))))))))))))"

subsection \<open>The V2000 bond line\<close>

definition order_0_warning :: string where
  "order_0_warning = ''bond with order 0 found. This is not part of the MDL specification.''"

definition query_bond_warning :: "string \<Rightarrow> string" where
  "query_bond_warning t = ''unrecognized query bond type, '' @ t @ '', found. Using an \"any\" query.''"

definition setBondQuery :: "query \<Rightarrow> Bond \<Rightarrow> Bond" where
  "setBondQuery q b = b \<lparr> bondQuery := Some q \<rparr>"

definition bond_or_query :: "BondType \<Rightarrow> BondType \<Rightarrow> query" where
  "bond_or_query t1 t2 =
     setDescription ''BondOr''
       (addChild (makeBondOrderEqualsQuery t2) (addChild (makeBondOrderEqualsQuery t1) new_BOND_OR_QUERY))"

text \<open>The bond of a bond-type code, with the warning it logs.\<close>

definition bond_of_type :: "int \<Rightarrow> Bond \<times> string list" where
  "bond_of_type bType =
     (if bType = 1 then (new_Bond SINGLE, [])
      else if bType = 2 then (new_Bond DOUBLE, [])
      else if bType = 3 then (new_Bond TRIPLE, [])
      else if bType = 4 then (new_Bond AROMATIC, [])
      else if bType = 0 then (new_Bond UNSPECIFIED, [order_0_warning])
      else if bType = 8 then (setBondQuery makeBondNullQuery (new_Bond UNSPECIFIED), [])
      else if bType = 5 then (setBondQuery (bond_or_query SINGLE DOUBLE) (new_Bond UNSPECIFIED), [])
      else if bType = 6 then (setBondQuery (bond_or_query SINGLE AROMATIC) (new_Bond UNSPECIFIED), [])
      else if bType = 7 then (setBondQuery (bond_or_query DOUBLE AROMATIC) (new_Bond UNSPECIFIED), [])
      else (setBondQuery makeBondNullQuery (new_Bond UNSPECIFIED),
            [query_bond_warning (show_int bType)]))"

definition bond_field_present :: "string \<Rightarrow> nat \<Rightarrow> bool" where
  "bond_field_present text pos = (length text \<ge> pos + 3 \<and> take 3 (drop pos text) \<noteq> ''  0'')"

definition setBondDir :: "BondDir \<Rightarrow> Bond \<Rightarrow> Bond" where
  "setBondDir d b = b \<lparr> bondDir := d \<rparr>"

definition bond_stereo :: "string \<Rightarrow> Bond \<Rightarrow> error + Bond" where
  "bond_stereo text res =
     (if bond_field_present text 9 then
        (case toInt (take 3 (drop 9 text)) False of
           Inl bad_lexical_cast \<Rightarrow> Inr res
         | Inl e \<Rightarrow> Inl e
         | Inr stereo_v \<Rightarrow>
             Inr (if stereo_v = 0 then setBondDir NONE res
                  else if stereo_v = 1 then setBondDir BEGINWEDGE res
                  else if stereo_v = 6 then setBondDir BEGINDASH res
                  else if stereo_v = 3 then (setBondDir EITHERDOUBLE res) \<lparr> stereo := STEREOANY \<rparr>
                  else if stereo_v = 4 then setBondDir UNKNOWN res
                  else res))
      else Inr res)"

definition bond_topology :: "string \<Rightarrow> Bond \<Rightarrow> error + Bond" where
  "bond_topology text res =
     (if bond_field_present text 15 then
        (case toInt (take 3 (drop 15 text)) False of
           Inl bad_lexical_cast \<Rightarrow> Inr res
         | Inl e \<Rightarrow> Inl e
         | Inr topology \<Rightarrow>
             if topology = 1 then bond_expandQuery makeBondIsInRingQuery (QueryBond_of res)
             else if topology = 2
               then bond_expandQuery (setNegation True makeBondIsInRingQuery) (QueryBond_of res)
             else Inl (FileParseException
                    (''Unrecognized bond topology specifier: '' @ show_int topology)))
      else Inr res)"

definition bond_reactStatus :: "string \<Rightarrow> Bond \<Rightarrow> error + Bond" where
  "bond_reactStatus text res =
     (if bond_field_present text 18 then
        (case toInt (take 3 (drop 18 text)) False of
           Inl bad_lexical_cast \<Rightarrow> Inr res
         | Inl e \<Rightarrow> Inl e
         | Inr reactStatus \<Rightarrow>
             Inr (res \<lparr> bondProps := setProp ''molReactStatus'' (PInt reactStatus) (bondProps res) \<rparr>))
      else Inr res)"

text \<open>The optional fields of a bond line, in the order of the source.\<close>

definition bond_optional_fields :: "string \<Rightarrow> Bond \<Rightarrow> error + Bond" where
  "bond_optional_fields text res =
     bindE (bond_stereo text res) (\<lambda>res2.
     bindE (bond_topology text res2) (\<lambda>res3.
     bond_reactStatus text res3))"

definition ParseMolFileBondLine :: "string \<Rightarrow> Bond W" where
  "ParseMolFileBondLine text =
     (if length text < 9 then quiet (Inl (line_too_short ''Bond'' text))
      else
        bindW (quiet (int_field text 0 3)) (\<lambda>idx1.
        bindW (quiet (int_field text 3 3)) (\<lambda>idx2.
        bindW (quiet (int_field text 6 3)) (\<lambda>bType.
        bindW (Inr (fst (bond_of_type bType)), snd (bond_of_type bType)) (\<lambda>res0.
        quiet (bond_optional_fields text
                 (res0 \<lparr> beginAtomIdx := word_of_int (idx1 - 1),
                         endAtomIdx := word_of_int (idx2 - 1) \<rparr>)))))))"

subsection \<open>The input stream, the line counter and the warning log\<close>

text \<open>
  \<open>stream\<close> holds the bytes not read yet and \<open>eofbit\<close> the stream's end-of-file
  flag; \<open>line\<close> is the caller's line counter (\<^verbatim>\<open>unsigned int &line\<close>) and
  \<open>warnings\<close> what was written to \<^verbatim>\<open>rdWarningLog\<close>.
\<close>

record pstate =
  stream :: string
  eofbit :: bool
  line :: "32 word"
  warnings :: "string list"

type_synonym 'a M = "pstate \<Rightarrow> (error + 'a) \<times> pstate"

definition returnM :: "'a \<Rightarrow> 'a M" where
  "returnM v s = (Inr v, s)"

definition throwM :: "error \<Rightarrow> 'a M" where
  "throwM e s = (Inl e, s)"

definition bindM :: "'a M \<Rightarrow> ('a \<Rightarrow> 'b M) \<Rightarrow> 'b M" where
  "bindM m f s = (case m s of (Inl e, s') \<Rightarrow> (Inl e, s') | (Inr v, s') \<Rightarrow> f v s')"

definition liftE :: "error + 'a \<Rightarrow> 'a M" where
  "liftE r s = (r, s)"

definition liftW :: "'a W \<Rightarrow> 'a M" where
  "liftW r s = (fst r, s \<lparr> warnings := warnings s @ snd r \<rparr>)"

definition warn :: "string \<Rightarrow> unit M" where
  "warn msg s = (Inr (), s \<lparr> warnings := warnings s @ [msg] \<rparr>)"

definition bump_line :: "pstate \<Rightarrow> pstate" where
  "bump_line s = s \<lparr> line := line s + 1 \<rparr>"

definition incr_line :: "unit M" where
  "incr_line s = (Inr (), bump_line s)"

definition eof :: "bool M" where
  "eof s = (Inr (eofbit s), s)"

text \<open>
  \<^verbatim>\<open>std::getline\<close>: on a stream whose end was reached nothing is read; otherwise
  the characters up to the next newline are taken and the newline is dropped; when
  there is no newline the rest is taken and the end-of-file flag is set.
\<close>

definition std_getline :: "pstate \<Rightarrow> string \<times> pstate" where
  "std_getline s =
     (if eofbit s then ([], s)
      else (takeWhile (\<lambda>c. c \<noteq> CHR 0x0A) (stream s),
            (case dropWhile (\<lambda>c. c \<noteq> CHR 0x0A) (stream s) of
               [] \<Rightarrow> s \<lparr> stream := [], eofbit := True \<rparr>
             | c # r \<Rightarrow> s \<lparr> stream := r \<rparr>)))"

text \<open>\<^verbatim>\<open>getLine\<close> of RDGeneral/StreamOps.h also drops a carriage return that ends the line.\<close>

definition next_line :: "pstate \<Rightarrow> string" where
  "next_line s =
     (let res = fst (std_getline s)
      in if length res > 0 \<and> last res = CHR 0x0D then butlast res else res)"

definition after_line :: "pstate \<Rightarrow> pstate" where
  "after_line s = snd (std_getline s)"

definition getLine :: "string M" where
  "getLine s = (Inr (next_line s), after_line s)"

text \<open>What is left to read; it does not grow, and every read before the end shrinks it.\<close>

definition remaining :: "pstate \<Rightarrow> nat" where
  "remaining s = length (stream s) + (if eofbit s then 0 else 1)"

subsection \<open>The V2000 blocks\<close>

fun ParseMolBlockAtoms :: "ext \<Rightarrow> nat \<Rightarrow> RWMol \<Rightarrow> Conformer \<Rightarrow> (RWMol \<times> Conformer) M" where
  "ParseMolBlockAtoms X 0 mol conf = returnM (mol, conf)"
| "ParseMolBlockAtoms X (Suc n) mol conf =
     bindM incr_line (\<lambda>_.
     bindM getLine (\<lambda>tempStr.
     bindM eof (\<lambda>at_end.
       if at_end then throwM (FileParseException ''EOF hit while reading atoms'')
       else
         bindM (liftE (ParseMolFileAtomLine X tempStr)) (\<lambda>(atom, pos).
         ParseMolBlockAtoms X n (fst (addAtom mol atom))
           (setAtomPos (snd (addAtom mol atom)) pos conf)))))"

definition setIsAromatic :: "bool \<Rightarrow> Atom \<Rightarrow> Atom" where
  "setIsAromatic b a = a \<lparr> isAromatic := b \<rparr>"

definition mark_aromatic :: "RWMol \<Rightarrow> Bond \<Rightarrow> error + RWMol" where
  "mark_aromatic mol bond =
     bindE (updateAtom mol (beginAtomIdx bond) (setIsAromatic True)) (\<lambda>mol'.
     updateAtom mol' (endAtomIdx bond) (setIsAromatic True))"

fun ParseMolBlockBonds :: "nat \<Rightarrow> RWMol \<Rightarrow> bool \<Rightarrow> (RWMol \<times> bool) M" where
  "ParseMolBlockBonds 0 mol chiralityPossible = returnM (mol, chiralityPossible)"
| "ParseMolBlockBonds (Suc n) mol chiralityPossible =
     bindM incr_line (\<lambda>_.
     bindM getLine (\<lambda>tempStr.
     bindM eof (\<lambda>at_end.
       if at_end then throwM (FileParseException ''EOF hit while reading bonds'')
       else
         bindM (liftW (ParseMolFileBondLine tempStr)) (\<lambda>bond.
         bindM (liftE (if bondType bond = AROMATIC then mark_aromatic mol bond else Inr mol)) (\<lambda>mol'.
         bindM (liftE (addBond mol'
                  (if bondType bond = AROMATIC then bond \<lparr> bondIsAromatic := True \<rparr> else bond))) (\<lambda>mol''.
         ParseMolBlockBonds n mol''
           (chiralityPossible \<or> (bondDir bond \<noteq> NONE \<and> bondDir bond \<noteq> UNKNOWN))))))))"

subsection \<open>The V2000 property block\<close>

definition group_warning :: string where
  "group_warning = '' deprecated group abbreviation ignored''"

text \<open>
  One pass through the body of the loop, before the next line is read: the record is
  dispatched on its first characters.  The result is the molecule and the new value of
  \<^verbatim>\<open>firstChargeLine\<close>.
\<close>

definition property_record :: "ext \<Rightarrow> RWMol \<Rightarrow> string \<Rightarrow> bool \<Rightarrow> (RWMol \<times> bool) M" where
  "property_record X mol tempStr firstChargeLine =
     (let lineBeg = substr0 tempStr 6;
          keep = (\<lambda>r. bindM (liftE r) (\<lambda>m. returnM (m, firstChargeLine)))
      in
      if char_at tempStr 0 = CHR ''A'' then
        bindM incr_line (\<lambda>_.
        bindM getLine (\<lambda>nextLine.
          if substr0 tempStr 6 \<noteq> ''M  END'' then keep (ParseAtomAlias mol tempStr nextLine)
          else returnM (mol, firstChargeLine)))
      else if char_at tempStr 0 = CHR ''G'' then
        bindM (warn group_warning) (\<lambda>_. returnM (mol, firstChargeLine))
      else if char_at tempStr 0 = CHR ''V'' then keep (ParseAtomValue mol tempStr)
      else if lineBeg = ''S  SKP'' then returnM (mol, firstChargeLine)
      else if lineBeg = ''M  ALS'' then keep (ParseNewAtomList X mol tempStr)
      else if lineBeg = ''M  ISO'' then keep (ParseIsotopeLine X mol tempStr)
      else if lineBeg = ''M  RGP'' then keep (ParseRGroupLabels mol tempStr)
      else if lineBeg = ''M  RBC'' then keep (ParseRingBondCountLine mol tempStr)
      else if lineBeg = ''M  SUB'' then
        bindM (liftW (ParseSubstitutionCountLine mol tempStr)) (\<lambda>m. returnM (m, firstChargeLine))
      else if lineBeg = ''M  UNS'' then keep (ParseUnsaturationLine mol tempStr)
      else if lineBeg = ''M  CHG'' then
        bindM (liftE (ParseChargeLine mol tempStr firstChargeLine)) (\<lambda>m. returnM (m, False))
      else if lineBeg = ''M  RAD'' then
        bindM (liftE (ParseRadicalLine mol tempStr firstChargeLine)) (\<lambda>m. returnM (m, False))
      else returnM (mol, firstChargeLine))"

lemma std_getline_remaining:
  "remaining (snd (std_getline s)) \<le> remaining s
   \<and> (\<not> eofbit s \<longrightarrow> remaining (snd (std_getline s)) < remaining s)"
proof (cases "eofbit s")
  case True
  then show ?thesis by (simp add: std_getline_def)
next
  case False
  show ?thesis
  proof (cases "dropWhile (\<lambda>c. c \<noteq> CHR 0x0A) (stream s)")
    case Nil
    with False show ?thesis
      by (simp add: std_getline_def remaining_def del: dropWhile_eq_Nil_conv)
  next
    case (Cons c r)
    have "length (dropWhile (\<lambda>c. c \<noteq> CHR 0x0A) (stream s)) \<le> length (stream s)"
      by (rule length_dropWhile_le)
    with Cons have "Suc (length r) \<le> length (stream s)" by simp
    with False Cons show ?thesis
      by (simp add: std_getline_def remaining_def del: dropWhile_eq_Nil_conv)
  qed
qed

lemma after_line_remaining:
  "remaining (after_line s) \<le> remaining s
   \<and> (\<not> eofbit s \<longrightarrow> remaining (after_line s) < remaining s)"
  using std_getline_remaining [of s] by (simp add: after_line_def)

lemma after_line_le [simp]: "remaining (after_line s) \<le> remaining s"
  using after_line_remaining [of s] by simp

lemma remaining_line_warnings [simp]:
  "remaining (s \<lparr> line := l \<rparr>) = remaining s"
  "remaining (s \<lparr> warnings := w \<rparr>) = remaining s"
  "remaining (bump_line s) = remaining s"
  by (simp_all add: remaining_def bump_line_def)

lemma eofbit_line_warnings [simp]:
  "eofbit (bump_line s) = eofbit s"
  "eofbit s \<Longrightarrow> eofbit (after_line s)"
  "eofbit s \<Longrightarrow> after_line s = s"
  by (simp_all add: bump_line_def after_line_def std_getline_def)

lemma next_line_nonempty_not_eof: "next_line s \<noteq> [] \<Longrightarrow> \<not> eofbit s"
  by (auto simp: next_line_def Let_def std_getline_def split: if_splits)

lemma bindM_simps [simp]:
  "bindM (returnM v) f = f v"
  "bindM (throwM e) f1 s = (Inl e, s)"
  "bindM (liftE (Inr v)) f = f v"
  "bindM (liftE (Inl e)) f2 s = (Inl e, s)"
  "bindM incr_line f3 s = f3 () (bump_line s)"
  "bindM getLine f4 s = f4 (next_line s) (after_line s)"
  "bindM eof f5 s = f5 (eofbit s) s"
  "bindM (warn msg) f6 s = f6 () (s \<lparr> warnings := warnings s @ [msg] \<rparr>)"
  by (auto simp: bindM_def returnM_def throwM_def liftE_def incr_line_def getLine_def eof_def
        warn_def)

lemma bindM_remaining:
  assumes "remaining (snd (m s)) \<le> remaining s"
    and "\<And>v s'. remaining (snd (f v s')) \<le> remaining s'"
  shows "remaining (snd (bindM m f s)) \<le> remaining s"
proof (cases "m s")
  case (Pair r s')
  show ?thesis
  proof (cases r)
    case (Inl e)
    with Pair assms(1) show ?thesis by (simp add: bindM_def)
  next
    case (Inr v)
    have "remaining (snd (f v s')) \<le> remaining s'" by (rule assms(2))
    with Pair Inr assms(1) show ?thesis by (simp add: bindM_def)
  qed
qed

lemma simple_remaining [simp]:
  "remaining (snd (returnM v s)) = remaining s"
  "remaining (snd (throwM e s)) = remaining s"
  "remaining (snd (liftE r s)) = remaining s"
  "remaining (snd (liftW w s)) = remaining s"
  "remaining (snd (warn msg s)) = remaining s"
  "remaining (snd (incr_line s)) = remaining s"
  "remaining (snd (eof s)) = remaining s"
  by (simp_all add: returnM_def throwM_def liftE_def liftW_def warn_def incr_line_def eof_def)

definition nonincreasing :: "'a M \<Rightarrow> bool" where
  "nonincreasing m = (\<forall>s. remaining (snd (m s)) \<le> remaining s)"

lemma nonincreasing_simple [simp]:
  "nonincreasing (returnM v)"
  "nonincreasing (throwM e)"
  "nonincreasing (liftE r)"
  "nonincreasing (liftW w)"
  "nonincreasing (warn msg)"
  "nonincreasing incr_line"
  "nonincreasing eof"
  "nonincreasing getLine"
  by (simp_all add: nonincreasing_def getLine_def)

lemma nonincreasing_bindM [simp]:
  "nonincreasing m \<Longrightarrow> (\<And>v. nonincreasing (f v)) \<Longrightarrow> nonincreasing (bindM m f)"
  unfolding nonincreasing_def by (blast intro: bindM_remaining)

lemma nonincreasing_if [simp]:
  "nonincreasing (if c then a else b) = (if c then nonincreasing a else nonincreasing b)"
  by simp

lemma property_record_nonincreasing: "nonincreasing (property_record X mol tempStr f)"
  unfolding property_record_def Let_def by simp

lemma property_record_remaining:
  "remaining (snd (property_record X mol tempStr f s)) \<le> remaining s"
  using property_record_nonincreasing [of X mol tempStr f] by (simp add: nonincreasing_def)

text \<open>
  The loop of \<^verbatim>\<open>ParseMolBlockProperties\<close>.  It ends at the end of the stream, at
  \<^verbatim>\<open>M  END\<close> and at \<^verbatim>\<open>$$$$\<close>; the result is \<^verbatim>\<open>fileComplete\<close> and the
  molecule.
\<close>

function ParseMolBlockProperties_loop ::
  "ext \<Rightarrow> RWMol \<Rightarrow> string \<Rightarrow> bool \<Rightarrow> pstate \<Rightarrow> (error + (bool \<times> RWMol)) \<times> pstate" where
  "ParseMolBlockProperties_loop X mol tempStr firstChargeLine s =
     (if \<not> eofbit s \<and> substr0 tempStr 6 \<noteq> ''M  END'' \<and> substr0 tempStr 4 \<noteq> ''$$$$'' then
        (case property_record X mol tempStr firstChargeLine s of
           (Inl e, s1) \<Rightarrow> (Inl e, s1)
         | (Inr (mol', first'), s1) \<Rightarrow>
             ParseMolBlockProperties_loop X mol' (next_line (bump_line s1)) first'
               (after_line (bump_line s1)))
      else (Inr (char_at tempStr 0 = CHR ''M'' \<and> substr0 tempStr 6 = ''M  END'', mol), s))"
  by pat_completeness auto
termination
proof (relation "measure (\<lambda>(X, mol, tempStr, f, s). 2 * remaining s + (if eofbit s then 0 else 1))")
  show "wf (measure (\<lambda>(X, mol, tempStr, f, s). 2 * remaining s + (if eofbit s then 0 else 1)))"
    by simp
next
  fix X mol tempStr firstChargeLine s x1 s1 x2 mol' first'
  assume c: "\<not> eofbit s \<and> substr0 tempStr 6 \<noteq> ''M  END'' \<and> substr0 tempStr 4 \<noteq> ''$$$$''"
    and p: "(x1, s1) = property_record X mol tempStr firstChargeLine s"
  have le: "remaining s1 \<le> remaining s"
    using property_record_remaining [of X mol tempStr firstChargeLine s] p [symmetric] by simp
  let ?s3 = "after_line (bump_line s1)"
  have g: "remaining ?s3 \<le> remaining s1 \<and> (\<not> eofbit s1 \<longrightarrow> remaining ?s3 < remaining s1)"
    using after_line_remaining [of "bump_line s1"] by simp
  have "2 * remaining ?s3 + (if eofbit ?s3 then 0 else 1) < 2 * remaining s + (if eofbit s then 0 else 1)"
  proof (cases "eofbit s1")
    case True
    then have "eofbit ?s3" by simp
    moreover have "remaining ?s3 \<le> remaining s" using g le by simp
    ultimately show ?thesis using c by simp
  next
    case False
    then have "remaining ?s3 < remaining s" using g le by simp
    then show ?thesis by simp
  qed
  then show "((X, mol', next_line (bump_line s1), first', after_line (bump_line s1)),
              (X, mol, tempStr, firstChargeLine, s))
             \<in> measure (\<lambda>(X, mol, tempStr, f, s). 2 * remaining s + (if eofbit s then 0 else 1))"
    by simp
qed

declare ParseMolBlockProperties_loop.simps [simp del]

definition ParseMolBlockProperties :: "ext \<Rightarrow> RWMol \<Rightarrow> (bool \<times> RWMol) M" where
  "ParseMolBlockProperties X mol =
     bindM getLine (\<lambda>tempStr.
     bindM incr_line (\<lambda>_.
     bindM (liftE (if char_at tempStr 0 \<noteq> CHR ''M'' \<and> char_at tempStr 0 \<noteq> CHR ''A''
                     \<and> char_at tempStr 0 \<noteq> CHR ''V'' \<and> char_at tempStr 0 \<noteq> CHR ''G''
                   then ParseOldAtomList mol tempStr else Inr mol)) (\<lambda>mol'.
     ParseMolBlockProperties_loop X mol' tempStr True)))"

subsection \<open>V3000: logical lines and tokens\<close>

definition no_V30_prefix :: "string \<Rightarrow> bool" where
  "no_V30_prefix tempStr = (length tempStr < 7 \<or> take 7 tempStr \<noteq> ''M  V30 '')"

definition not_V30_error :: "pstate \<Rightarrow> error" where
  "not_V30_error s = FileParseException (''Line '' @ show_nat (unat (line s))
                        @ '' does not start with '' @ [CHR 0x27] @ ''M  V30 '' @ [CHR 0x27, CHR 0x0A])"

text \<open>
  The continuation loop of \<^verbatim>\<open>getV3000Line\<close>: while the physical line ends in a
  dash, its payload without the dash is appended and the next line is read.
\<close>

function getV3000Line_cont :: "string \<Rightarrow> string \<Rightarrow> pstate \<Rightarrow> (error + string) \<times> pstate" where
  "getV3000Line_cont res tempStr s =
     (if \<not> no_V30_prefix tempStr \<and> last tempStr = CHR ''-'' then
        (if no_V30_prefix (next_line (bump_line s))
         then (Inl (not_V30_error (after_line (bump_line s))), after_line (bump_line s))
         else getV3000Line_cont (res @ take (length tempStr - 8) (drop 7 tempStr))
                (next_line (bump_line s)) (after_line (bump_line s)))
      else (Inr (res @ drop 7 tempStr), s))"
  by pat_completeness auto
termination
proof (relation "measure (\<lambda>(res, tempStr, s). remaining s)")
  show "wf (measure (\<lambda>(res, tempStr, s). remaining s))" by simp
next
  fix res tempStr s
  assume ok: "\<not> no_V30_prefix (next_line (bump_line s))"
  have "next_line (bump_line s) \<noteq> []" using ok by (auto simp: no_V30_prefix_def)
  then have "\<not> eofbit (bump_line s)" by (rule next_line_nonempty_not_eof)
  then have "remaining (after_line (bump_line s)) < remaining s"
    using after_line_remaining [of "bump_line s"] by simp
  then show "((res @ take (length tempStr - 8) (drop 7 tempStr), next_line (bump_line s),
               after_line (bump_line s)), (res, tempStr, s))
             \<in> measure (\<lambda>(res, tempStr, s). remaining s)"
    by simp
qed

declare getV3000Line_cont.simps [simp del]

definition getV3000Line :: "string M" where
  "getV3000Line =
     bindM incr_line (\<lambda>_.
     bindM getLine (\<lambda>tempStr.
       if no_V30_prefix tempStr then (\<lambda>s. (Inl (not_V30_error s), s))
       else getV3000Line_cont [] tempStr))"

text \<open>\<^verbatim>\<open>boost::split\<close> with one token per separator, and with adjacent separators
  merged (\<^verbatim>\<open>token_compress_on\<close>).\<close>

fun split_on :: "(char \<Rightarrow> bool) \<Rightarrow> string \<Rightarrow> string list" where
  "split_on P [] = [[]]"
| "split_on P (c # cs) =
     (if P c then [] # split_on P cs
      else (case split_on P cs of [] \<Rightarrow> [[c]] | t # ts \<Rightarrow> (c # t) # ts))"

function split_compress :: "(char \<Rightarrow> bool) \<Rightarrow> string \<Rightarrow> string list" where
  "split_compress P [] = [[]]"
| "split_compress P (c # cs) =
     (if P c then [] # split_compress P (dropWhile P cs)
      else (case split_compress P cs of [] \<Rightarrow> [[c]] | t # ts \<Rightarrow> (c # t) # ts))"
  by pat_completeness auto
termination
  by (relation "measure (\<lambda>(P, s). length s)") (auto simp: length_dropWhile_le less_Suc_eq_le)

definition is_blank_or_tab :: "char \<Rightarrow> bool" where
  "is_blank_or_tab c = (c = CHR '' '' \<or> c = CHR 0x09)"

text \<open>
  \<^verbatim>\<open>boost::tokenizer\<close> with \<^verbatim>\<open>escaped_list_separator("", " \t", "'\"")\<close>: a blank
  or tab outside quotes ends a token, a quote character switches quoting and is
  dropped.  The empty string has no token.
\<close>

fun els_split :: "bool \<Rightarrow> string \<Rightarrow> string \<Rightarrow> string list" where
  "els_split q tok [] = [tok]"
| "els_split q tok (c # cs) =
     (if is_blank_or_tab c then (if q then els_split q (tok @ [c]) cs else tok # els_split False [] cs)
      else if c = CHR 0x27 \<or> c = CHR 0x22 then els_split (\<not> q) tok cs
      else els_split q (tok @ [c]) cs)"

definition escaped_list_tokens :: "string \<Rightarrow> string list" where
  "escaped_list_tokens s = (if s = [] then [] else els_split False [] s)"

definition splitAssignToken :: "string \<Rightarrow> (string \<times> string) option" where
  "splitAssignToken token =
     (case split_on (\<lambda>c. c = CHR ''='') token of
        [p, v] \<Rightarrow> Some (to_upper p, v)
      | _ \<Rightarrow> None)"

subsection \<open>V3000: the atom block\<close>

fun atom_list_symbols :: "ext \<Rightarrow> string list \<Rightarrow> Atom option \<Rightarrow> error + Atom option" where
  "atom_list_symbols X [] res = Inr res"
| "atom_list_symbols X (st # sts) res =
     (if trim_copy st = [] then atom_list_symbols X sts res
      else
        bindE (getAtomicNumber X (trim_copy st)) (\<lambda>atNum.
        bindE (case res of None \<Rightarrow> Inr (new_QueryAtom atNum)
               | Some a \<Rightarrow> expandQuery (makeAtomNumEqualsQuery atNum) COMPOSITE_OR a) (\<lambda>a'.
        atom_list_symbols X sts (Some a'))))"

text \<open>
  \<^verbatim>\<open>ParseV3000AtomSymbol\<close>.  For \<^verbatim>\<open>R#\<close>, and for an atom list without a symbol,
  the source dereferences the null pointer \<^verbatim>\<open>res\<close>.
\<close>

definition ParseV3000AtomSymbol :: "ext \<Rightarrow> string \<Rightarrow> bool \<Rightarrow> 32 word \<Rightarrow> error + Atom" where
  "ParseV3000AtomSymbol X token negate line_no =
     (if char_at token 0 = CHR ''['' then
        (if last token \<noteq> CHR '']''
         then Inl (FileParseException (''Bad atom token '' @ [CHR 0x27] @ token @ [CHR 0x27]
                     @ '' on line: '' @ show_nat (unat line_no)))
         else
           bindE (atom_list_symbols X
                    (split_on (\<lambda>c. c = CHR '','') (take (length token - 2) (drop 1 token))) None) (\<lambda>res.
           (case res of
              None \<Rightarrow> Inl (Undefined ''null atom'')
            | Some a \<Rightarrow>
               (case atomQuery a of
                  None \<Rightarrow> Inl (Undefined ''null query'')
                | Some q \<Rightarrow> Inr (setQuery (setNegation negate q) a)))))
      else if negate then Inl (FileParseException ''NOT tokens only supported for atom lists'')
      else if token = ''R#'' \<or> token = ''A'' \<or> token = ''Q'' \<or> token = ''*'' then
        (if token = ''*'' then Inr (setNoImplicit True (setQuery makeAtomNullQuery (new_QueryAtom 0)))
         else if token = ''Q'' then Inr (setNoImplicit True (setQuery Q_query (new_QueryAtom 0)))
         else if token = ''A''
           then Inr (setNoImplicit True
                  (setQuery (setNegation True (makeAtomNumEqualsQuery 1)) (new_QueryAtom 0)))
         else Inl (Undefined ''null atom''))
      else if token = ''D'' then Inr (setMass (binary64 2.014) (new_Atom 1))
      else if token = ''T'' then Inr (setMass (binary64 3.016) (new_Atom 1))
      else
        bindE (getAtomicNumber X token) (\<lambda>num.
        bindE (getAtomicWeight X num) (\<lambda>w.
        Inr (setMass w (new_Atom num)))))"

definition atom_error :: "string \<Rightarrow> string \<Rightarrow> 32 word \<Rightarrow> error" where
  "atom_error what v idx =
     FileParseException (what @ v @ '' for atom '' @ show_nat (unat (idx + 1)) @ [CHR 0x0A])"

definition expandAtomQuery :: "RWMol \<Rightarrow> 32 word \<Rightarrow> query \<Rightarrow> error + RWMol" where
  "expandAtomQuery m idx q =
     bindE (getAtomWithIdx m idx) (\<lambda>a.
     bindE (expandQuery q COMPOSITE_AND a) (\<lambda>a'.
     replaceAtom m idx a'))"

text \<open>One \<^verbatim>\<open>KEY=VAL\<close> token of an atom line, applied to the atom at index \<open>idx\<close>.\<close>

definition V3000_atom_prop :: "ext \<Rightarrow> RWMol \<Rightarrow> 32 word \<Rightarrow> string \<Rightarrow> error + RWMol" where
  "V3000_atom_prop X mol idx token =
     (case splitAssignToken token of
        None \<Rightarrow> Inl (atom_error ''Invalid atom property: '' token idx)
      | Some (prop, val) \<Rightarrow>
          bindE (getAtomWithIdx mol idx) (\<lambda>atom.
          if prop = ''CHG'' then
            bindE (toInt val False) (\<lambda>charge.
              if \<not> hasQuery atom then updateAtom mol idx (setFormalCharge charge)
              else expandAtomQuery mol idx (makeAtomFormalChargeQuery charge))
          else if prop = ''RAD'' then
            bindE (toInt val False) (\<lambda>rad.
              if rad = 0 then Inr mol
              else if rad = 1 then updateAtom mol idx (setNumRadicalElectrons 2)
              else if rad = 2 then updateAtom mol idx (setNumRadicalElectrons 1)
              else if rad = 3 then updateAtom mol idx (setNumRadicalElectrons 2)
              else Inl (atom_error ''Unrecognized RAD value '' val idx))
          else if prop = ''MASS'' then
            bindE (toDouble (atof X) val True) (\<lambda>v.
              if v \<le> 0 then Inl (atom_error ''Bad value for MASS :'' val idx)
              else if \<not> hasQuery atom then updateAtom mol idx (setMass v)
              else expandAtomQuery mol idx (makeAtomMassQuery (double_to_int v)))
          else if prop = ''CFG'' then
            bindE (toInt val False) (\<lambda>cfg.
              if cfg = 0 then Inr mol
              else if cfg = 1 \<or> cfg = 2 \<or> cfg = 3
                then updateAtom mol idx (setAtomProp ''molParity'' (PInt cfg))
              else Inl (atom_error ''Unrecognized CFG value : '' val idx))
          else if prop = ''HCOUNT'' then
            (if val \<noteq> ''0'' then
               bindE (toInt val False) (\<lambda>hcount.
               promote_and_expand mol idx (makeAtomHCountQuery (if hcount = -1 then 0 else hcount)))
             else Inr mol)
          else if prop = ''UNSAT'' then
            (if val = ''1'' then promote_and_expand mol idx makeAtomUnsaturatedQuery else Inr mol)
          else if prop = ''RBCNT'' then
            (if val \<noteq> ''0'' then
               bindE (toInt val False) (\<lambda>rbcount.
               promote_and_expand mol idx
                 (makeAtomRingBondCountQuery (if rbcount = -1 then 0 else rbcount)))
             else Inr mol)
          else if prop = ''AAMAP'' then
            (if val \<noteq> ''0'' then
               bindE (toInt val False) (\<lambda>mapno.
               updateAtom mol idx (setAtomProp ''molAtomMapNumber'' (PInt mapno)))
             else Inr mol)
          else Inr mol))"

fun ParseV3000AtomProps :: "ext \<Rightarrow> RWMol \<Rightarrow> 32 word \<Rightarrow> string list \<Rightarrow> error + RWMol" where
  "ParseV3000AtomProps X mol idx [] = Inr mol"
| "ParseV3000AtomProps X mol idx (token # tokens) =
     bindE (V3000_atom_prop X mol idx token) (\<lambda>mol'. ParseV3000AtomProps X mol' idx tokens)"

definition bad_atom_line :: "string \<Rightarrow> error" where
  "bad_atom_line tempStr = FileParseException (''Bad atom line : '' @ [CHR 0x27] @ tempStr @ [CHR 0x27])"

text \<open>
  One record of the atom block: index, optional \<^verbatim>\<open>NOT\<close>, symbol, three
  coordinates, map number, then the properties.
\<close>

definition V3000_atom_record ::
  "ext \<Rightarrow> string \<Rightarrow> 32 word \<Rightarrow> RWMol \<Rightarrow> Conformer \<Rightarrow> error + (RWMol \<times> Conformer)" where
  "V3000_atom_record X tempStr line_no mol conf =
     (case escaped_list_tokens (trim_copy tempStr) of
        [] \<Rightarrow> Inl (bad_atom_line tempStr)
      | idx_tok # rest0 \<Rightarrow>
         (let molIdx = (word_of_int (atoi idx_tok) :: 32 word);
              negate = (rest0 \<noteq> [] \<and> hd rest0 = ''NOT'');
              rest1 = (if negate then tl rest0 else rest0)
          in
          (case rest1 of
             symb # x_tok # y_tok # z_tok # map_tok # prop_toks \<Rightarrow>
               bindE (ParseV3000AtomSymbol X symb negate line_no) (\<lambda>atom0.
               let atom = setAtomProp ''molAtomMapNumber'' (PInt (atoi map_tok)) atom0;
                   aid = snd (addAtom mol atom);
                   mol1 = fst (addAtom mol atom)
               in
               bindE (ParseV3000AtomProps X mol1 (word_of_nat aid) prop_toks) (\<lambda>mol2.
               Inr (setAtomBookmark mol2 aid molIdx,
                    setAtomPos aid (atof X x_tok, atof X y_tok, atof X z_tok) conf)))
           | symb # _ \<Rightarrow>
               bindE (ParseV3000AtomSymbol X symb negate line_no) (\<lambda>_. Inl (bad_atom_line tempStr))
           | [] \<Rightarrow> Inl (bad_atom_line tempStr))))"

definition get_line_no :: "32 word M" where
  "get_line_no s = (Inr (line s), s)"

fun ParseV3000AtomBlock_records ::
  "ext \<Rightarrow> nat \<Rightarrow> RWMol \<Rightarrow> Conformer \<Rightarrow> (RWMol \<times> Conformer) M" where
  "ParseV3000AtomBlock_records X 0 mol conf = returnM (mol, conf)"
| "ParseV3000AtomBlock_records X (Suc n) mol conf =
     bindM getV3000Line (\<lambda>tempStr.
     bindM get_line_no (\<lambda>line_no.
     bindM (liftE (V3000_atom_record X tempStr line_no mol conf)) (\<lambda>(mol', conf').
     ParseV3000AtomBlock_records X n mol' conf')))"

definition clearMolProp :: "string \<Rightarrow> RWMol \<Rightarrow> RWMol" where
  "clearMolProp k m = m \<lparr> molProps := clearProp k (molProps m) \<rparr>"

text \<open>The dimension flag of the header moves from the molecule to the conformer.\<close>

definition apply_conf_dimension :: "RWMol \<Rightarrow> Conformer \<Rightarrow> RWMol \<times> Conformer" where
  "apply_conf_dimension mol conf =
     (if hasProp ''_2DConf'' (molProps mol) then (clearMolProp ''_2DConf'' mol, conf \<lparr> is3D := False \<rparr>)
      else if hasProp ''_3DConf'' (molProps mol) then (clearMolProp ''_3DConf'' mol, conf \<lparr> is3D := True \<rparr>)
      else (mol, conf))"

definition expect_line :: "string \<Rightarrow> string \<Rightarrow> unit M" where
  "expect_line tempStr what =
     (if length tempStr < length what \<or> take (length what) tempStr \<noteq> what
      then throwM (FileParseException (what @ '' line not found''))
      else returnM ())"

definition ParseV3000AtomBlock ::
  "ext \<Rightarrow> 32 word \<Rightarrow> RWMol \<Rightarrow> Conformer \<Rightarrow> (RWMol \<times> Conformer) M" where
  "ParseV3000AtomBlock X nAtoms mol conf =
     bindM (liftE (PRECONDITION (nAtoms > 0) ''bad atom count'')) (\<lambda>_.
     bindM getV3000Line (\<lambda>tempStr.
     bindM (expect_line tempStr ''BEGIN ATOM'') (\<lambda>_.
     bindM (ParseV3000AtomBlock_records X (unat nAtoms) mol conf) (\<lambda>(mol', conf').
     bindM getV3000Line (\<lambda>tempStr'.
     bindM (expect_line tempStr' ''END ATOM'') (\<lambda>_.
     returnM (apply_conf_dimension mol' conf')))))))"

subsection \<open>V3000: the bond block\<close>

definition V3000_bond_of_type :: "32 word \<Rightarrow> Bond \<times> string list" where
  "V3000_bond_of_type bType =
     (if bType = 1 then (new_Bond SINGLE, [])
      else if bType = 2 then (new_Bond DOUBLE, [])
      else if bType = 3 then (new_Bond TRIPLE, [])
      else if bType = 4 then ((new_Bond AROMATIC) \<lparr> bondIsAromatic := True \<rparr>, [])
      else if bType = 0 then (new_Bond UNSPECIFIED, [order_0_warning])
      else if bType = 8 then (setBondQuery makeBondNullQuery (new_Bond UNSPECIFIED), [])
      else if bType = 5 then (setBondQuery (bond_or_query SINGLE DOUBLE) (new_Bond UNSPECIFIED), [])
      else if bType = 6 then (setBondQuery (bond_or_query SINGLE AROMATIC) (new_Bond UNSPECIFIED), [])
      else if bType = 7 then (setBondQuery (bond_or_query DOUBLE AROMATIC) (new_Bond UNSPECIFIED), [])
      else (setBondQuery makeBondNullQuery (new_Bond UNSPECIFIED),
            [query_bond_warning (show_nat (unat bType))]))"

definition bond_prop_error :: "string \<Rightarrow> string \<Rightarrow> 32 word \<Rightarrow> error" where
  "bond_prop_error what v line_no =
     FileParseException (what @ v @ [CHR 0x27] @ '' on line '' @ show_nat (unat line_no))"

text \<open>One \<^verbatim>\<open>KEY=VAL\<close> token of a bond line; the result is the bond and the chirality flag.\<close>

definition V3000_bond_prop ::
  "32 word \<Rightarrow> 32 word \<Rightarrow> string \<Rightarrow> Bond \<Rightarrow> bool \<Rightarrow> error + (Bond \<times> bool)" where
  "V3000_bond_prop bType line_no token bond chir =
     (case splitAssignToken token of
        None \<Rightarrow> Inl (FileParseException (''bad bond property '' @ [CHR 0x27] @ token @ [CHR 0x27]
                       @ '' on line '' @ show_nat (unat line_no)))
      | Some (prop, val) \<Rightarrow>
          if prop = ''CFG'' then
            (let cfg = (word_of_int (atoi val) :: 32 word) in
             if cfg = 0 then Inr (bond, chir)
             else if cfg = 1 then Inr (setBondDir BEGINWEDGE bond, True)
             else if cfg = 2 then
               Inr (if bType = 1 then setBondDir UNKNOWN bond
                    else if bType = 2 then (setBondDir EITHERDOUBLE bond) \<lparr> stereo := STEREOANY \<rparr>
                    else bond, chir)
             else if cfg = 3 then Inr (setBondDir BEGINDASH bond, True)
             else Inl (bond_prop_error ''bad bond CFG '' val line_no))
          else if prop = ''TOPO'' then
            (if val \<noteq> ''0'' then
               (let qBond = (if bondQuery bond = None then QueryBond_of bond else bond) in
                if val = ''1'' then bindE (bond_expandQuery makeBondIsInRingQuery qBond) (\<lambda>b. Inr (b, chir))
                else if val = ''2''
                  then bindE (bond_expandQuery (setNegation True makeBondIsInRingQuery) qBond)
                         (\<lambda>b. Inr (b, chir))
                else Inl (bond_prop_error ''bad bond TOPO '' val line_no))
             else Inr (bond, chir))
          else if prop = ''RXCTR'' then
            bindE (toInt val False) (\<lambda>reactStatus.
            Inr (bond \<lparr> bondProps := setProp ''molReactStatus'' (PInt reactStatus) (bondProps bond) \<rparr>,
                 chir))
          else Inr (bond, chir))"

fun V3000_bond_props ::
  "32 word \<Rightarrow> 32 word \<Rightarrow> string list \<Rightarrow> Bond \<Rightarrow> bool \<Rightarrow> error + (Bond \<times> bool)" where
  "V3000_bond_props bType line_no [] bond chir = Inr (bond, chir)"
| "V3000_bond_props bType line_no (token # tokens) bond chir =
     bindE (V3000_bond_prop bType line_no token bond chir) (\<lambda>(bond', chir').
     V3000_bond_props bType line_no tokens bond' chir')"

definition V3000_bond_record :: "string \<Rightarrow> 32 word \<Rightarrow> RWMol \<Rightarrow> bool \<Rightarrow> (RWMol \<times> bool) W" where
  "V3000_bond_record tempStr line_no mol chir =
     (case split_compress is_blank_or_tab (trim_copy tempStr) of
        bondIdx_t # bType_t # a1_t # a2_t # prop_toks \<Rightarrow>
          (let bondIdx = (word_of_int (atoi bondIdx_t) :: 32 word);
               bType = (word_of_int (atoi bType_t) :: 32 word);
               a1Idx = (word_of_int (atoi a1_t) :: 32 word);
               a2Idx = (word_of_int (atoi a2_t) :: 32 word)
           in
           bindW (Inr (fst (V3000_bond_of_type bType)), snd (V3000_bond_of_type bType)) (\<lambda>bond0.
           quiet (
             bindE (V3000_bond_props bType line_no prop_toks bond0 chir) (\<lambda>(bond1, chir').
             bindE (getAtomWithBookmark mol a1Idx) (\<lambda>a1.
             bindE (getAtomWithBookmark mol a2Idx) (\<lambda>a2.
             let bond = bond1 \<lparr> beginAtomIdx := word_of_nat a1, endAtomIdx := word_of_nat a2 \<rparr> in
             bindE (addBond mol bond) (\<lambda>mol1.
             bindE (if bondIsAromatic bond then mark_aromatic mol1 bond else Inr mol1) (\<lambda>mol2.
             Inr (setBondBookmark mol2 (length (bonds mol)) bondIdx, chir')))))))))
      | _ \<Rightarrow> quiet (Inl (FileParseException
                 (''bond line : '' @ show_nat (unat line_no) @ '' is too short''))))"

fun ParseV3000BondBlock_records :: "nat \<Rightarrow> RWMol \<Rightarrow> bool \<Rightarrow> (RWMol \<times> bool) M" where
  "ParseV3000BondBlock_records 0 mol chir = returnM (mol, chir)"
| "ParseV3000BondBlock_records (Suc n) mol chir =
     bindM getV3000Line (\<lambda>tempStr.
     bindM get_line_no (\<lambda>line_no.
     bindM (liftW (V3000_bond_record tempStr line_no mol chir)) (\<lambda>(mol', chir').
     ParseV3000BondBlock_records n mol' chir')))"

definition ParseV3000BondBlock :: "32 word \<Rightarrow> RWMol \<Rightarrow> bool \<Rightarrow> (RWMol \<times> bool) M" where
  "ParseV3000BondBlock nBonds mol chir =
     bindM (liftE (PRECONDITION (nBonds > 0) ''bad bond count'')) (\<lambda>_.
     bindM getV3000Line (\<lambda>tempStr.
     bindM (expect_line tempStr ''BEGIN BOND'') (\<lambda>_.
     bindM (ParseV3000BondBlock_records (unat nBonds) mol chir) (\<lambda>r.
     bindM getV3000Line (\<lambda>tempStr'.
     bindM (expect_line tempStr' ''END BOND'') (\<lambda>_.
     returnM r))))))"

subsection \<open>V3000: the CTAB\<close>

lemma getV3000Line_cont_remaining:
  "remaining (snd (getV3000Line_cont res tempStr s)) \<le> remaining s"
proof (induction res tempStr s rule: getV3000Line_cont.induct)
  case (1 res tempStr s)
  let ?s2 = "after_line (bump_line s)"
  have s2: "remaining ?s2 \<le> remaining s"
    using after_line_remaining [of "bump_line s"] by simp
  show ?case
  proof (cases "\<not> no_V30_prefix tempStr \<and> last tempStr = CHR ''-''")
    case False
    then show ?thesis by (subst getV3000Line_cont.simps) auto
  next
    case True
    show ?thesis
    proof (cases "no_V30_prefix (next_line (bump_line s))")
      case True
      with \<open>\<not> no_V30_prefix tempStr \<and> last tempStr = CHR ''-''\<close> s2 show ?thesis
        by (subst getV3000Line_cont.simps) simp
    next
      case False
      have "remaining (snd (getV3000Line_cont (res @ take (length tempStr - 8) (drop 7 tempStr))
               (next_line (bump_line s)) ?s2)) \<le> remaining ?s2"
        using "1.IH" [OF True False] .
      with True False s2 show ?thesis
        by (subst getV3000Line_cont.simps) simp
    qed
  qed
qed

lemma getV3000Line_unfold:
  "getV3000Line s =
     (if no_V30_prefix (next_line (bump_line s))
      then (Inl (not_V30_error (after_line (bump_line s))), after_line (bump_line s))
      else getV3000Line_cont [] (next_line (bump_line s)) (after_line (bump_line s)))"
  by (simp add: getV3000Line_def)

lemma getV3000Line_le: "remaining (snd (getV3000Line s)) \<le> remaining s"
proof -
  have "remaining (after_line (bump_line s)) \<le> remaining s"
    using after_line_remaining [of "bump_line s"] by simp
  moreover have "remaining (snd (getV3000Line_cont [] (next_line (bump_line s)) (after_line (bump_line s))))
      \<le> remaining (after_line (bump_line s))"
    by (rule getV3000Line_cont_remaining)
  ultimately show ?thesis by (simp add: getV3000Line_unfold)
qed

lemma getV3000Line_decreases:
  assumes "getV3000Line s = (Inr l, s')"
  shows "remaining s' < remaining s"
proof -
  let ?t = "next_line (bump_line s)"
  let ?s2 = "after_line (bump_line s)"
  have ok: "\<not> no_V30_prefix ?t"
    using assms by (auto simp: getV3000Line_unfold split: if_splits)
  then have eq: "getV3000Line s = getV3000Line_cont [] ?t ?s2"
    by (simp add: getV3000Line_unfold)
  have "?t \<noteq> []" using ok by (auto simp: no_V30_prefix_def)
  then have "\<not> eofbit (bump_line s)" by (rule next_line_nonempty_not_eof)
  then have "remaining ?s2 < remaining s"
    using after_line_remaining [of "bump_line s"] by simp
  moreover have "getV3000Line_cont [] ?t ?s2 = (Inr l, s')"
    using eq assms by simp
  then have "remaining s' \<le> remaining ?s2"
    using getV3000Line_cont_remaining [of "[]" ?t ?s2] by simp
  ultimately show ?thesis by simp
qed

lemma getV3000Line_nonincreasing [simp]: "nonincreasing getV3000Line"
  by (simp add: nonincreasing_def getV3000Line_le)

text \<open>
  The loop that follows \<^verbatim>\<open>BEGIN SGROUP\<close>: it reads logical lines and leaves at the
  first one that has at least ten characters and does not start with
  \<^verbatim>\<open>END SGROUP\<close>.
\<close>

function skip_sgroup_lines :: "pstate \<Rightarrow> (error + unit) \<times> pstate" where
  "skip_sgroup_lines s =
     (case getV3000Line s of
        (Inl e, s') \<Rightarrow> (Inl e, s')
      | (Inr tempStr, s') \<Rightarrow>
          if length tempStr \<ge> 10 \<and> take 10 tempStr \<noteq> ''END SGROUP'' then (Inr (), s')
          else skip_sgroup_lines s')"
  by pat_completeness auto
termination
  by (relation "measure remaining") (auto dest: getV3000Line_decreases [OF sym])

declare skip_sgroup_lines.simps [simp del]

fun read_V3000_lines :: "nat \<Rightarrow> unit M" where
  "read_V3000_lines 0 = returnM ()"
| "read_V3000_lines (Suc n) = bindM getV3000Line (\<lambda>_. read_V3000_lines n)"

function skip_linknodes :: "string \<Rightarrow> pstate \<Rightarrow> (error + string) \<times> pstate" where
  "skip_linknodes tempStr s =
     (if length tempStr > 8 \<and> take 8 tempStr = ''LINKNODE'' then
        (case getV3000Line s of
           (Inl e, s') \<Rightarrow> (Inl e, s')
         | (Inr t, s') \<Rightarrow> skip_linknodes t s')
      else (Inr tempStr, s))"
  by pat_completeness auto
termination
  by (relation "measure (\<lambda>(t, s). remaining s)") (auto dest: getV3000Line_decreases [OF sym])

declare skip_linknodes.simps [simp del]

function skip_to_END :: "string \<Rightarrow> pstate \<Rightarrow> (error + string) \<times> pstate" where
  "skip_to_END tempStr s =
     (if length tempStr < 3 \<or> take 3 tempStr \<noteq> ''END'' then
        (case getV3000Line s of
           (Inl e, s') \<Rightarrow> (Inl e, s')
         | (Inr t, s') \<Rightarrow> skip_to_END t s')
      else (Inr tempStr, s))"
  by pat_completeness auto
termination
  by (relation "measure (\<lambda>(t, s). remaining s)") (auto dest: getV3000Line_decreases [OF sym])

declare skip_to_END.simps [simp del]

lemma skip_to_END_remaining: "remaining (snd (skip_to_END t s)) \<le> remaining s"
proof (induction t s rule: skip_to_END.induct)
  case (1 tempStr s)
  show ?case
  proof (cases "length tempStr < 3 \<or> take 3 tempStr \<noteq> ''END''")
    case False
    then show ?thesis by (subst skip_to_END.simps) auto
  next
    case True
    obtain r s' where g: "getV3000Line s = (r, s')" by (cases "getV3000Line s")
    have le: "remaining s' \<le> remaining s"
      using getV3000Line_le [of s] g by simp
    show ?thesis
    proof (cases r)
      case (Inl e)
      with True g le show ?thesis by (subst skip_to_END.simps) simp
    next
      case (Inr t)
      have "remaining (snd (skip_to_END t s')) \<le> remaining s'"
        using "1.IH" [OF True g [symmetric] Inr] .
      with True g Inr le show ?thesis by (subst skip_to_END.simps) simp
    qed
  qed
qed

text \<open>One unknown block: the warning, the lines up to one that starts with
  \<^verbatim>\<open>END\<close>, and the line after it.\<close>

definition skip_block :: "string \<Rightarrow> string M" where
  "skip_block tempStr =
     bindM (warn (''skipping block: '' @ tempStr)) (\<lambda>_.
     bindM getV3000Line (\<lambda>t.
     bindM (skip_to_END t) (\<lambda>_.
     getV3000Line)))"

lemma skip_block_decreases:
  assumes "skip_block t s = (Inr l, s')"
  shows "remaining s' < remaining s"
proof -
  from assms obtain t1 s1 t2 s2 where
    a: "getV3000Line (snd (warn (''skipping block: '' @ t) s)) = (Inr t1, s1)"
    and b: "skip_to_END t1 s1 = (Inr t2, s2)"
    and c: "getV3000Line s2 = (Inr l, s')"
    by (auto simp: skip_block_def bindM_def warn_def split: prod.splits sum.splits)
  have "remaining s1 < remaining s" using getV3000Line_decreases [OF a] by (simp add: warn_def)
  moreover have "remaining s2 \<le> remaining s1" using skip_to_END_remaining [of t1 s1] b by simp
  moreover have "remaining s' < remaining s2" using getV3000Line_decreases [OF c] .
  ultimately show ?thesis by simp
qed

function skip_unknown_blocks :: "string \<Rightarrow> pstate \<Rightarrow> (error + string) \<times> pstate" where
  "skip_unknown_blocks tempStr s =
     (if length tempStr > 5 \<and> take 5 tempStr = ''BEGIN'' then
        (case skip_block tempStr s of
           (Inl e, s') \<Rightarrow> (Inl e, s')
         | (Inr t, s') \<Rightarrow> skip_unknown_blocks t s')
      else (Inr tempStr, s))"
  by pat_completeness auto
termination
  by (relation "measure (\<lambda>(t, s). remaining s)") (auto dest: skip_block_decreases [OF sym])

declare skip_unknown_blocks.simps [simp del]

text \<open>
  \<^verbatim>\<open>unsigned int nSgroups,n3DConstraints,chiralFlag;\<close> are declared without a
  value and assigned only when the COUNTS line has the field.  What the first two hold
  otherwise is not determined by the program; the model takes it as a parameter.
\<close>

record indeterminate =
  nSgroups_uninit :: "32 word"
  n3DConstraints_uninit :: "32 word"

definition sgroup_warning :: string where
  "sgroup_warning = ''S group information in mol block igored''"

definition obj3d_warning :: string where
  "obj3d_warning = ''3d constraint information in mol block igored''"

definition skip_sgroups :: "32 word \<Rightarrow> unit M" where
  "skip_sgroups nSgroups =
     (if nSgroups \<noteq> 0 then
        bindM (warn sgroup_warning) (\<lambda>_.
        bindM getV3000Line (\<lambda>tempStr.
        bindM (expect_line tempStr ''BEGIN SGROUP'') (\<lambda>_.
        skip_sgroup_lines)))
      else returnM ())"

definition skip_obj3d :: "32 word \<Rightarrow> unit M" where
  "skip_obj3d n3DConstraints =
     (if n3DConstraints \<noteq> 0 then
        bindM (warn obj3d_warning) (\<lambda>_.
        bindM getV3000Line (\<lambda>tempStr.
        bindM (expect_line tempStr ''BEGIN OBJ3D'') (\<lambda>_.
        bindM (read_V3000_lines (unat n3DConstraints)) (\<lambda>_.
        bindM getV3000Line (\<lambda>tempStr'.
        expect_line tempStr' ''END OBJ3D'')))))
      else returnM ())"

definition bad_counts_line :: "string \<Rightarrow> error" where
  "bad_counts_line tempStr =
     FileParseException (''Bad counts line : '' @ [CHR 0x27] @ tempStr @ [CHR 0x27])"

definition count_field :: "string list \<Rightarrow> nat \<Rightarrow> 32 word \<Rightarrow> error + 32 word" where
  "count_field splitLine i unset =
     (if length splitLine > i then bindE (toInt (splitLine ! i) False) (\<lambda>v. Inr (word_of_int v))
      else Inr unset)"

definition ParseV3000MolBlock :: "ext \<Rightarrow> indeterminate \<Rightarrow> RWMol \<Rightarrow> bool \<Rightarrow> (RWMol \<times> bool) M" where
  "ParseV3000MolBlock X U mol chir =
     bindM getV3000Line (\<lambda>tempStr0.
     bindM (expect_line tempStr0 ''BEGIN CTAB'') (\<lambda>_.
     bindM getV3000Line (\<lambda>tempStr.
       if length tempStr < 8 \<or> take 7 tempStr \<noteq> ''COUNTS '' then throwM (bad_counts_line tempStr)
       else
         (let splitLine = split_compress is_blank_or_tab (trim_copy (drop 7 tempStr)) in
          if length splitLine < 2 then throwM (bad_counts_line tempStr)
          else
            bindM (liftE (count_field splitLine 0 0)) (\<lambda>nAtoms.
            bindM (liftE (count_field splitLine 1 0)) (\<lambda>nBonds.
              if nAtoms \<le> 0 then throwM (FileParseException ''molecule has no atoms'')
              else
                bindM (liftE (count_field splitLine 2 (nSgroups_uninit U))) (\<lambda>nSgroups.
                bindM (liftE (count_field splitLine 3 (n3DConstraints_uninit U))) (\<lambda>n3DConstraints.
                bindM (liftE (count_field splitLine 4 0)) (\<lambda>chiralFlag.
                bindM (ParseV3000AtomBlock X nAtoms mol (new_Conformer (unat nAtoms))) (\<lambda>(mol1, conf).
                bindM (ParseV3000BondBlock nBonds mol1 chir) (\<lambda>(mol2, chir').
                bindM (skip_sgroups nSgroups) (\<lambda>_.
                bindM (skip_obj3d n3DConstraints) (\<lambda>_.
                bindM getV3000Line (\<lambda>tempStr1.
                bindM (skip_linknodes tempStr1) (\<lambda>tempStr2.
                bindM (skip_unknown_blocks tempStr2) (\<lambda>tempStr3.
                bindM (expect_line tempStr3 ''END CTAB'') (\<lambda>_.
                bindM (liftE (addConformer mol2 conf)) (\<lambda>mol3.
                returnM (mol3, chir')))))))))))))))))))"

subsection \<open>The query completion pass\<close>

text \<open>
  \<open>tgt f\<close> is the value of the data function \<open>f\<close> on the atom that owns the tree.
  A node whose class has no value (a combinator, the null query) is left as it is.
\<close>

fun completeQueryAndChildren :: "(datafunc \<Rightarrow> int) \<Rightarrow> int \<Rightarrow> query \<Rightarrow> query" where
  "completeQueryAndChildren tgt magicVal (Query c d n v f ch) =
     Query c d n (if v = Some magicVal then Some (tgt f) else v) f
       (map (completeQueryAndChildren tgt magicVal) ch)"

definition complete_atom :: "ext \<Rightarrow> int \<Rightarrow> RWMol \<Rightarrow> nat \<Rightarrow> RWMol" where
  "complete_atom X magicVal mol i =
     (case atomQuery (atoms mol ! i) of
        None \<Rightarrow> mol
      | Some q \<Rightarrow>
          mol \<lparr> atoms := (atoms mol)
                 [i := (atoms mol ! i) \<lparr> atomQuery :=
                         Some (completeQueryAndChildren (\<lambda>f. queryDataFunc X f mol i) magicVal q) \<rparr>] \<rparr>)"

definition CompleteMolQueries :: "ext \<Rightarrow> RWMol \<Rightarrow> int \<Rightarrow> RWMol" where
  "CompleteMolQueries X mol magicVal =
     foldl (complete_atom X magicVal) mol [0..<length (atoms mol)]"

subsection \<open>The orchestrator\<close>

definition dimension_flag :: "string \<Rightarrow> RWMol \<Rightarrow> RWMol" where
  "dimension_flag info res =
     (if length info \<ge> 22 then
        (if take 2 (drop 20 info) = ''2d'' \<or> take 2 (drop 20 info) = ''2D''
           then setMolProp ''_2DConf'' (PInt 1) res
         else if take 2 (drop 20 info) = ''3d'' \<or> take 2 (drop 20 info) = ''3D''
           then setMolProp ''_3DConf'' (PInt 1) res
         else res)
      else res)"

text \<open>The version of the counts line: 2000 when the line has no version field.\<close>

definition ctab_version :: "string \<Rightarrow> error + nat" where
  "ctab_version tempStr =
     (if length tempStr > 35 then
        (if length tempStr < 39 \<or> char_at tempStr 34 \<noteq> CHR ''V''
           then Inl (FileParseException ''CTAB version string invalid'')
         else if take 5 (drop 34 tempStr) = ''V3000'' then Inr 3000
         else if take 5 (drop 34 tempStr) \<noteq> ''V2000''
           then Inl (FileParseException (''Unsupported CTAB version: '' @ [CHR 0x27]
                       @ take 5 (drop 34 tempStr) @ [CHR 0x27]))
         else Inr 2000)
      else Inr 2000)"

text \<open>
  The V2000 branch: atoms, conformer, bonds, properties.  The result is
  \<^verbatim>\<open>fileComplete\<close>, the molecule and \<^verbatim>\<open>chiralityPossible\<close>.
\<close>

definition ParseV2000MolBlock :: "ext \<Rightarrow> int \<Rightarrow> int \<Rightarrow> RWMol \<Rightarrow> (bool \<times> RWMol \<times> bool) M" where
  "ParseV2000MolBlock X nAtoms nBonds res =
     (if nAtoms \<le> 0 then throwM (FileParseException ''molecule has no atoms'')
      else
        bindM (ParseMolBlockAtoms X (nat nAtoms) res (new_Conformer (nat nAtoms))) (\<lambda>(res1, conf).
        bindM (liftE (addConformer (fst (apply_conf_dimension res1 conf))
                        (snd (apply_conf_dimension res1 conf)))) (\<lambda>res2.
        bindM (ParseMolBlockBonds (unat (word_of_int nBonds :: 32 word)) res2 False) (\<lambda>(res3, chir).
        bindM (ParseMolBlockProperties X res3) (\<lambda>(fileComplete, res4).
        returnM (fileComplete, res4, chir))))))"

definition calcExplicitValences :: "ext \<Rightarrow> RWMol \<Rightarrow> RWMol" where
  "calcExplicitValences X mol =
     mol \<lparr> atoms := map (\<lambda>i. (atoms mol ! i) \<lparr> explicitValence := Some (calcExplicitValence X mol i) \<rparr>)
                      [0..<length (atoms mol)] \<rparr>"

text \<open>The passes run when the caller asked for sanitization.\<close>

definition sanitize_passes :: "ext \<Rightarrow> bool \<Rightarrow> bool \<Rightarrow> RWMol \<Rightarrow> error + RWMol" where
  "sanitize_passes X removeHs_flag chiralityPossible res =
     bindE (if chiralityPossible
            then bindE (cleanUp X res) (DetectAtomStereoChemistry X)
            else Inr res) (\<lambda>res1.
     bindE (if removeHs_flag then removeHs X res1 else sanitizeMol X res1) (\<lambda>res2.
     bindE (ClearSingleBondDirFlags X res2) (\<lambda>res3.
     bindE (DetectBondStereoChemistry X res3) (\<lambda>res4.
     assignStereochemistry X res4))))"

definition complete_queries :: "ext \<Rightarrow> RWMol \<Rightarrow> RWMol" where
  "complete_queries X res =
     (if hasProp ''_NeedsQueryScan'' (molProps res)
      then CompleteMolQueries X (clearMolProp ''_NeedsQueryScan'' res) MAGIC
      else res)"

text \<open>What follows a complete parse: valences, the optional passes, the query scan.\<close>

definition finish_mol :: "ext \<Rightarrow> bool \<Rightarrow> bool \<Rightarrow> bool \<Rightarrow> RWMol \<Rightarrow> error + RWMol" where
  "finish_mol X sanitize removeHs_flag chiralityPossible res =
     bindE (if sanitize
            then sanitize_passes X removeHs_flag chiralityPossible (calcExplicitValences X res)
            else Inr (calcExplicitValences X res)) (\<lambda>res'.
     Inr (complete_queries X res'))"

text \<open>
  The molecule after the three header lines; the counts line follows.  The optional
  fields of the counts line (\<^verbatim>\<open>nLists\<close> to \<^verbatim>\<open>nIntermediates\<close>) are converted
  in a try block that swallows \<^verbatim>\<open>bad_lexical_cast\<close> and are never used: they have
  no effect and do not appear here.
\<close>

definition header_mol :: "string \<Rightarrow> string \<Rightarrow> string \<Rightarrow> RWMol" where
  "header_mol name info comments =
     setMolProp ''_MolFileComments'' (PString comments)
       (dimension_flag info
         (setMolProp ''_MolFileInfo'' (PString info)
           (setMolProp ''_Name'' (PString name) new_RWMol)))"

definition parse_ctab :: "ext \<Rightarrow> indeterminate \<Rightarrow> string \<Rightarrow> RWMol \<Rightarrow> (bool \<times> RWMol \<times> bool) M" where
  "parse_ctab X U tempStr res =
     (if length tempStr < 6
      then throwM (FileParseException (''Counts line too short: '' @ [CHR 0x27] @ tempStr @ [CHR 0x27]))
      else
        bindM (liftE (int_field tempStr 0 3)) (\<lambda>nAtoms.
        bindM (liftE (int_field tempStr 3 3)) (\<lambda>nBonds.
        bindM (liftE (ctab_version tempStr)) (\<lambda>ctabVersion.
          if ctabVersion = 2000 then ParseV2000MolBlock X nAtoms nBonds res
          else if nAtoms \<noteq> 0 \<or> nBonds \<noteq> 0
            then throwM (FileParseException
                   ''V3000 mol blocks should have 0s in the initial counts line.'')
          else bindM (ParseV3000MolBlock X U res False) (\<lambda>(res', chir).
               returnM (True, res', chir))))))"

text \<open>
  After the CTAB: without \<^verbatim>\<open>M  END\<close> the parse is refused, otherwise the molecule
  is finished and returned.
\<close>

definition finish_parse :: "ext \<Rightarrow> bool \<Rightarrow> bool \<Rightarrow> bool \<times> RWMol \<times> bool \<Rightarrow> RWMol option M" where
  "finish_parse X sanitize removeHs_flag r =
     (if \<not> fst r
      then throwM (FileParseException ''Problems encountered parsing Mol data, M  END '')
      else bindM (liftE (finish_mol X sanitize removeHs_flag (snd (snd r)) (fst (snd r)))) (\<lambda>res'.
           returnM (Some res')))"

text \<open>
  \<^verbatim>\<open>MolDataStreamToMol\<close>.  \<open>None\<close> is the null pointer returned when the stream
  ends in the name line.
\<close>

definition MolDataStreamToMol :: "ext \<Rightarrow> indeterminate \<Rightarrow> bool \<Rightarrow> bool \<Rightarrow> RWMol option M" where
  "MolDataStreamToMol X U sanitize removeHs_flag =
     bindM incr_line (\<lambda>_.
     bindM getLine (\<lambda>name.
     bindM eof (\<lambda>at_end.
       if at_end then returnM None
       else
         bindM incr_line (\<lambda>_.
         bindM getLine (\<lambda>info.
         bindM incr_line (\<lambda>_.
         bindM getLine (\<lambda>comments.
         bindM incr_line (\<lambda>_.
         bindM getLine (\<lambda>tempStr.
         bindM (parse_ctab X U tempStr (header_mol name info comments))
           (finish_parse X sanitize removeHs_flag))))))))))"

text \<open>\<^verbatim>\<open>MolBlockToMol\<close>: the parse of a string, with the line counter at 0.\<close>

definition initial_state :: "string \<Rightarrow> pstate" where
  "initial_state molBlock = \<lparr> stream = molBlock, eofbit = False, line = 0, warnings = [] \<rparr>"

definition MolBlockToMol :: "ext \<Rightarrow> indeterminate \<Rightarrow> string \<Rightarrow> bool \<Rightarrow> bool \<Rightarrow> error + RWMol option" where
  "MolBlockToMol X U molBlock sanitize removeHs_flag =
     fst (MolDataStreamToMol X U sanitize removeHs_flag (initial_state molBlock))"

subsection \<open>Collaborators for running the model on examples\<close>

text \<open>
  A small periodic table, a reader of numbers for \<^verbatim>\<open>atof\<close> and passes that leave
  the molecule alone.  They only serve to evaluate the parser on concrete molfiles; no
  general theorem depends on them.
\<close>

definition periodic_table :: "(string \<times> int \<times> double) list" where
  "periodic_table =
     [(''H'', 1, binary64 1.008), (''C'', 6, binary64 12.011), (''N'', 7, binary64 14.007),
      (''O'', 8, binary64 15.999), (''F'', 9, binary64 18.998), (''Cl'', 17, binary64 35.453)]"

definition table_getAtomicNumber :: "string \<Rightarrow> error + int" where
  "table_getAtomicNumber symb =
     (case map_of periodic_table symb of
        Some (n, w) \<Rightarrow> Inr n
      | None \<Rightarrow> Inl (Invariant ''Element not found''))"

definition table_getAtomicWeight :: "int \<Rightarrow> error + double" where
  "table_getAtomicWeight n =
     (case filter (\<lambda>e. fst (snd e) = n) periodic_table of
        e # _ \<Rightarrow> Inr (snd (snd e))
      | [] \<Rightarrow> Inl (Invariant ''Range Error''))"

text \<open>
  \<open>decimal_atof\<close> reads what \<^verbatim>\<open>strtod\<close> reads of a decimal or hexadecimal number
  (white space, a sign, digits with an optional point, an optional exponent) and rounds
  it to a double; without a number the result is 0.  \<^verbatim>\<open>inf\<close> and \<^verbatim>\<open>nan\<close>,
  which have no value here, are read as no number.
\<close>

fun fraction_value :: "string \<Rightarrow> rat" where
  "fraction_value [] = 0"
| "fraction_value (c # cs) =
     (if isdigit c then (of_int (digit_val c) + fraction_value cs) / 10 else 0)"

definition ishexdigit :: "char \<Rightarrow> bool" where
  "ishexdigit c = (isdigit c \<or> (of_char c :: nat) \<in> {65..70} \<or> (of_char c :: nat) \<in> {97..102})"

definition hex_val :: "char \<Rightarrow> int" where
  "hex_val c =
     (if isdigit c then digit_val c
      else if (of_char c :: nat) \<in> {65..70} then int (of_char c) - 55
      else int (of_char c) - 87)"

fun hex_value :: "int \<Rightarrow> string \<Rightarrow> int" where
  "hex_value acc [] = acc"
| "hex_value acc (c # cs) = (if ishexdigit c then hex_value (16 * acc + hex_val c) cs else acc)"

fun hex_fraction_value :: "string \<Rightarrow> rat" where
  "hex_fraction_value [] = 0"
| "hex_fraction_value (c # cs) =
     (if ishexdigit c then (of_int (hex_val c) + hex_fraction_value cs) / 16 else 0)"

text \<open>The exponent that follows the digits, if there is one: a marker, a sign, digits.\<close>

definition exponent_part :: "string \<Rightarrow> string \<Rightarrow> int" where
  "exponent_part markers rest =
     (case rest of
        [] \<Rightarrow> 0
      | c # cs \<Rightarrow>
          if c \<in> set markers then
            (let ds = (if cs \<noteq> [] \<and> (hd cs = CHR ''-'' \<or> hd cs = CHR ''+'') then tl cs else cs)
             in if ds \<noteq> [] \<and> isdigit (hd ds)
                then (if hd cs = CHR ''-'' then - digits_value 0 ds else digits_value 0 ds)
                else 0)
          else 0)"

definition scale10 :: "int \<Rightarrow> rat \<Rightarrow> rat" where
  "scale10 e r = (if e \<ge> 0 then r * 10 ^ nat e else r / 10 ^ nat (- e))"

definition decimal_number :: "string \<Rightarrow> rat" where
  "decimal_number u =
     (let ip = takeWhile isdigit u;
          v = dropWhile isdigit u;
          point = (v \<noteq> [] \<and> hd v = CHR ''.'');
          fp = (if point then takeWhile isdigit (tl v) else []);
          rest = (if point then dropWhile isdigit (tl v) else v)
      in if ip = [] \<and> fp = [] then 0
         else scale10 (exponent_part ''eE'' rest) (of_int (digits_value 0 ip) + fraction_value fp))"

definition hex_number :: "string \<Rightarrow> rat" where
  "hex_number u =
     (let ip = takeWhile ishexdigit u;
          v = dropWhile ishexdigit u;
          point = (v \<noteq> [] \<and> hd v = CHR ''.'');
          fp = (if point then takeWhile ishexdigit (tl v) else []);
          rest = (if point then dropWhile ishexdigit (tl v) else v)
      in scale2 (exponent_part ''pP'' rest) (of_int (hex_value 0 ip) + hex_fraction_value fp))"

definition has_hex_prefix :: "string \<Rightarrow> bool" where
  "has_hex_prefix u =
     (length u \<ge> 3 \<and> u ! 0 = CHR ''0'' \<and> (u ! 1 = CHR ''x'' \<or> u ! 1 = CHR ''X'')
      \<and> (ishexdigit (u ! 2) \<or> (u ! 2 = CHR ''.'' \<and> length u \<ge> 4 \<and> ishexdigit (u ! 3))))"

definition decimal_atof :: "string \<Rightarrow> double" where
  "decimal_atof s =
     (let t = dropWhile isspace s;
          neg = (t \<noteq> [] \<and> hd t = CHR ''-'');
          u = (if t \<noteq> [] \<and> (hd t = CHR ''-'' \<or> hd t = CHR ''+'') then tl t else t);
          m = (if has_hex_prefix u then hex_number (drop 2 u) else decimal_number u)
      in binary64 (if neg then - m else m))"

definition plain_dataFunc :: "datafunc \<Rightarrow> RWMol \<Rightarrow> nat \<Rightarrow> int" where
  "plain_dataFunc f m i =
     (if f = queryAtomNum then atomicNum (atoms m ! i)
      else if f = queryAtomFormalCharge then formalCharge (atoms m ! i)
      else if f = queryAtomExplicitDegree then getDegree m i
      else 0)"

definition plain_ext :: ext where
  "plain_ext = \<lparr> atof = decimal_atof, getAtomicNumber = table_getAtomicNumber,
      getAtomicWeight = table_getAtomicWeight, queryDataFunc = plain_dataFunc,
      calcExplicitValence = getDegree, cleanUp = Inr, DetectAtomStereoChemistry = Inr,
      removeHs = Inr, sanitizeMol = Inr, ClearSingleBondDirFlags = Inr,
      DetectBondStereoChemistry = Inr, assignStereochemistry = Inr \<rparr>"

definition zero_indeterminate :: indeterminate where
  "zero_indeterminate = \<lparr> nSgroups_uninit = 0, n3DConstraints_uninit = 0 \<rparr>"

subsection \<open>Example inputs\<close>

definition nl :: string where
  "nl = [CHR 0x0A]"

definition two_carbons :: RWMol where
  "two_carbons = new_RWMol \<lparr> atoms := [new_Atom 6, new_Atom 6] \<rparr>"

text \<open>A V2000 molfile of one carbon atom whose property block ends at \<^verbatim>\<open>$$$$\<close>.\<close>

definition methane_dollars :: string where
  "methane_dollars =
     ''methane'' @ nl @ nl @ nl @
     ''  1  0'' @ nl @
     ''    0.0000    0.0000    0.0000 C  '' @ nl @
     ''M  CHG  0'' @ nl @
     ''$$$$'' @ nl"

text \<open>V3000 molfiles of two bonded carbon atoms: with an Sgroup block, and with a
  COUNTS line of two fields.\<close>

definition V3000_head :: string where
  "V3000_head =
     ''ethane'' @ nl @ nl @ nl @
     ''  0  0  0  0  0  0  0  0  0  0999 V3000'' @ nl @
     ''M  V30 BEGIN CTAB'' @ nl"

definition V3000_atoms_bonds :: string where
  "V3000_atoms_bonds =
     ''M  V30 BEGIN ATOM'' @ nl @
     ''M  V30 1 C 0 0 0 0'' @ nl @
     ''M  V30 2 C 1 0 0 0'' @ nl @
     ''M  V30 END ATOM'' @ nl @
     ''M  V30 BEGIN BOND'' @ nl @
     ''M  V30 1 1 1 2'' @ nl @
     ''M  V30 END BOND'' @ nl"

definition V3000_tail :: string where
  "V3000_tail = ''M  V30 END CTAB'' @ nl @ ''M  END'' @ nl"

definition ethane_sgroup :: string where
  "ethane_sgroup =
     V3000_head @ ''M  V30 COUNTS 2 1 1 0 0'' @ nl @ V3000_atoms_bonds @
     ''M  V30 BEGIN SGROUP'' @ nl @
     ''M  V30 1 SUP 1 ATOMS=(1 1)'' @ nl @
     ''M  V30 END SGROUP'' @ nl @
     V3000_tail"

definition ethane_short_counts :: string where
  "ethane_short_counts =
     V3000_head @ ''M  V30 COUNTS 2 1'' @ nl @ V3000_atoms_bonds @ V3000_tail"

definition stale_indeterminate :: indeterminate where
  "stale_indeterminate = \<lparr> nSgroups_uninit = 1, n3DConstraints_uninit = 0 \<rparr>"

subsection \<open>What the property block does to the formal charges\<close>

text \<open>
  The functions of this subsection are not code of the parser: they say what the
  property block is expected to compute, and the theorems compare the parser with them.
  \<open>shape\<close> is the part of the molecule that no property record changes, \<open>charges\<close>
  the formal charges in atom order.
\<close>

definition shape :: "RWMol \<Rightarrow> nat \<times> Bond list \<times> Conformer list" where
  "shape m = (length (atoms m), bonds m, conformers m)"

definition charges :: "RWMol \<Rightarrow> int list" where
  "charges m = map formalCharge (atoms m)"

text \<open>What a property record other than a charge or radical record leaves unchanged.\<close>

definition kept :: "RWMol \<Rightarrow> (nat \<times> Bond list \<times> Conformer list) \<times> int list" where
  "kept m = (shape m, charges m)"


text \<open>
  The entries of a charge record, read with the field reader of the parser: the atom
  index as the parser uses it (the atom number minus one, as an unsigned value) and the
  charge.
\<close>

fun chg_entries_from :: "nat \<Rightarrow> string \<Rightarrow> nat \<Rightarrow> (32 word \<times> int) list" where
  "chg_entries_from 0 text spos = []"
| "chg_entries_from (Suc n) text spos =
     (case (int_field text spos 4, int_field text (spos + 4) 4) of
        (Inr aid, Inr chg) \<Rightarrow> (word_of_int (aid - 1), chg) # chg_entries_from n text (spos + 8)
      | _ \<Rightarrow> [])"

definition chg_entries :: "string \<Rightarrow> (32 word \<times> int) list" where
  "chg_entries text =
     (case int_field text 6 3 of
        Inr nent \<Rightarrow> chg_entries_from (nat nent) text 9
      | Inl e \<Rightarrow> [])"

text \<open>The entries applied in order to a list of charges.\<close>

definition set_charges :: "(32 word \<times> int) list \<Rightarrow> int list \<Rightarrow> int list" where
  "set_charges es cs = foldl (\<lambda>cs (idx, chg). cs [unat idx := chg]) cs es"

definition is_charge_record :: "string \<Rightarrow> bool" where
  "is_charge_record r = (substr0 r 6 = ''M  CHG'')"

definition is_radical_record :: "string \<Rightarrow> bool" where
  "is_radical_record r = (substr0 r 6 = ''M  RAD'')"

text \<open>
  The charges after a list of records: the first charge or radical record sets every
  charge to zero before its entries are applied, a later one does not, and no other
  record touches the charges.
\<close>

fun charges_after :: "string list \<Rightarrow> bool \<Rightarrow> int list \<Rightarrow> int list" where
  "charges_after [] first cs = cs"
| "charges_after (r # rs) first cs =
     (if is_charge_record r then
        charges_after rs False
          (set_charges (chg_entries r) (if first then replicate (length cs) 0 else cs))
      else if is_radical_record r then
        charges_after rs False (if first then replicate (length cs) 0 else cs)
      else charges_after rs first cs)"

text \<open>
  The records the property loop dispatches, read off the stream as the loop reads it: an
  alias record (first character \<^verbatim>\<open>A\<close>) takes the following line with it, and
  the loop stops at the end of the stream, at \<^verbatim>\<open>M  END\<close> and at \<^verbatim>\<open>$$$$\<close>.
\<close>

definition after_record :: "string \<Rightarrow> pstate \<Rightarrow> pstate" where
  "after_record tempStr s =
     (if char_at tempStr 0 = CHR ''A'' then after_line (bump_line s) else s)"

lemma after_record_le: "remaining (after_record t s) \<le> remaining s"
  using after_line_remaining [of "bump_line s"] by (simp add: after_record_def)

function property_lines :: "string \<Rightarrow> pstate \<Rightarrow> string list" where
  "property_lines tempStr s =
     (if \<not> eofbit s \<and> substr0 tempStr 6 \<noteq> ''M  END'' \<and> substr0 tempStr 4 \<noteq> ''$$$$'' then
        tempStr # property_lines (next_line (bump_line (after_record tempStr s)))
                    (after_line (bump_line (after_record tempStr s)))
      else [])"
  by pat_completeness auto
termination
proof (relation "measure (\<lambda>(tempStr, s). 2 * remaining s + (if eofbit s then 0 else 1))")
  show "wf (measure (\<lambda>(tempStr, s). 2 * remaining s + (if eofbit s then 0 else 1)))"
    by simp
next
  fix tempStr :: string and s :: pstate
  assume c: "\<not> eofbit s \<and> substr0 tempStr 6 \<noteq> ''M  END'' \<and> substr0 tempStr 4 \<noteq> ''$$$$''"
  let ?s1 = "after_record tempStr s"
  let ?s3 = "after_line (bump_line ?s1)"
  have le: "remaining ?s1 \<le> remaining s" by (rule after_record_le)
  have g: "remaining ?s3 \<le> remaining ?s1 \<and> (\<not> eofbit ?s1 \<longrightarrow> remaining ?s3 < remaining ?s1)"
    using after_line_remaining [of "bump_line ?s1"] by simp
  have "2 * remaining ?s3 + (if eofbit ?s3 then 0 else 1) < 2 * remaining s + (if eofbit s then 0 else 1)"
  proof (cases "eofbit ?s1")
    case True
    then have "eofbit ?s3" by simp
    moreover have "remaining ?s3 \<le> remaining s" using g le by simp
    ultimately show ?thesis using c by simp
  next
    case False
    then have "remaining ?s3 < remaining s" using g le by simp
    then show ?thesis by simp
  qed
  then show "((next_line (bump_line ?s1), ?s3), (tempStr, s))
             \<in> measure (\<lambda>(tempStr, s). 2 * remaining s + (if eofbit s then 0 else 1))"
    by simp
qed

declare property_lines.simps [simp del]

definition property_records :: "pstate \<Rightarrow> string list" where
  "property_records s = property_lines (next_line s) (bump_line (after_line s))"

text \<open>Two states with the same unread input.\<close>

definition same_input :: "pstate \<Rightarrow> pstate \<Rightarrow> bool" where
  "same_input s t = (stream s = stream t \<and> eofbit s = eofbit t)"


text \<open>\<open>listed rs i c\<close>: some charge record of \<open>rs\<close> has an entry for atom \<open>i\<close> with charge \<open>c\<close>.\<close>

definition listed :: "string list \<Rightarrow> nat \<Rightarrow> int \<Rightarrow> bool" where
  "listed rs i c =
     list_ex (\<lambda>r. is_charge_record r \<and> list_ex (\<lambda>(idx, chg). unat idx = i \<and> chg = c) (chg_entries r)) rs"

text \<open>A property block with two charge records around a radical record, and a molecule
  of two atoms whose atom lines gave them the charge 3.\<close>

definition CHG_RAD_text :: string where
  "CHG_RAD_text =
     ''M  CHG  1   1   2'' @ nl @
     ''M  RAD  1   2   2'' @ nl @
     ''M  CHG  1   2  -1'' @ nl @
     ''M  END'' @ nl"

definition charged_pair :: RWMol where
  "charged_pair = new_RWMol \<lparr> atoms := [setFormalCharge 3 (new_Atom 7), setFormalCharge 3 (new_Atom 8)] \<rparr>"

subsection \<open>Query trees without the sentinel\<close>

text \<open>No node of the tree holds the sentinel; no atom of the molecule has such a tree.\<close>

fun no_magic :: "query \<Rightarrow> bool" where
  "no_magic (Query c d n v f ch) = (v \<noteq> Some MAGIC \<and> list_all no_magic ch)"



text \<open>
  What the theorems on the sentinel observe.  The functions below are not code of the
  parser.  \<open>nodes\<close> lists the data function and the value of every node of a tree,
  parents before children; \<open>erase_values\<close> is the tree without its values, so that two
  trees with the same \<open>nodes\<close> and the same \<open>erase_values\<close> are equal.
  \<open>resolved_node tgt\<close> is what the completion pass is expected to do to one node: a
  value equal to the sentinel is replaced by \<open>tgt\<close> of the node's data function, any
  other value is kept.
\<close>

fun nodes :: "query \<Rightarrow> (datafunc \<times> int option) list" where
  "nodes (Query c d n v f ch) = (f, v) # concat (map nodes ch)"



definition atom_nodes :: "Atom \<Rightarrow> (datafunc \<times> int option) list" where
  "atom_nodes a = (case atomQuery a of None \<Rightarrow> [] | Some q \<Rightarrow> nodes q)"

text \<open>
  \<open>sentinel_counts\<close>: for every atom, the number of ring-bond-count nodes of its tree that
  hold the sentinel.
\<close>

definition rbc_sentinel :: "datafunc \<times> int option \<Rightarrow> bool" where
  "rbc_sentinel e = (fst e = queryAtomRingBondCount \<and> snd e = Some MAGIC)"

definition count_rbc :: "Atom \<Rightarrow> nat" where
  "count_rbc a = length (filter rbc_sentinel (atom_nodes a))"

definition sentinel_counts :: "RWMol \<Rightarrow> nat list" where
  "sentinel_counts m = map (\<lambda>a. length (filter rbc_sentinel (atom_nodes a))) (atoms m)"



text \<open>
  What the record is expected to do: every entry with count \<open>-2\<close> adds one sentinel node
  to its atom and asks for the scan; no other entry does.
\<close>

definition sentinels_after :: "(32 word \<times> int) list \<Rightarrow> nat list \<Rightarrow> nat list" where
  "sentinels_after es cs =
     foldl (\<lambda>cs e. if snd e = - 2 then cs [unat (fst e) := Suc (cs ! unat (fst e))] else cs) cs es"

definition asks_for_scan :: "(32 word \<times> int) list \<Rightarrow> bool" where
  "asks_for_scan es = list_ex (\<lambda>e. snd e = - 2) es"

text \<open>The molecule carries the property \<^verbatim>\<open>_NeedsQueryScan\<close>.\<close>

definition marked :: "RWMol \<Rightarrow> bool" where
  "marked m = hasProp ''_NeedsQueryScan'' (molProps m)"


text \<open>
  Examples: collaborators whose data functions all return 7; a ring-bond-count record
  whose only entry asks for ``as drawn''; a V2000 molfile with that record; and a V3000
  molfile whose first atom asks for the ring-bond count 559038737, the value of the
  sentinel.
\<close>

definition seven_dataFunc_ext :: ext where
  "seven_dataFunc_ext = plain_ext \<lparr> queryDataFunc := \<lambda>f m i. 7 \<rparr>"

definition RBC_as_drawn :: string where
  "RBC_as_drawn = ''M  RBC  1   1  -2''"

definition RBC_molfile :: string where
  "RBC_molfile =
     ''as drawn'' @ nl @ nl @ nl @
     ''  2  1'' @ nl @
     ''    0.0000    0.0000    0.0000 C  '' @ nl @
     ''    1.5000    0.0000    0.0000 C  '' @ nl @
     ''  1  2  1'' @ nl @
     RBC_as_drawn @ nl @
     ''M  END'' @ nl"


subsection \<open>Counts, conformer and bond ends of the parsed molecule\<close>

text \<open>
  The functions of this subsection are not code of the parser.  \<open>skeleton\<close> is what the
  counts and the bond ends of a molecule are read from: the number of atoms, the ends of
  the bonds in bond order, and the number of positions of each conformer.  It is
  \<open>well_formed\<close> when every bond has both ends among the atoms and the two ends differ,
  and there is one conformer with one position per atom.
\<close>

definition ends :: "Bond \<Rightarrow> 32 word \<times> 32 word" where
  "ends b = (beginAtomIdx b, endAtomIdx b)"

definition skeleton :: "RWMol \<Rightarrow> nat \<times> (32 word \<times> 32 word) list \<times> nat list" where
  "skeleton m =
     (length (atoms m), map ends (bonds m), map (\<lambda>c. length (positions c)) (conformers m))"










section \<open>Properties\<close>

subsection \<open>Properties of the conversion helpers\<close>

lemma bindE_simps [simp]:
  "bindE (Inl e) f = Inl e"
  "bindE (Inr v) f = f v"
  by (simp_all add: bindE_def)

lemma bindE_eq_Inr: "bindE m f = Inr y \<longleftrightarrow> (\<exists>v. m = Inr v \<and> f v = Inr y)"
  by (cases m) simp_all

lemma dropWhile_all_iff: "(\<forall>x\<in>set (dropWhile P s). P x) \<longleftrightarrow> (\<forall>x\<in>set s. P x)"
proof
  assume a: "\<forall>x\<in>set (dropWhile P s). P x"
  have "dropWhile P s = []"
  proof (rule ccontr)
    assume n: "dropWhile P s \<noteq> []"
    then have "\<not> P (hd (dropWhile P s))" by (rule hd_dropWhile)
    moreover have "hd (dropWhile P s) \<in> set (dropWhile P s)" using n by (rule hd_in_set)
    ultimately show False using a by blast
  qed
  then show "\<forall>x\<in>set s. P x" by simp
next
  assume "\<forall>x\<in>set s. P x"
  then show "\<forall>x\<in>set (dropWhile P s). P x" by (meson set_dropWhileD)
qed

lemma trim_copy_empty_iff: "trim_copy s = [] \<longleftrightarrow> list_all isspace s"
  by (simp add: trim_copy_def list_all_iff dropWhile_all_iff)

lemma atoi_all_space: "list_all isspace s \<Longrightarrow> atoi s = 0"
proof -
  assume "list_all isspace s"
  then have "dropWhile isspace s = []"
    by (simp add: list_all_iff)
  then have "decimal_value s = 0" unfolding decimal_value_def by (simp only: list.case)
  then show ?thesis by (simp add: atoi_def int32_of_def)
qed

text \<open>
  C6 (as amended).  \<open>toInt\<close> converts with \<open>atoi\<close>, which answers 0 for a field it
  cannot read, so a malformed field is not an error.  With \<open>acceptSpaces\<close> false the
  only failure is a field that starts with a blank and consists of white space only;
  with \<open>acceptSpaces\<close> true nothing fails, and a white-space-only field yields 0.
\<close>

theorem toInt_fails_iff:
  "(toInt s False = Inl bad_lexical_cast \<longleftrightarrow> (char_at s 0 = CHR '' '' \<and> list_all isspace s))
   \<and> (toInt s False \<noteq> Inl bad_lexical_cast \<longrightarrow> toInt s False = Inr (atoi s))
   \<and> toInt s True = Inr (atoi s)
   \<and> (list_all isspace s \<longrightarrow> toInt s True = Inr 0)"
  by (auto simp: toInt_def Let_def trim_copy_empty_iff atoi_all_space)

theorem toInt_fails_iff_witness:
  "toInt ''   '' False = Inl bad_lexical_cast \<and> toInt '' 12'' False = Inr 12
   \<and> toInt ''   '' True = Inr 0"
  using toInt_fails_iff [of "''   ''"] toInt_fails_iff [of "'' 12''"]
  by (simp add: char_at_def isspace_def atoi_def decimal_value_def int32_of_def isdigit_def
        digit_val_def)

theorem toInt_malformed_counterexample:
  "toInt ''abc'' False = Inr 0 \<and> toInt [CHR 0x09, CHR 0x09] False = Inr 0"
  by (simp add: toInt_def atoi_def decimal_value_def int32_of_def char_at_def isspace_def
        isdigit_def trim_copy_def)

subsection \<open>The V2000 bond line\<close>


lemma toInt_cases: "toInt s a = Inl bad_lexical_cast \<or> toInt s a = Inr (atoi s)"
  by (simp add: toInt_def Let_def)

lemma toInt_Inl: "toInt s a = Inl e \<Longrightarrow> e = bad_lexical_cast"
  by (simp add: toInt_def Let_def split: if_splits)

lemma toInt_Inr: "toInt s a = Inr v \<Longrightarrow> v = atoi s"
  by (simp add: toInt_def Let_def split: if_splits)

lemma toInt_fail_atoi: "toInt s a = Inl e \<Longrightarrow> atoi s = 0"
  by (simp add: toInt_def Let_def split: if_splits)

lemma bond_stereo_Inr: "\<exists>b'. bond_stereo text b = Inr b'"
  using toInt_cases [of "take 3 (drop 9 text)" False]
  by (auto simp: bond_stereo_def)

lemma bond_stereo_dir:
  assumes "bond_stereo text b = Inr b'"
  shows "bondDir b' =
     (if bond_field_present text 9 \<and> toInt (take 3 (drop 9 text)) False \<noteq> Inl bad_lexical_cast then
        (if atoi (take 3 (drop 9 text)) = 0 then NONE
         else if atoi (take 3 (drop 9 text)) = 1 then BEGINWEDGE
         else if atoi (take 3 (drop 9 text)) = 6 then BEGINDASH
         else if atoi (take 3 (drop 9 text)) = 3 then EITHERDOUBLE
         else if atoi (take 3 (drop 9 text)) = 4 then UNKNOWN
         else bondDir b)
      else bondDir b)"
  using assms toInt_cases [of "take 3 (drop 9 text)" False]
  by (auto simp: bond_stereo_def setBondDir_def split: if_splits)

lemma bond_topology_fail_indep:
  "(bond_topology text b = Inl e) = (bond_topology text b0 = Inl e)"
  using toInt_cases [of "take 3 (drop 15 text)" False]
  by (auto simp: bond_topology_def bond_expandQuery_def QueryBond_of_def split: if_splits)

lemma bond_topology_dir: "bond_topology text b = Inr b' \<Longrightarrow> bondDir b' = bondDir b"
  using toInt_cases [of "take 3 (drop 15 text)" False]
  by (auto simp: bond_topology_def bond_expandQuery_def QueryBond_of_def split: if_splits)

lemma bond_reactStatus_Inr: "\<exists>b'. bond_reactStatus text b = Inr b' \<and> bondDir b' = bondDir b"
  using toInt_cases [of "take 3 (drop 18 text)" False]
  by (auto simp: bond_reactStatus_def)

lemma bond_optional_fields_Inl: "(bond_optional_fields text b = Inl e) = (bond_topology text (new_Bond SINGLE) = Inl e)"
proof -
  obtain b2 where s: "bond_stereo text b = Inr b2" using bond_stereo_Inr by blast
  have t: "(bond_topology text b2 = Inl e) = (bond_topology text (new_Bond SINGLE) = Inl e)"
    by (rule bond_topology_fail_indep)
  show ?thesis
  proof (cases "bond_topology text b2")
    case (Inl e')
    then show ?thesis using s t by (simp add: bond_optional_fields_def)
  next
    case (Inr b3)
    obtain b4 where "bond_reactStatus text b3 = Inr b4" using bond_reactStatus_Inr by blast
    then show ?thesis using s t Inr by (simp add: bond_optional_fields_def)
  qed
qed

lemma bond_optional_fields_dir:
  assumes "bond_optional_fields text b = Inr b'" and "atoi (take 3 (drop 9 text)) \<notin> {1, 3, 4, 6}"
    and "bondDir b = NONE"
  shows "bondDir b' = NONE"
proof -
  obtain b2 where s: "bond_stereo text b = Inr b2" using bond_stereo_Inr by blast
  then obtain b3 where t: "bond_topology text b2 = Inr b3" and r: "bond_reactStatus text b3 = Inr b'"
    using assms(1) by (auto simp: bond_optional_fields_def bindE_eq_Inr)
  have "bondDir b2 = NONE" using bond_stereo_dir [OF s] assms(2,3) by (auto split: if_splits)
  moreover have "bondDir b3 = bondDir b2" using bond_topology_dir [OF t] .
  moreover have "bondDir b' = bondDir b3" using bond_reactStatus_Inr [of _ b3] r by (metis sum.inject(2))
  ultimately show ?thesis by simp
qed

lemma bond_topology_cong:
  assumes "length t1 = length t2" "drop 12 t1 = drop 12 t2"
  shows "bond_topology t1 b = bond_topology t2 b"
proof -
  have "drop 15 t1 = drop 15 t2"
    using arg_cong [OF assms(2), of "drop 3"] by simp
  then show ?thesis using assms(1) by (simp add: bond_topology_def bond_field_present_def)
qed

lemma int_field_cong:
  assumes "take 9 t1 = take 9 t2" "pos + n \<le> 9"
  shows "int_field t1 pos n = int_field t2 pos n"
proof -
  have "take n (drop pos (take 9 t1)) = take n (drop pos (take 9 t2))" using assms(1) by simp
  then have e: "take n (drop pos t1) = take n (drop pos t2)"
    using assms(2) by (simp add: drop_take)
  have "length (take 9 t1) = length (take 9 t2)" using assms(1) by simp
  then have "(pos > length t1) = (pos > length t2)" using assms(2) by (auto simp: min_def split: if_splits)
  then show ?thesis using e by (simp add: int_field_def substr_def)
qed

lemma bond_of_type_dir: "bondDir (fst (bond_of_type t)) = NONE"
  by (simp add: bond_of_type_def new_Bond_def setBondQuery_def)

text \<open>
  C9.  The stereo field of a V2000 bond line never makes the line fail.  Two lines
  that agree outside columns 9 to 11 are refused in the same cases, with the same
  error, and log the same warnings; and unless the field reads 1, 3, 4 or 6 (another
  number, or text that is no number) the bond direction of the result is \<open>NONE\<close>.
\<close>

theorem stereo_field_never_fails:
  assumes "length t1 = length t2" and "take 9 t1 = take 9 t2" and "drop 12 t1 = drop 12 t2"
  shows "(fst (ParseMolFileBondLine t1) = Inl e \<longleftrightarrow> fst (ParseMolFileBondLine t2) = Inl e)
       \<and> snd (ParseMolFileBondLine t1) = snd (ParseMolFileBondLine t2)
       \<and> (\<forall>b. fst (ParseMolFileBondLine t1) = Inr b \<and> atoi (take 3 (drop 9 t1)) \<notin> {1, 3, 4, 6}
              \<longrightarrow> bondDir b = NONE)"
proof (cases "length t1 < 9")
  case True
  then have "t1 = t2" using assms by (metis append_take_drop_id take_all linorder_not_less nat_less_le)
  then show ?thesis using True by (simp add: ParseMolFileBondLine_def quiet_def)
next
  case False
  have f1: "int_field t1 0 3 = int_field t2 0 3" by (rule int_field_cong [OF assms(2)]) simp
  have f2: "int_field t1 3 3 = int_field t2 3 3" by (rule int_field_cong [OF assms(2)]) simp
  have f3: "int_field t1 6 3 = int_field t2 6 3" by (rule int_field_cong [OF assms(2)]) simp
  have top: "bond_topology t1 (new_Bond SINGLE) = bond_topology t2 (new_Bond SINGLE)"
    by (rule bond_topology_cong [OF assms(1,3)])
  show ?thesis
  proof (cases "int_field t2 0 3")
    case (Inl e1)
    then show ?thesis using False f1 assms(1)
      by (simp add: ParseMolFileBondLine_def quiet_def bindW_def)
  next
    case i1: (Inr idx1)
    show ?thesis
    proof (cases "int_field t2 3 3")
      case (Inl e2)
      then show ?thesis using False f1 f2 i1 assms(1)
        by (simp add: ParseMolFileBondLine_def quiet_def bindW_def)
    next
      case i2: (Inr idx2)
      show ?thesis
      proof (cases "int_field t2 6 3")
        case (Inl e3)
        then show ?thesis using False f1 f2 f3 i1 i2 assms(1)
          by (simp add: ParseMolFileBondLine_def quiet_def bindW_def)
      next
        case i3: (Inr bType)
        let ?b = "(fst (bond_of_type bType)) \<lparr> beginAtomIdx := word_of_int (idx1 - 1),
                          endAtomIdx := word_of_int (idx2 - 1) \<rparr>"
        have p1: "ParseMolFileBondLine t1 = (bond_optional_fields t1 ?b, snd (bond_of_type bType))"
          using False f1 f2 f3 i1 i2 i3
          by (simp add: ParseMolFileBondLine_def quiet_def bindW_def)
        have p2: "ParseMolFileBondLine t2 = (bond_optional_fields t2 ?b, snd (bond_of_type bType))"
          using False i1 i2 i3 assms(1)
          by (simp add: ParseMolFileBondLine_def quiet_def bindW_def)
        have d: "bondDir ?b = NONE" by (simp add: bond_of_type_dir)
        have "(bond_optional_fields t1 ?b = Inl e) = (bond_optional_fields t2 ?b = Inl e)"
          by (simp add: bond_optional_fields_Inl top)
        moreover have "\<forall>b. bond_optional_fields t1 ?b = Inr b \<and> atoi (take 3 (drop 9 t1)) \<notin> {1, 3, 4, 6}
              \<longrightarrow> bondDir b = NONE"
          using bond_optional_fields_dir [OF _ _ d] by blast
        ultimately show ?thesis by (simp add: p1 p2)
      qed
    qed
  qed
qed


theorem stereo_field_never_fails_witness:
  "length ''  1  2  1  9'' = length ''  1  2  1  0''
   \<and> take 9 ''  1  2  1  9'' = take 9 ''  1  2  1  0''
   \<and> drop 12 ''  1  2  1  9'' = drop 12 ''  1  2  1  0''
   \<and> (\<exists>b. fst (ParseMolFileBondLine ''  1  2  1  9'') = Inr b \<and> bondDir b = NONE)
   \<and> snd (ParseMolFileBondLine ''  1  2  1  9'') = []"
proof -
  have e: "snd (ParseMolFileBondLine ''  1  2  1  0'') = []" by code_simp
  have n: "\<not> (fst (ParseMolFileBondLine ''  1  2  1  0'') = Inl (projl (fst (ParseMolFileBondLine ''  1  2  1  9''))))"
    by code_simp
  have a: "atoi (take 3 (drop 9 ''  1  2  1  9'')) \<notin> {1, 3, 4, 6}" by code_simp
  note t = stereo_field_never_fails [of "''  1  2  1  9''" "''  1  2  1  0''"
      "projl (fst (ParseMolFileBondLine ''  1  2  1  9''))"]
  have ok: "\<exists>b. fst (ParseMolFileBondLine ''  1  2  1  9'') = Inr b"
    using t n by (cases "fst (ParseMolFileBondLine ''  1  2  1  9'')") simp_all
  then show ?thesis using t e a by auto
qed


subsection \<open>The formal charges after the property block\<close>

lemma getAtomWithIdx_Inr:
  "getAtomWithIdx m idx = Inr a \<Longrightarrow> a = atoms m ! unat idx \<and> unat idx < length (atoms m)"
  by (simp add: getAtomWithIdx_def split: if_splits)

lemma replaceAtom_Inr:
  "replaceAtom m idx a = Inr m' \<Longrightarrow>
     m' = m \<lparr> atoms := (atoms m) [unat idx := a] \<rparr> \<and> unat idx < length (atoms m)"
  by (auto simp: replaceAtom_def split: if_splits)

lemma updateAtom_Inr:
  "updateAtom m idx f = Inr m' \<Longrightarrow>
     m' = m \<lparr> atoms := (atoms m) [unat idx := f (atoms m ! unat idx)] \<rparr> \<and> unat idx < length (atoms m)"
  by (auto simp: updateAtom_def bindE_eq_Inr dest!: getAtomWithIdx_Inr)

lemma kept_update:
  assumes "i < length (atoms m)" and "formalCharge a = formalCharge (atoms m ! i)"
  shows "kept (m \<lparr> atoms := (atoms m) [i := a] \<rparr>) = kept m"
  using assms by (simp add: kept_def shape_def charges_def map_update list_update_same_conv)

lemma shape_update [simp]: "shape (m \<lparr> atoms := (atoms m) [i := a] \<rparr>) = shape m"
  by (simp add: shape_def)

lemma kept_shape: "kept m' = kept m \<Longrightarrow> shape m' = shape m"
  by (simp add: kept_def)

lemma kept_charges: "kept m' = kept m \<Longrightarrow> charges m' = charges m"
  by (simp add: kept_def)

lemma setters_charge [simp]:
  "formalCharge (setMass v a) = formalCharge a"
  "formalCharge (setAtomProp k p a) = formalCharge a"
  "formalCharge (setQuery q a) = formalCharge a"
  "formalCharge (setAtomicNum n a) = formalCharge a"
  "formalCharge (QueryAtom_of a) = formalCharge a"
  "formalCharge (setNumRadicalElectrons r a) = formalCharge a"
  "formalCharge (setIsAromatic b a) = formalCharge a"
  "formalCharge (setNoImplicit b a) = formalCharge a"
  by (simp_all add: setMass_def setAtomProp_def setQuery_def setAtomicNum_def QueryAtom_of_def
        setNumRadicalElectrons_def setIsAromatic_def setNoImplicit_def)

lemma expandQuery_Inr:
  "expandQuery q how a = Inr a' \<Longrightarrow> \<exists>q'. a' = a \<lparr> atomQuery := Some q' \<rparr>"
  by (auto simp: expandQuery_def split: option.splits)

lemma expandQuery_charge: "expandQuery q how a = Inr a' \<Longrightarrow> formalCharge a' = formalCharge a"
  by (auto dest: expandQuery_Inr)

lemma updateAtom_kept:
  assumes "updateAtom m idx f = Inr m'" and "\<And>a. formalCharge (f a) = formalCharge a"
  shows "kept m' = kept m"
  using updateAtom_Inr [OF assms(1)] assms(2) by (simp add: kept_update)

lemmas updateAtom_kept_setters =
  updateAtom_kept [where f = "setMass v" for v, simplified]
  updateAtom_kept [where f = "setAtomProp k p" for k p, simplified]
  updateAtom_kept [where f = "setNumRadicalElectrons r" for r, simplified]
  updateAtom_kept [where f = "setIsAromatic b" for b, simplified]

lemma replaceAtom_kept:
  assumes "replaceAtom m idx a = Inr m'" and "formalCharge a = formalCharge (atoms m ! unat idx)"
  shows "kept m' = kept m"
  using replaceAtom_Inr [OF assms(1)] assms(2) by (simp add: kept_update)

lemma replaceAtomWithQueryAtom_kept:
  assumes "replaceAtomWithQueryAtom m idx = Inr m'"
  shows "kept m' = kept m"
proof -
  obtain atom where a: "getAtomWithIdx m idx = Inr atom"
    using assms by (auto simp: replaceAtomWithQueryAtom_def bindE_eq_Inr)
  note ai = getAtomWithIdx_Inr [OF a]
  show ?thesis
  proof (cases "hasQuery atom")
    case True
    then show ?thesis using assms a by (simp add: replaceAtomWithQueryAtom_def)
  next
    case False
    then obtain qa qa' where
      1: "(if formalCharge atom \<noteq> 0
                then expandQuery (makeAtomFormalChargeQuery (formalCharge atom)) COMPOSITE_AND
                       (QueryAtom_of atom)
                else Inr (QueryAtom_of atom)) = Inr qa"
      and 2: "(if hasProp ''_hasMassQuery'' (atomProps atom)
                then expandQuery (makeAtomMassQuery (double_to_int (mass atom))) COMPOSITE_AND qa
                else Inr qa) = Inr qa'"
      and 3: "replaceAtom m idx qa' = Inr m'"
      using assms a by (auto simp: replaceAtomWithQueryAtom_def bindE_eq_Inr)
    have "formalCharge qa = formalCharge atom"
      using 1 by (auto split: if_splits dest!: expandQuery_charge)
    moreover have "formalCharge qa' = formalCharge qa"
      using 2 by (auto split: if_splits dest!: expandQuery_charge)
    ultimately show ?thesis using replaceAtom_kept [OF 3] ai by simp
  qed
qed

lemma promote_and_expand_kept:
  "promote_and_expand m idx q = Inr m' \<Longrightarrow> kept m' = kept m"
  unfolding promote_and_expand_def
  by (auto simp: bindE_eq_Inr split: if_splits
           dest!: replaceAtomWithQueryAtom_kept getAtomWithIdx_Inr expandQuery_charge
           dest: replaceAtom_kept)

lemma ParseIsotopeLine_entries_kept:
  "ParseIsotopeLine_entries X n text spos m = Inr m' \<Longrightarrow> kept m' = kept m"
  by (induction n arbitrary: spos m)
     (auto simp: bindE_eq_Inr split: if_splits dest!: updateAtom_kept_setters)

lemma ParseIsotopeLine_kept: "ParseIsotopeLine X m text = Inr m' \<Longrightarrow> kept m' = kept m"
  by (auto simp: ParseIsotopeLine_def bindE_eq_Inr dest: ParseIsotopeLine_entries_kept)

lemma bindW_Inr:
  "fst (bindW m f) = Inr y \<longleftrightarrow> (\<exists>v. fst m = Inr v \<and> fst (f v) = Inr y)"
  by (cases "fst m") (auto simp: bindW_def)

lemma quiet_fst [simp]: "fst (quiet r) = r"
  by (simp add: quiet_def)

lemma ParseSubstitutionCountLine_entries_kept:
  "fst (ParseSubstitutionCountLine_entries n text spos m) = Inr m' \<Longrightarrow> kept m' = kept m"
  by (induction n arbitrary: spos m)
     (auto simp: bindE_eq_Inr bindW_Inr split: if_splits dest!: promote_and_expand_kept)

lemma ParseSubstitutionCountLine_kept:
  "fst (ParseSubstitutionCountLine m text) = Inr m' \<Longrightarrow> kept m' = kept m"
  by (auto simp: ParseSubstitutionCountLine_def bindW_Inr dest: ParseSubstitutionCountLine_entries_kept)

lemma ParseUnsaturationLine_entries_kept:
  "ParseUnsaturationLine_entries n text spos m = Inr m' \<Longrightarrow> kept m' = kept m"
  by (induction n arbitrary: spos m)
     (auto simp: bindE_eq_Inr split: if_splits dest!: promote_and_expand_kept)

lemma ParseUnsaturationLine_kept: "ParseUnsaturationLine m text = Inr m' \<Longrightarrow> kept m' = kept m"
  by (auto simp: ParseUnsaturationLine_def bindE_eq_Inr dest: ParseUnsaturationLine_entries_kept)

lemma setMolProp_kept [simp]: "kept (setMolProp k v m) = kept m"
  by (simp add: kept_def shape_def charges_def setMolProp_def)

lemma ParseRingBondCountLine_entries_kept:
  "ParseRingBondCountLine_entries n text spos m = Inr m' \<Longrightarrow> kept m' = kept m"
  by (induction n arbitrary: spos m)
     (auto simp: bindE_eq_Inr split: if_splits prod.splits dest!: promote_and_expand_kept)

lemma ParseRingBondCountLine_kept: "ParseRingBondCountLine m text = Inr m' \<Longrightarrow> kept m' = kept m"
  by (auto simp: ParseRingBondCountLine_def bindE_eq_Inr dest: ParseRingBondCountLine_entries_kept)

lemma ParseOldAtomList_entries_charge:
  "ParseOldAtomList_entries n i text q a = Inr (q', a') \<Longrightarrow> formalCharge a' = formalCharge a"
  by (induction n arbitrary: i q a) (auto simp: bindE_eq_Inr split: if_splits)

lemma ParseOldAtomList_kept: "ParseOldAtomList m text = Inr m' \<Longrightarrow> kept m' = kept m"
  unfolding ParseOldAtomList_def
  by (auto simp: bindE_eq_Inr split: prod.splits
           dest!: ParseOldAtomList_entries_charge getAtomWithIdx_Inr
           dest: replaceAtom_kept)

lemma bindE_InrE:
  assumes "bindE m f = Inr y"
  obtains v where "m = Inr v" and "f v = Inr y"
  using assms by (auto simp: bindE_eq_Inr)

lemma ParseNewAtomList_entries_charge:
  "ParseNewAtomList_entries X n i m idx text a = Inr (Some a') \<Longrightarrow>
     (case a of None \<Rightarrow> True | Some a0 \<Rightarrow> formalCharge a0 = formalCharge (atoms m ! unat idx)) \<Longrightarrow>
     formalCharge a' = formalCharge (atoms m ! unat idx)"
proof (induction n arbitrary: i a)
  case 0
  then show ?case by simp
next
  case (Suc n)
  have ok: "\<not> length text < 16 + i * 4 + 4"
    using Suc.prems(1) by (auto split: if_splits)
  with Suc.prems(1) have "bindE (substr text (16 + i * 4) 4) (\<lambda>f.
        bindE (erase_from_space f) (\<lambda>atSymb.
        bindE (getAtomicNumber X atSymb) (\<lambda>atNum.
        bindE (if i = 0
               then bindE (getAtomWithIdx m idx) (\<lambda>atom.
                      Inr (setAtomicNum atNum (QueryAtom_of atom)))
               else (case a of None \<Rightarrow> Inl (Undefined ''null atom'')
                     | Some qa \<Rightarrow> expandQuery (makeAtomNumEqualsQuery atNum) COMPOSITE_OR qa)) (\<lambda>a'.
        ParseNewAtomList_entries X n (Suc i) m idx text (Some a'))))) = Inr (Some a')"
    by simp
  then obtain f where "bindE (erase_from_space f) (\<lambda>atSymb.
        bindE (getAtomicNumber X atSymb) (\<lambda>atNum.
        bindE (if i = 0
               then bindE (getAtomWithIdx m idx) (\<lambda>atom.
                      Inr (setAtomicNum atNum (QueryAtom_of atom)))
               else (case a of None \<Rightarrow> Inl (Undefined ''null atom'')
                     | Some qa \<Rightarrow> expandQuery (makeAtomNumEqualsQuery atNum) COMPOSITE_OR qa)) (\<lambda>a'.
        ParseNewAtomList_entries X n (Suc i) m idx text (Some a')))) = Inr (Some a')"
    by (rule bindE_InrE)
  then obtain atSymb where "bindE (getAtomicNumber X atSymb) (\<lambda>atNum.
        bindE (if i = 0
               then bindE (getAtomWithIdx m idx) (\<lambda>atom.
                      Inr (setAtomicNum atNum (QueryAtom_of atom)))
               else (case a of None \<Rightarrow> Inl (Undefined ''null atom'')
                     | Some qa \<Rightarrow> expandQuery (makeAtomNumEqualsQuery atNum) COMPOSITE_OR qa)) (\<lambda>a'.
        ParseNewAtomList_entries X n (Suc i) m idx text (Some a'))) = Inr (Some a')"
    by (rule bindE_InrE)
  then obtain atNum where "bindE (if i = 0
               then bindE (getAtomWithIdx m idx) (\<lambda>atom.
                      Inr (setAtomicNum atNum (QueryAtom_of atom)))
               else (case a of None \<Rightarrow> Inl (Undefined ''null atom'')
                     | Some qa \<Rightarrow> expandQuery (makeAtomNumEqualsQuery atNum) COMPOSITE_OR qa)) (\<lambda>a'.
        ParseNewAtomList_entries X n (Suc i) m idx text (Some a')) = Inr (Some a')"
    by (rule bindE_InrE)
  then obtain a1 where
    s: "(if i = 0
         then bindE (getAtomWithIdx m idx) (\<lambda>atom. Inr (setAtomicNum atNum (QueryAtom_of atom)))
         else (case a of None \<Rightarrow> Inl (Undefined ''null atom'')
               | Some qa \<Rightarrow> expandQuery (makeAtomNumEqualsQuery atNum) COMPOSITE_OR qa)) = Inr a1"
    and l: "ParseNewAtomList_entries X n (Suc i) m idx text (Some a1) = Inr (Some a')"
    by (rule bindE_InrE)
  have "formalCharge a1 = formalCharge (atoms m ! unat idx)"
  proof (cases "i = 0")
    case True
    then show ?thesis using s by (auto simp: bindE_eq_Inr dest!: getAtomWithIdx_Inr)
  next
    case False
    then obtain qa where "a = Some qa" and "expandQuery (makeAtomNumEqualsQuery atNum) COMPOSITE_OR qa = Inr a1"
      using s by (cases a) auto
    then show ?thesis using Suc.prems(2) by (auto dest!: expandQuery_charge)
  qed
  then show ?case using Suc.IH [OF l] by simp
qed

lemma ParseNewAtomList_kept:
  assumes "ParseNewAtomList X m text = Inr m'"
  shows "kept m' = kept m"
proof -
  have "\<not> length text < 15" using assms by (auto simp: ParseNewAtomList_def split: if_splits)
  with assms have "bindE (PRECONDITION (substr0 text 6 = ''M  ALS'') ''bad atom list line'') (\<lambda>_.
        bindE (uint_field text 7 3) (\<lambda>idx1.
        bindE (RANGE_CHECK_u (idx1 - 1) (getNumAtoms m - 1)) (\<lambda>_.
        bindE (int_field text 10 3) (\<lambda>nQueries.
        bindE (PRECONDITION (nQueries > 0) ''no queries provided'') (\<lambda>_.
        bindE (ParseNewAtomList_entries X (nat nQueries) 0 m (idx1 - 1) text None) (\<lambda>a.
        (case a of
           None \<Rightarrow> Inl (Invariant ''no atom built'')
         | Some qa \<Rightarrow>
            (case atomQuery qa of
               None \<Rightarrow> Inl (Invariant ''plain atoms have no Query'')
             | Some q \<Rightarrow>
                 if char_at text 14 = CHR ''T'' then replaceAtom m (idx1 - 1) (setQuery (setNegation True q) qa)
                 else if char_at text 14 = CHR ''F'' then replaceAtom m (idx1 - 1) (setQuery (setNegation False q) qa)
                 else Inl (FileParseException
                        (''Unrecognized atom-list query modifier: '' @ [char_at text 14]))))))))))
      = Inr m'"
    by (simp add: ParseNewAtomList_def)
  then obtain idx1 nQueries a where
    e: "ParseNewAtomList_entries X (nat nQueries) 0 m (idx1 - 1) text None = Inr a"
    and f: "(case a of
           None \<Rightarrow> Inl (Invariant ''no atom built'')
         | Some qa \<Rightarrow>
            (case atomQuery qa of
               None \<Rightarrow> Inl (Invariant ''plain atoms have no Query'')
             | Some q \<Rightarrow>
                 if char_at text 14 = CHR ''T'' then replaceAtom m (idx1 - 1) (setQuery (setNegation True q) qa)
                 else if char_at text 14 = CHR ''F'' then replaceAtom m (idx1 - 1) (setQuery (setNegation False q) qa)
                 else Inl (FileParseException
                        (''Unrecognized atom-list query modifier: '' @ [char_at text 14])))) = Inr m'"
    by (elim bindE_InrE) 
  from f obtain qa where a: "a = Some qa" by (cases a) auto
  from f a obtain q where r: "replaceAtom m (idx1 - 1) (setQuery q qa) = Inr m'"
    by (cases "atomQuery qa") (auto split: if_splits)
  have "formalCharge qa = formalCharge (atoms m ! unat (idx1 - 1))"
    using ParseNewAtomList_entries_charge [OF e [unfolded a]] by simp
  then show ?thesis using replaceAtom_kept [OF r] by simp
qed

lemma ParseRGroupLabels_entries_kept:
  "ParseRGroupLabels_entries n i text m = Inr m' \<Longrightarrow> kept m' = kept m"
proof (induction n arbitrary: i m)
  case 0
  then show ?case by simp
next
  case (Suc n)
  from Suc.prems have "bindE (uint_field text (10 + i * 8) 3) (\<lambda>atIdx1.
     bindE (uint_field text (10 + i * 8 + 4) 3) (\<lambda>rLabel.
       if atIdx1 - 1 > getNumAtoms m
       then Inl (FileParseException (''Attempt to set R group label on nonexistent atom ''
                   @ show_nat (unat (atIdx1 - 1))))
       else
         bindE (getAtomWithIdx m (atIdx1 - 1)) (\<lambda>atom.
         bindE (replaceAtom m (atIdx1 - 1)
                  (setQuery makeAtomNullQuery
                    ((if rLabel > 0 \<and> rLabel < 999 then setMass (of_nat (unat rLabel)) else id)
                      (setAtomProp ''_MolFileRLabel'' (PUInt rLabel) (QueryAtom_of atom))))) (\<lambda>mol'.
         ParseRGroupLabels_entries n (Suc i) text mol')))) = Inr m'"
    by simp
  then obtain atIdx1 rLabel where "(if atIdx1 - 1 > getNumAtoms m
       then Inl (FileParseException (''Attempt to set R group label on nonexistent atom ''
                   @ show_nat (unat (atIdx1 - 1))))
       else
         bindE (getAtomWithIdx m (atIdx1 - 1)) (\<lambda>atom.
         bindE (replaceAtom m (atIdx1 - 1)
                  (setQuery makeAtomNullQuery
                    ((if rLabel > 0 \<and> rLabel < 999 then setMass (of_nat (unat rLabel)) else id)
                      (setAtomProp ''_MolFileRLabel'' (PUInt rLabel) (QueryAtom_of atom))))) (\<lambda>mol'.
         ParseRGroupLabels_entries n (Suc i) text mol'))) = Inr m'"
    by (elim bindE_InrE)
  then have "bindE (getAtomWithIdx m (atIdx1 - 1)) (\<lambda>atom.
         bindE (replaceAtom m (atIdx1 - 1)
                  (setQuery makeAtomNullQuery
                    ((if rLabel > 0 \<and> rLabel < 999 then setMass (of_nat (unat rLabel)) else id)
                      (setAtomProp ''_MolFileRLabel'' (PUInt rLabel) (QueryAtom_of atom))))) (\<lambda>mol'.
         ParseRGroupLabels_entries n (Suc i) text mol')) = Inr m'"
    by (cases "getNumAtoms m < atIdx1 - 1") (simp_all split del: if_split)
  then obtain atom m1 where g: "getAtomWithIdx m (atIdx1 - 1) = Inr atom"
    and r: "replaceAtom m (atIdx1 - 1)
                  (setQuery makeAtomNullQuery
                    ((if rLabel > 0 \<and> rLabel < 999 then setMass (of_nat (unat rLabel)) else id)
                      (setAtomProp ''_MolFileRLabel'' (PUInt rLabel) (QueryAtom_of atom)))) = Inr m1"
    and l: "ParseRGroupLabels_entries n (Suc i) text m1 = Inr m'"
    by (elim bindE_InrE)
  have "kept m1 = kept m"
    using r getAtomWithIdx_Inr [OF g] by (intro replaceAtom_kept [OF r]) simp
  then show ?case using Suc.IH [OF l] by simp
qed

lemma ParseRGroupLabels_kept: "ParseRGroupLabels m text = Inr m' \<Longrightarrow> kept m' = kept m"
  by (auto simp: ParseRGroupLabels_def bindE_eq_Inr dest: ParseRGroupLabels_entries_kept)

lemma ParseAtomAlias_kept: "ParseAtomAlias m text nextLine = Inr m' \<Longrightarrow> kept m' = kept m"
  by (auto simp: ParseAtomAlias_def bindE_eq_Inr dest!: updateAtom_kept_setters)

lemma ParseAtomValue_kept: "ParseAtomValue m text = Inr m' \<Longrightarrow> kept m' = kept m"
  by (auto simp: ParseAtomValue_def bindE_eq_Inr dest!: updateAtom_kept_setters)

lemma resetFormalCharges_shape [simp]: "shape (resetFormalCharges m) = shape m"
  by (simp add: resetFormalCharges_def shape_def)

lemma updateAtom_shape: "updateAtom m idx f = Inr m' \<Longrightarrow> shape m' = shape m"
  by (auto dest!: updateAtom_Inr)

lemma ParseChargeLine_entries_shape:
  "ParseChargeLine_entries n text spos m = Inr m' \<Longrightarrow> shape m' = shape m"
  by (induction n arbitrary: spos m) (auto simp: bindE_eq_Inr dest!: updateAtom_shape)

lemma ParseChargeLine_shape: "ParseChargeLine m text f = Inr m' \<Longrightarrow> shape m' = shape m"
  by (auto simp: ParseChargeLine_def bindE_eq_Inr dest!: ParseChargeLine_entries_shape)

lemma ParseRadicalLine_entries_kept:
  "ParseRadicalLine_entries n text spos m = Inr m' \<Longrightarrow> kept m' = kept m"
  by (induction n arbitrary: spos m)
     (auto simp: bindE_eq_Inr split: if_splits dest!: updateAtom_kept_setters)

lemma resetFormalCharges_charges [simp]:
  "charges (resetFormalCharges m) = replicate (length (atoms m)) 0"
  by (simp add: resetFormalCharges_def charges_def setFormalCharge_def map_replicate_const
        comp_def)

lemma ParseRadicalLine_shape: "ParseRadicalLine m text f = Inr m' \<Longrightarrow> shape m' = shape m"
  by (auto simp: ParseRadicalLine_def bindE_eq_Inr split: if_splits
           dest!: ParseRadicalLine_entries_kept kept_shape)

lemma ParseRadicalLine_charges:
  "ParseRadicalLine m text f = Inr m' \<Longrightarrow>
     charges m' = (if f then replicate (length (atoms m)) 0 else charges m)"
  by (auto simp: ParseRadicalLine_def bindE_eq_Inr split: if_splits
           dest!: ParseRadicalLine_entries_kept kept_charges)

lemma same_input_refl [simp]: "same_input s s"
  by (simp add: same_input_def)

lemma same_input_std_getline:
  "same_input s t \<Longrightarrow> fst (std_getline s) = fst (std_getline t)
      \<and> same_input (snd (std_getline s)) (snd (std_getline t))"
  unfolding same_input_def std_getline_def
  by (cases "dropWhile (\<lambda>c. c \<noteq> CHR 0x0A) (stream t)") (simp_all del: dropWhile_eq_Nil_conv)

lemma same_input_next_line: "same_input s t \<Longrightarrow> next_line s = next_line t"
  using same_input_std_getline [of s t] by (simp add: next_line_def)

lemma same_input_after_line: "same_input s t \<Longrightarrow> same_input (after_line s) (after_line t)"
  using same_input_std_getline [of s t] by (simp add: after_line_def)

lemma same_input_bump_line: "same_input s t \<Longrightarrow> same_input (bump_line s) (bump_line t)"
  by (simp add: same_input_def bump_line_def)

lemma same_input_after_record:
  "same_input s t \<Longrightarrow> same_input (after_record r s) (after_record r t)"
  by (simp add: after_record_def same_input_after_line same_input_bump_line)

lemma property_lines_cong:
  "same_input s t \<Longrightarrow> property_lines r s = property_lines r t"
proof (induction r s arbitrary: t rule: property_lines.induct)
  case (1 tempStr s)
  have e: "eofbit t = eofbit s" using "1.prems" by (simp add: same_input_def)
  let ?s1 = "bump_line (after_record tempStr s)"
  let ?t1 = "bump_line (after_record tempStr t)"
  have b: "same_input ?s1 ?t1"
    using "1.prems" by (intro same_input_bump_line same_input_after_record)
  show ?case
  proof (cases "\<not> eofbit s \<and> substr0 tempStr 6 \<noteq> ''M  END'' \<and> substr0 tempStr 4 \<noteq> ''$$$$''")
    case True
    have "property_lines (next_line ?s1) (after_line ?s1) = property_lines (next_line ?s1) (after_line ?t1)"
      using True same_input_after_line [OF b] by (rule "1.IH")
    moreover have "property_lines tempStr s = tempStr # property_lines (next_line ?s1) (after_line ?s1)"
      using True by (subst property_lines.simps) simp
    moreover have "property_lines tempStr t = tempStr # property_lines (next_line ?t1) (after_line ?t1)"
      using True e by (subst property_lines.simps) simp
    ultimately show ?thesis
      using same_input_next_line [OF b] by simp
  next
    case False
    have "property_lines tempStr s = []"
      using False by (subst property_lines.simps) auto
    moreover have "property_lines tempStr t = []"
      using False e by (subst property_lines.simps) auto
    ultimately show ?thesis by simp
  qed
qed

lemma set_charges_Nil [simp]: "set_charges [] cs = cs"
  by (simp add: set_charges_def)

lemma set_charges_Cons [simp]:
  "set_charges ((idx, chg) # es) cs = set_charges es (cs [unat idx := chg])"
  by (simp add: set_charges_def)

lemma length_set_charges [simp]: "length (set_charges es cs) = length cs"
  by (induction es arbitrary: cs) auto

lemma updateAtom_charges:
  "updateAtom m idx (setFormalCharge chg) = Inr m' \<Longrightarrow>
     charges m' = (charges m) [unat idx := chg]"
  by (auto dest!: updateAtom_Inr simp: charges_def map_update setFormalCharge_def)

lemma ParseChargeLine_entries_charges:
  "ParseChargeLine_entries n text spos m = Inr m' \<Longrightarrow>
     charges m' = set_charges (chg_entries_from n text spos) (charges m)"
  by (induction n arbitrary: spos m) (auto simp: bindE_eq_Inr dest!: updateAtom_charges)

lemma ParseChargeLine_charges:
  "ParseChargeLine m text f = Inr m' \<Longrightarrow>
     charges m' = set_charges (chg_entries text)
                    (if f then replicate (length (charges m)) 0 else charges m)"
  by (auto simp: ParseChargeLine_def bindE_eq_Inr chg_entries_def charges_def [of m]
           dest!: ParseChargeLine_entries_charges)

lemma length_charges [simp]: "length (charges m) = length (atoms m)"
  by (simp add: charges_def)

lemma bindM_liftE_returnM_Inr:
  "bindM (liftE r) (\<lambda>m. returnM (g m)) s = (Inr y, s1) \<longleftrightarrow> (\<exists>m. r = Inr m \<and> y = g m \<and> s1 = s)"
  by (cases r) (auto simp: returnM_def)

lemma bindM_liftW_returnM_Inr:
  "bindM (liftW w) (\<lambda>m. returnM (g m)) s = (Inr y, s1) \<longleftrightarrow>
     (\<exists>m. fst w = Inr m \<and> y = g m \<and> s1 = s \<lparr> warnings := warnings s @ snd w \<rparr>)"
  by (cases "fst w") (auto simp: bindM_def liftW_def returnM_def)

lemma same_input_warnings [simp]: "same_input (s \<lparr> warnings := w \<rparr>) s"
  by (simp add: same_input_def)

lemma record_first_char:
  "is_charge_record t \<Longrightarrow> char_at t 0 = CHR ''M''"
  "is_radical_record t \<Longrightarrow> char_at t 0 = CHR ''M''"
  by (cases t; simp add: is_charge_record_def is_radical_record_def substr0_def char_at_def)+

lemma property_record_charge:
  assumes "is_charge_record t" and "property_record X mol t f s = (Inr (mol', f'), s1)"
  shows "shape mol' = shape mol
    \<and> charges mol' = set_charges (chg_entries t) (if f then replicate (length (charges mol)) 0 else charges mol)
    \<and> f' = False \<and> s1 = s"
  using assms(2) record_first_char(1) [OF assms(1)] assms(1)
  by (auto simp: property_record_def is_charge_record_def bindM_liftE_returnM_Inr
           dest: ParseChargeLine_charges ParseChargeLine_shape)

lemma property_record_radical:
  assumes "is_radical_record t" and "property_record X mol t f s = (Inr (mol', f'), s1)"
  shows "shape mol' = shape mol
    \<and> charges mol' = (if f then replicate (length (charges mol)) 0 else charges mol)
    \<and> f' = False \<and> s1 = s"
  using assms(2) record_first_char(2) [OF assms(1)] assms(1)
  by (auto simp: property_record_def is_radical_record_def bindM_liftE_returnM_Inr
           dest: ParseRadicalLine_charges ParseRadicalLine_shape)

lemma property_record_other:
  assumes "\<not> is_charge_record t" and "\<not> is_radical_record t"
    and "property_record X mol t f s = (Inr (mol', f'), s1)"
  shows "kept mol' = kept mol \<and> f' = f \<and> same_input s1 (after_record t s)"
  using assms
  by (auto simp: property_record_def is_charge_record_def is_radical_record_def Let_def
                 bindM_liftE_returnM_Inr bindM_liftW_returnM_Inr after_record_def returnM_def
           split: if_splits
           dest!: ParseAtomAlias_kept ParseAtomValue_kept ParseNewAtomList_kept
                  ParseIsotopeLine_kept ParseRGroupLabels_kept ParseRingBondCountLine_kept
                  ParseSubstitutionCountLine_kept ParseUnsaturationLine_kept)

lemma after_record_not_alias: "char_at t 0 = CHR ''M'' \<Longrightarrow> after_record t s = s"
  by (simp add: after_record_def)

lemma property_record_same_input:
  assumes "property_record X mol t f s = (Inr (mol', f'), s1)"
  shows "same_input s1 (after_record t s)"
proof (cases "is_charge_record t \<or> is_radical_record t")
  case True
  then have "char_at t 0 = CHR ''M''" using record_first_char by blast
  moreover have "s1 = s"
    using True assms property_record_charge property_record_radical by blast
  ultimately show ?thesis by (simp add: after_record_not_alias)
next
  case False
  then show ?thesis using assms property_record_other by blast
qed

lemma property_lines_after_record:
  assumes "property_record X mol t f s = (Inr (mol', f'), s1)"
  shows "property_lines (next_line (bump_line s1)) (after_line (bump_line s1))
       = property_lines (next_line (bump_line (after_record t s)))
           (after_line (bump_line (after_record t s)))"
proof -
  have b: "same_input (bump_line s1) (bump_line (after_record t s))"
    using property_record_same_input [OF assms] by (rule same_input_bump_line)
  show ?thesis
    using same_input_next_line [OF b] property_lines_cong [OF same_input_after_line [OF b]]
    by simp
qed

lemma property_record_step:
  assumes "property_record X mol t f s = (Inr (mol', f'), s1)"
  shows "shape mol' = shape mol"
    and "charges_after (t # rs) f (charges mol) = charges_after rs f' (charges mol')"
proof -
  consider (c) "is_charge_record t" | (r) "\<not> is_charge_record t" "is_radical_record t"
    | (o) "\<not> is_charge_record t" "\<not> is_radical_record t" by blast
  then have "shape mol' = shape mol
    \<and> charges_after (t # rs) f (charges mol) = charges_after rs f' (charges mol')"
  proof cases
    case c
    then show ?thesis using property_record_charge [OF c assms] by simp
  next
    case r
    then show ?thesis using property_record_radical [OF r(2) assms] by simp
  next
    case o
    then show ?thesis
      using property_record_other [OF o assms] by (simp add: kept_def)
  qed
  then show "shape mol' = shape mol"
    and "charges_after (t # rs) f (charges mol) = charges_after rs f' (charges mol')" by simp_all
qed

lemma ParseMolBlockProperties_loop_charges:
  "ParseMolBlockProperties_loop X mol t f s = (Inr (fc, mol'), s') \<Longrightarrow>
     shape mol' = shape mol
     \<and> charges mol' = charges_after (property_lines t s) f (charges mol)"
proof (induction X mol t f s arbitrary: fc mol' s' rule: ParseMolBlockProperties_loop.induct)
  case (1 X mol tempStr first s)
  show ?case
  proof (cases "\<not> eofbit s \<and> substr0 tempStr 6 \<noteq> ''M  END'' \<and> substr0 tempStr 4 \<noteq> ''$$$$''")
    case False
    then have "ParseMolBlockProperties_loop X mol tempStr first s
         = (Inr (char_at tempStr 0 = CHR ''M'' \<and> substr0 tempStr 6 = ''M  END'', mol), s)"
      by (subst ParseMolBlockProperties_loop.simps) auto
    with "1.prems" have "mol' = mol" by simp
    moreover have "property_lines tempStr s = []"
      using False by (subst property_lines.simps) auto
    ultimately show ?thesis by simp
  next
    case True
    obtain r s1 where p: "property_record X mol tempStr first s = (r, s1)"
      by (cases "property_record X mol tempStr first s")
    have "(case r of Inl e \<Rightarrow> (Inl e, s1)
           | Inr (m1, f1) \<Rightarrow> ParseMolBlockProperties_loop X m1 (next_line (bump_line s1)) f1
                              (after_line (bump_line s1))) = (Inr (fc, mol'), s')"
      using "1.prems" True p by (subst (asm) ParseMolBlockProperties_loop.simps) simp
    then obtain m1 f1 where r: "r = Inr (m1, f1)"
      and l: "ParseMolBlockProperties_loop X m1 (next_line (bump_line s1)) f1
                (after_line (bump_line s1)) = (Inr (fc, mol'), s')"
      by (cases r) auto
    have ih: "shape mol' = shape m1
      \<and> charges mol' = charges_after (property_lines (next_line (bump_line s1))
                           (after_line (bump_line s1))) f1 (charges m1)"
      using "1.IH" [OF True p [symmetric] r refl l] .
    have p': "property_record X mol tempStr first s = (Inr (m1, f1), s1)"
      using p r by simp
    have pl: "property_lines tempStr s
        = tempStr # property_lines (next_line (bump_line s1)) (after_line (bump_line s1))"
      using True property_lines_after_record [OF p'] by (subst property_lines.simps) simp
    show ?thesis
      using ih property_record_step [OF p'] pl by simp
  qed
qed

lemma ParseMolBlockProperties_charges:
  assumes "ParseMolBlockProperties X mol s = (Inr (fc, mol'), s')"
  shows "shape mol' = shape mol
     \<and> charges mol' = charges_after (property_records s) True (charges mol)"
proof -
  let ?t = "next_line s"
  let ?r = "if char_at ?t 0 \<noteq> CHR ''M'' \<and> char_at ?t 0 \<noteq> CHR ''A''
                     \<and> char_at ?t 0 \<noteq> CHR ''V'' \<and> char_at ?t 0 \<noteq> CHR ''G''
                   then ParseOldAtomList mol ?t else Inr mol"
  from assms have "bindM (liftE ?r) (\<lambda>m1. ParseMolBlockProperties_loop X m1 ?t True)
      (bump_line (after_line s)) = (Inr (fc, mol'), s')"
    by (simp add: ParseMolBlockProperties_def)
  then obtain m1 where r: "?r = Inr m1"
    and l: "ParseMolBlockProperties_loop X m1 ?t True (bump_line (after_line s)) = (Inr (fc, mol'), s')"
    by (cases ?r) simp_all
  have "kept m1 = kept mol"
    using r by (auto split: if_splits dest: ParseOldAtomList_kept)
  then show ?thesis
    using ParseMolBlockProperties_loop_charges [OF l]
    by (simp add: kept_def property_records_def)
qed

lemma length_charges_after [simp]: "length (charges_after rs f cs) = length cs"
  by (induction rs arbitrary: f cs) auto

lemma set_charges_nth:
  "set_charges es cs ! i = cs ! i
     \<or> list_ex (\<lambda>(idx, chg). unat idx = i \<and> chg = set_charges es cs ! i) es"
proof (induction es arbitrary: cs)
  case Nil
  then show ?case by simp
next
  case (Cons e es)
  obtain idx chg where e: "e = (idx, chg)" by (cases e)
  show ?case
    using Cons.IH [of "cs [unat idx := chg]"] e
    by (cases "unat idx = i"; cases "i < length cs") (auto simp: list_update_beyond)
qed

lemma listed_Cons:
  "listed (r # rs) i c \<longleftrightarrow>
     (is_charge_record r \<and> list_ex (\<lambda>(idx, chg). unat idx = i \<and> chg = c) (chg_entries r))
     \<or> listed rs i c"
  by (simp add: listed_def)

lemma charges_after_False:
  "charges_after rs False cs ! i = cs ! i \<or> listed rs i (charges_after rs False cs ! i)"
proof (induction rs arbitrary: cs)
  case Nil
  then show ?case by simp
next
  case (Cons r rs)
  show ?case
  proof (cases "is_charge_record r")
    case True
    then show ?thesis
      using Cons.IH [of "set_charges (chg_entries r) cs"] set_charges_nth [of "chg_entries r" cs i]
      by (auto simp: listed_Cons)
  next
    case False
    then show ?thesis using Cons.IH [of cs] by (auto simp: listed_Cons)
  qed
qed

lemma charges_after_True:
  assumes "list_ex (\<lambda>r. is_charge_record r \<or> is_radical_record r) rs" and "i < length cs"
  shows "charges_after rs True cs ! i = 0 \<or> listed rs i (charges_after rs True cs ! i)"
  using assms
proof (induction rs)
  case Nil
  then show ?case by simp
next
  case (Cons r rs)
  let ?z = "replicate (length cs) (0::int)"
  show ?case
  proof (cases "is_charge_record r")
    case True
    have "set_charges (chg_entries r) ?z ! i = 0
      \<or> list_ex (\<lambda>(idx, chg). unat idx = i \<and> chg = set_charges (chg_entries r) ?z ! i) (chg_entries r)"
      using set_charges_nth [of "chg_entries r" ?z i] Cons.prems(2) by simp
    then show ?thesis
      using True charges_after_False [of rs "set_charges (chg_entries r) ?z" i]
      by (auto simp: listed_Cons)
  next
    case False
    show ?thesis
    proof (cases "is_radical_record r")
      case True
      then show ?thesis
        using False charges_after_False [of rs ?z i] Cons.prems(2) by (auto simp: listed_Cons)
    next
      case n: False
      then show ?thesis using False Cons by (auto simp: listed_Cons)
    qed
  qed
qed

text \<open>
  C4.  Whenever the property block is parsed without an exception, the formal charges
  of the result are those of \<open>charges_after\<close> on the dispatched records: only the first
  charge or radical record resets the charges, and later ones do not reset again.  If a
  charge record was dispatched, every atom's charge is zero or the charge of an entry
  listed for that atom.
\<close>

theorem first_charge_record_resets:
  assumes "ParseMolBlockProperties X mol s = (Inr (fileComplete, mol'), s')"
  shows "length (atoms mol') = length (atoms mol)
    \<and> charges mol' = charges_after (property_records s) True (charges mol)
    \<and> (list_ex is_charge_record (property_records s) \<longrightarrow>
         (\<forall>i < length (atoms mol').
            charges mol' ! i = 0 \<or> listed (property_records s) i (charges mol' ! i)))"
proof -
  have a: "shape mol' = shape mol"
    and b: "charges mol' = charges_after (property_records s) True (charges mol)"
    using ParseMolBlockProperties_charges [OF assms] by simp_all
  have n: "length (atoms mol') = length (atoms mol)"
    using a by (simp add: shape_def)
  have "charges mol' ! i = 0 \<or> listed (property_records s) i (charges mol' ! i)"
    if "list_ex is_charge_record (property_records s)" and "i < length (atoms mol')" for i
  proof -
    have "list_ex (\<lambda>r. is_charge_record r \<or> is_radical_record r) (property_records s)"
      using that(1) by (auto simp: list_ex_iff)
    then show ?thesis
      unfolding b using that(2) n by (intro charges_after_True) simp_all
  qed
  then show ?thesis using n b by blast
qed

lemma CHG_RAD_run:
  "(case ParseMolBlockProperties plain_ext charged_pair (initial_state CHG_RAD_text) of
      (Inr (fileComplete, m), s') \<Rightarrow> fileComplete \<and> charges m = [2, - 1]
    | (Inl e, s') \<Rightarrow> False)"
  unfolding CHG_RAD_text_def nl_def by code_simp

lemma CHG_RAD_records:
  "property_records (initial_state CHG_RAD_text)
     = [''M  CHG  1   1   2'', ''M  RAD  1   2   2'', ''M  CHG  1   2  -1'']"
  unfolding CHG_RAD_text_def nl_def by code_simp

theorem first_charge_record_resets_witness:
  "\<exists>m s'. ParseMolBlockProperties plain_ext charged_pair (initial_state CHG_RAD_text)
            = (Inr (True, m), s')
     \<and> charges charged_pair = [3, 3]
     \<and> property_records (initial_state CHG_RAD_text)
          = [''M  CHG  1   1   2'', ''M  RAD  1   2   2'', ''M  CHG  1   2  -1'']
     \<and> charges m = [2, - 1]
     \<and> charges m = charges_after (property_records (initial_state CHG_RAD_text)) True [3, 3]
     \<and> list_ex is_charge_record (property_records (initial_state CHG_RAD_text))
     \<and> listed (property_records (initial_state CHG_RAD_text)) 0 2
     \<and> listed (property_records (initial_state CHG_RAD_text)) 1 (- 1)"
proof -
  obtain m s' where r: "ParseMolBlockProperties plain_ext charged_pair (initial_state CHG_RAD_text)
            = (Inr (True, m), s')" and c: "charges m = [2, - 1]"
    using CHG_RAD_run by (auto split: prod.splits sum.splits)
  have i: "charges charged_pair = [3, 3]"
    by (simp add: charged_pair_def charges_def setFormalCharge_def)
  have e: "list_ex is_charge_record (property_records (initial_state CHG_RAD_text))"
    unfolding CHG_RAD_records by (simp add: is_charge_record_def substr0_def)
  note t = first_charge_record_resets [OF r]
  have n: "length (atoms m) = 2"
    using t [THEN conjunct1] by (simp add: charged_pair_def)
  have l: "\<forall>i<2. charges m ! i = 0
      \<or> listed (property_records (initial_state CHG_RAD_text)) i (charges m ! i)"
    using t [THEN conjunct2, THEN conjunct2] e n by simp
  have "listed (property_records (initial_state CHG_RAD_text)) 0 2"
    using l [rule_format, of 0] c by simp
  moreover have "listed (property_records (initial_state CHG_RAD_text)) 1 (- 1)"
    using l [rule_format, of 1] c by simp
  ultimately show ?thesis
    using r c i e t [THEN conjunct2, THEN conjunct1] CHG_RAD_records by auto
qed

subsection \<open>The sentinel and the completion pass\<close>



lemma complete_atom_length [simp]:
  "length (atoms (complete_atom X v mol i)) = length (atoms mol)"
  by (simp add: complete_atom_def split: option.splits)



lemma complete_atom_molProps [simp]:
  "molProps (complete_atom X v mol i) = molProps mol"
  by (simp add: complete_atom_def split: option.splits)



lemma hasProp_clearProp [simp]: "\<not> hasProp k (clearProp k ps)"
  by (auto simp: hasProp_def clearProp_def)



lemma no_magic_nodes: "no_magic q \<longleftrightarrow> list_all (\<lambda>e. snd e \<noteq> Some MAGIC) (nodes q)"
  by (induction q) (auto simp: list_all_iff)


lemma count_rbc_plain [simp]: "atomQuery a = None \<Longrightarrow> count_rbc a = 0"
  by (simp add: count_rbc_def atom_nodes_def)


lemma count_rbc_QueryAtom_of [simp]: "count_rbc (QueryAtom_of a) = 0"
  by (simp add: count_rbc_def atom_nodes_def QueryAtom_of_def makeAtomNumEqualsQuery_def
        rbc_sentinel_def)







lemma sentinel_counts_setMolProp [simp]: "sentinel_counts (setMolProp k v m) = sentinel_counts m"
  by (simp add: sentinel_counts_def setMolProp_def)

lemma sentinels_after_Nil [simp]: "sentinels_after [] cs = cs"
  by (simp add: sentinels_after_def)

lemma sentinels_after_Cons [simp]:
  "sentinels_after (e # es) cs =
     sentinels_after es (if snd e = - 2 then cs [unat (fst e) := Suc (cs ! unat (fst e))] else cs)"
  by (simp add: sentinels_after_def)

lemma asks_for_scan_simps [simp]:
  "asks_for_scan [] = False"
  "asks_for_scan (e # es) = (snd e = - 2 \<or> asks_for_scan es)"
  by (simp_all add: asks_for_scan_def)










lemma atoms_clearMolProp [simp]: "atoms (clearMolProp k m) = atoms m"
  by (simp add: clearMolProp_def)

lemma not_marked_clearMolProp [simp]: "\<not> marked (clearMolProp ''_NeedsQueryScan'' m)"
  by (simp add: marked_def clearMolProp_def)






subsection \<open>Counts, conformer and bond ends of the parsed molecule\<close>




lemma returnM_eq [simp]: "returnM v s = (Inr y, s') \<longleftrightarrow> (v = y \<and> s = s')"
  by (auto simp: returnM_def)

lemma throwM_eq [simp]: "throwM e s = (Inr y, s') \<longleftrightarrow> False"
  by (simp add: throwM_def)













lemma apply_conf_dimension_frame [simp]:
  "atoms (fst (apply_conf_dimension m c)) = atoms m"
  "bonds (fst (apply_conf_dimension m c)) = bonds m"
  "conformers (fst (apply_conf_dimension m c)) = conformers m"
  "positions (snd (apply_conf_dimension m c)) = positions c"
  by (simp_all add: apply_conf_dimension_def clearMolProp_def)

lemma skeleton_shape: "shape m' = shape m \<Longrightarrow> skeleton m' = skeleton m"
  by (simp add: shape_def skeleton_def)






lemma setAtomBookmark_frame [simp]:
  "atoms (setAtomBookmark m a k) = atoms m"
  "bonds (setAtomBookmark m a k) = bonds m"
  "conformers (setAtomBookmark m a k) = conformers m"
  by (simp_all add: setAtomBookmark_def)

lemma setBondBookmark_frame [simp]:
  "atoms (setBondBookmark m a k) = atoms m"
  "bonds (setBondBookmark m a k) = bonds m"
  "conformers (setBondBookmark m a k) = conformers m"
  by (simp_all add: setBondBookmark_def)


lemma get_line_no_simp [simp]: "bindM get_line_no f s = f (line s) s"
  by (simp add: bindM_def get_line_no_def)










lemma liftE_Inr [simp]: "liftE r s = (Inr v, s') \<longleftrightarrow> (r = Inr v \<and> s' = s)"
  by (auto simp: liftE_def)


lemma skeleton_calcExplicitValences [simp]:
  "skeleton (calcExplicitValences X m) = skeleton m"
  by (simp add: skeleton_def calcExplicitValences_def)

lemma skeleton_complete_atom [simp]: "skeleton (complete_atom X v m i) = skeleton m"
  by (simp add: skeleton_def complete_atom_def split: option.splits)

lemma skeleton_foldl_complete_atom:
  "skeleton (foldl (complete_atom X v) m is) = skeleton m"
  by (induction "is" arbitrary: m) simp_all

lemma skeleton_complete_queries [simp]: "skeleton (complete_queries X m) = skeleton m"
  by (simp add: complete_queries_def CompleteMolQueries_def skeleton_foldl_complete_atom)
     (simp add: skeleton_def clearMolProp_def)








subsection \<open>Evaluating the parser on the example inputs\<close>

lemmas example_defs = nl_def methane_dollars_def V3000_head_def V3000_atoms_bonds_def
  V3000_tail_def ethane_sgroup_def ethane_short_counts_def

lemma ethane_short_counts_stale:
  "MolBlockToMol plain_ext stale_indeterminate ethane_short_counts False False
     = Inl (FileParseException ''BEGIN SGROUP line not found'')"
  unfolding example_defs by code_simp

lemma ethane_short_counts_zero:
  "(case MolBlockToMol plain_ext zero_indeterminate ethane_short_counts False False of
      Inr (Some m) \<Rightarrow> map atomicNum (atoms m) = [6, 6] \<and> length (bonds m) = 1
    | _ \<Rightarrow> False)"
  unfolding example_defs by code_simp

text \<open>
  C7.  The range check of \<^verbatim>\<open>ParseRGroupLabels\<close> is \<^verbatim>\<open>atIdx > getNumAtoms()\<close>.
  In a molecule of two atoms the label for atom 3 (index 2, the first index past the
  last atom) passes it and reaches \<^verbatim>\<open>getAtomWithIdx(2)\<close>: no
  \<^verbatim>\<open>FileParseException\<close> is raised.  The label for atom 4 is refused as the
  claim says.
\<close>

theorem RGP_index_past_last_atom:
  "ParseRGroupLabels two_carbons ''M  RGP  1   3   5'' = Inl (Invariant ''Range Error'')
   \<and> ParseRGroupLabels two_carbons ''M  RGP  1   4   5''
       = Inl (FileParseException ''Attempt to set R group label on nonexistent atom 3'')"
  by code_simp

text \<open>
  C2.  A well-formed V3000 molfile with one Sgroup: the skip loop leaves at the first
  line of the block that is not \<^verbatim>\<open>END SGROUP\<close>, the line that follows is taken for
  the end of the CTAB, and the parse is refused.
\<close>

theorem sgroup_block_breaks_parse:
  "MolBlockToMol plain_ext zero_indeterminate ethane_sgroup False False
     = Inl (FileParseException ''END CTAB line not found'')"
  unfolding example_defs by code_simp

text \<open>
  C10.  With a COUNTS line of two fields \<^verbatim>\<open>nSgroups\<close> is read without having been
  assigned.  When the stale value is not zero the Sgroup branch is taken and the parse
  is refused; only when it happens to be zero does the parse go on to
  \<^verbatim>\<open>END CTAB\<close>.
\<close>

theorem short_counts_reads_unassigned_nSgroups:
  "MolBlockToMol plain_ext stale_indeterminate ethane_short_counts False False
     = Inl (FileParseException ''BEGIN SGROUP line not found'')
   \<and> (\<exists>m. MolBlockToMol plain_ext zero_indeterminate ethane_short_counts False False
              = Inr (Some m))"
  using ethane_short_counts_stale ethane_short_counts_zero
  by (auto split: sum.splits option.splits)

text \<open>
  C8.  Two runs on the same bytes with the same flags: the outcome depends on what the
  unassigned locals hold, so one run can return a molecule and the other raise.
\<close>

theorem two_runs_can_differ:
  "\<exists>U1 U2 m. MolBlockToMol plain_ext U1 ethane_short_counts False False = Inr (Some m)
           \<and> MolBlockToMol plain_ext U2 ethane_short_counts False False \<noteq> Inr (Some m)"
proof -
  obtain m where "MolBlockToMol plain_ext zero_indeterminate ethane_short_counts False False
              = Inr (Some m)"
    using ethane_short_counts_zero by (auto split: sum.splits option.splits)
  moreover have "MolBlockToMol plain_ext stale_indeterminate ethane_short_counts False False
              \<noteq> Inr (Some m)"
    using ethane_short_counts_stale by simp
  ultimately show ?thesis by blast
qed

text \<open>
  A V2000 molfile whose ring-bond-count record asks for ``as drawn'': after the parse the
  node holds the value of the data function, and the mark is gone.
\<close>

lemma as_drawn_parse_resolved:
  "(case MolBlockToMol seven_dataFunc_ext zero_indeterminate RBC_molfile False False of
      Inr (Some m) \<Rightarrow>
        map atom_nodes (atoms m)
          = [[(noDataFunc, None), (queryAtomNum, Some 6), (queryAtomRingBondCount, Some 7)], []]
        \<and> \<not> marked m
    | _ \<Rightarrow> False)"
  unfolding RBC_molfile_def RBC_as_drawn_def nl_def by code_simp






subsection \<open>The end of the property block\<close>

text \<open>
  C5 (as amended).  A line that starts with \<^verbatim>\<open>$$$$\<close> ends the property loop
  without an exception, with \<^verbatim>\<open>fileComplete\<close> false; the orchestrator then
  raises, so the parse as a whole fails.
\<close>

theorem dollars_end_block_and_fail_parse:
  assumes "take 4 tempStr = ''$$$$''"
  shows "ParseMolBlockProperties_loop X mol tempStr firstChargeLine s = (Inr (False, mol), s)
    \<and> bindM (ParseMolBlockProperties_loop X mol tempStr firstChargeLine)
         (\<lambda>(fileComplete, res). finish_parse X sanitize removeHs_flag (fileComplete, res, chir)) s
       = (Inl (FileParseException ''Problems encountered parsing Mol data, M  END ''), s)"
proof -
  have "take 6 tempStr \<noteq> ''M  END''"
  proof
    assume "take 6 tempStr = ''M  END''"
    then have "take 4 (take 6 tempStr) = ''M  E''" by simp
    then show False using assms by simp
  qed
  then have l: "ParseMolBlockProperties_loop X mol tempStr firstChargeLine s = (Inr (False, mol), s)"
    using assms by (subst ParseMolBlockProperties_loop.simps) (simp add: substr0_def)
  then show ?thesis by (simp add: bindM_def finish_parse_def throwM_def)
qed

theorem dollars_end_block_and_fail_parse_witness:
  "take 4 ''$$$$'' = ''$$$$''
   \<and> ParseMolBlockProperties_loop plain_ext two_carbons ''$$$$'' True (initial_state [])
       = (Inr (False, two_carbons), initial_state [])
   \<and> bindM (ParseMolBlockProperties_loop plain_ext two_carbons ''$$$$'' True)
         (\<lambda>(fileComplete, res). finish_parse plain_ext False False (fileComplete, res, False))
         (initial_state [])
       = (Inl (FileParseException ''Problems encountered parsing Mol data, M  END ''),
          initial_state [])"
  using dollars_end_block_and_fail_parse [of "''$$$$''" plain_ext two_carbons True
      "initial_state []" False False False]
  by simp

theorem dollars_parse_fails_counterexample:
  "MolBlockToMol plain_ext zero_indeterminate methane_dollars False False
     = Inl (FileParseException ''Problems encountered parsing Mol data, M  END '')"
  unfolding example_defs by code_simp

end
